theory Spec2Isabelle
  imports Complex_Main
begin

section \<open>Data model of the hologram application (src/index.tsx)\<close>

text \<open>
  The component \<open>HologramApp\<close> keeps its state in React state cells and refs. The model
  is one record holding those cells, together with the part of the browser the code
  talks to: the pending \<open>setTimeout\<close> callbacks, the registered \<open>deviceorientation\<close>
  listeners, the interval of the timer feature and the tones started on the audio context.
\<close>

datatype AppState = Start | Menu | Hologram

datatype ActiveHologram =
  HNone | Clock | Calendar | Calculator | Timer | Alarm | Flashlight | Memo
  | SpiritLevel | Dictation | Compass | Imprint | Privacy

datatype TimerMode = Stopwatch | Countdown

datatype Permission = Unknown | Prompt | Granted | Denied

datatype SensorSupport = Checking | Supported | Unsupported

text \<open>One entry of \<open>sosPattern\<close>: \<open>{ on, duration }\<close>, the duration in milliseconds.\<close>

record signal =
  on :: bool
  duration :: nat

text \<open>
  The closures handed to \<open>window.setTimeout\<close>: the light transition of the visual SOS
  effect, its \<open>schedulePattern\<close> (the loop restart), the tone start of the audio SOS
  effect, its \<open>schedulePattern\<close>, and the timeout of the sensor check, which holds the
  detection listener it removes.
\<close>

datatype callback =
  SetLight bool
  | VisualLoop
  | PlayTone nat
  | AudioLoop
  | SensorTimeout nat

record timeout =
  tid :: nat
  due :: nat
  run :: callback

text \<open>
  The two closures registered for \<open>deviceorientation\<close>: \<open>listener\<close> (the one-shot
  detection listener) and \<open>handleOrientation\<close>. Every run of the sensor effect creates new
  closures; the number paired with the kind in \<open>listeners\<close> is the closure's identity.
\<close>

datatype listenerFn = Detect | HandleOrientation

text \<open>The callback of the timer feature's \<open>setInterval\<close>.\<close>

datatype intervalFn = Decrement | Increment

text \<open>A tone started by \<open>playTone\<close>: oscillator frequency, start and length in ms.\<close>

record tone =
  frequency :: nat
  startedAt :: nat
  lengthMs :: nat

text \<open>What the code reads of a \<open>Date\<close> and of a \<open>DeviceOrientationEvent\<close>.\<close>

record date =
  getHours :: nat
  getMinutes :: nat
  getSeconds :: nat

record orientationEvent =
  alpha :: "real option"
  beta :: "real option"
  gamma :: "real option"

record app =
  appState :: AppState
  activeHologram :: ActiveHologram
  currentDateTime :: date
  timerSeconds :: int
  isTimerActive :: bool
  timerFinished :: bool
  timerMode :: TimerMode
  alarmTime :: "string option"
  isAlarmRinging :: bool
  isFlashlightOn :: bool
  isSosActive :: bool
  isAudioSosActive :: bool
  isSosLightVisible :: bool
  sosTimeoutRef :: "nat list"
  sosAudioTimeoutRef :: "nat list"
  audioContextRef :: bool
  isRecording :: bool
  orientation :: "real \<times> real \<times> real"
  permissionState :: Permission
  sensorSupportState :: SensorSupport
  sensorCheckTimeoutRef :: "nat option"
  \<comment> \<open>the browser\<close>
  clock :: nat
  lastTimerId :: nat
  timers :: "timeout list"
  nextFn :: nat
  listeners :: "(nat \<times> listenerFn) list"
  handleOrientationFn :: nat
  timerInterval :: "intervalFn option"
  visualSosCleanup :: bool
  audioSosCleanup :: bool
  tones :: "tone list"
  pendingPermission :: nat
  \<comment> \<open>the platform\<close>
  requestPermissionApi :: bool
  audioContextApi :: bool

section \<open>Timers of the browser\<close>

text \<open>
  \<open>window.setTimeout(cb, delay)\<close> registers the callback to run \<open>delay\<close> ms from now and
  returns a fresh id, an integer greater than zero; \<open>clearTimeout(id)\<close> drops the pending
  callback with that id.
\<close>

definition setTimeout :: "callback \<Rightarrow> nat \<Rightarrow> app \<Rightarrow> app \<times> nat" where
  "setTimeout cb delay s =
     (let i = Suc (lastTimerId s)
      in (s\<lparr>timers := timers s @ [\<lparr>tid = i, due = clock s + delay, run = cb\<rparr>],
            lastTimerId := i\<rparr>, i))"

definition clearTimeout :: "nat \<Rightarrow> app \<Rightarrow> app" where
  "clearTimeout i s = s\<lparr>timers := filter (\<lambda>t. tid t \<noteq> i) (timers s)\<rparr>"

section \<open>Flashlight: the SOS pattern and the visual channel\<close>

definition sosPattern :: "signal list" where
  "sosPattern =
     [\<lparr>on = True, duration = 200\<rparr>, \<lparr>on = False, duration = 200\<rparr>,
      \<lparr>on = True, duration = 200\<rparr>, \<lparr>on = False, duration = 200\<rparr>,
      \<lparr>on = True, duration = 200\<rparr>, \<lparr>on = False, duration = 700\<rparr>,
      \<lparr>on = True, duration = 600\<rparr>, \<lparr>on = False, duration = 200\<rparr>,
      \<lparr>on = True, duration = 600\<rparr>, \<lparr>on = False, duration = 200\<rparr>,
      \<lparr>on = True, duration = 600\<rparr>, \<lparr>on = False, duration = 700\<rparr>,
      \<lparr>on = True, duration = 200\<rparr>, \<lparr>on = False, duration = 200\<rparr>,
      \<lparr>on = True, duration = 200\<rparr>, \<lparr>on = False, duration = 200\<rparr>,
      \<lparr>on = True, duration = 200\<rparr>, \<lparr>on = False, duration = 2000\<rparr>]"

text \<open>\<open>sosTimeoutRef.current.forEach(clearTimeout); sosTimeoutRef.current = []\<close>\<close>

definition clearVisualSosTimeouts :: "app \<Rightarrow> app" where
  "clearVisualSosTimeouts s =
     (fold clearTimeout (sosTimeoutRef s) s)\<lparr>sosTimeoutRef := []\<rparr>"

text \<open>
  The \<open>forEach\<close> of the visual \<open>schedulePattern\<close>, carrying the state of the browser, the
  array \<open>timeouts\<close> and \<open>cumulativeDelay\<close>.
\<close>

fun visualForEach :: "signal list \<Rightarrow> app \<times> nat list \<times> nat \<Rightarrow> app \<times> nat list \<times> nat" where
  "visualForEach [] acc = acc"
| "visualForEach (sig # rest) (s, timeouts, cumulativeDelay) =
     (let (s', timeoutId) = setTimeout (SetLight (on sig)) cumulativeDelay s
      in visualForEach rest (s', timeouts @ [timeoutId], cumulativeDelay + duration sig))"

definition schedulePatternVisual :: "app \<Rightarrow> app" where
  "schedulePatternVisual s =
     (let s1 = clearVisualSosTimeouts s;
          (s2, timeouts, cumulativeDelay) = visualForEach sosPattern (s1, [], 0);
          (s3, loopTimeout) = setTimeout VisualLoop cumulativeDelay s2
      in s3\<lparr>sosTimeoutRef := timeouts @ [loopTimeout]\<rparr>)"

section \<open>Flashlight: the audio channel\<close>

text \<open>\<open>sosAudioTimeoutRef.current.forEach(clearTimeout); sosAudioTimeoutRef.current = []\<close>\<close>

definition clearAudioSosTimeouts :: "app \<Rightarrow> app" where
  "clearAudioSosTimeouts s =
     (fold clearTimeout (sosAudioTimeoutRef s) s)\<lparr>sosAudioTimeoutRef := []\<rparr>"

text \<open>
  \<open>playTone(duration)\<close> creates a sine oscillator at 660 Hz, starts it and asks it to stop
  \<open>duration / 1000\<close> seconds later. Nothing in the source keeps the oscillator, so the
  model records the started tone and never removes it.
\<close>

definition playTone :: "nat \<Rightarrow> app \<Rightarrow> app" where
  "playTone d s =
     s\<lparr>tones := tones s @ [\<lparr>frequency = 660, startedAt = clock s, lengthMs = d\<rparr>]\<rparr>"

fun audioForEach :: "signal list \<Rightarrow> app \<times> nat list \<times> nat \<Rightarrow> app \<times> nat list \<times> nat" where
  "audioForEach [] acc = acc"
| "audioForEach (sig # rest) (s, timeouts, cumulativeDelay) =
     (if on sig then
        (let (s', timeoutId) = setTimeout (PlayTone (duration sig)) cumulativeDelay s
         in audioForEach rest (s', timeouts @ [timeoutId], cumulativeDelay + duration sig))
      else audioForEach rest (s, timeouts, cumulativeDelay + duration sig))"

definition schedulePatternAudio :: "app \<Rightarrow> app" where
  "schedulePatternAudio s =
     (let s1 = clearAudioSosTimeouts s;
          (s2, timeouts, cumulativeDelay) = audioForEach sosPattern (s1, [], 0);
          (s3, loopTimeout) = setTimeout AudioLoop cumulativeDelay s2
      in s3\<lparr>sosAudioTimeoutRef := timeouts @ [loopTimeout]\<rparr>)"

section \<open>The effects of the component\<close>

text \<open>
  Each \<open>useEffect\<close> is a body, run after a render in which one of its dependencies
  changed, and the cleanup its previous run returned, run just before. The bodies read
  the state of the render; a body that sets state causes one more render.
\<close>

subsection \<open>Timer logic\<close>

definition timerEffect :: "app \<Rightarrow> app" where
  "timerEffect s =
     (if isTimerActive s then
        (if timerMode s = Countdown then
           (if timerSeconds s > 0 then s\<lparr>timerInterval := Some Decrement\<rparr>
            else s\<lparr>isTimerActive := False, timerFinished := True\<rparr>)
         else s\<lparr>timerInterval := Some Increment\<rparr>)
      else s)"

text \<open>\<open>return () => clearInterval(timerInterval)\<close>\<close>

definition timerCleanup :: "app \<Rightarrow> app" where
  "timerCleanup s = s\<lparr>timerInterval := None\<rparr>"

text \<open>One firing of the interval the timer effect registered, if any.\<close>

definition timerTick :: "app \<Rightarrow> app" where
  "timerTick s =
     (case timerInterval s of
        None \<Rightarrow> s
      | Some Decrement \<Rightarrow> s\<lparr>timerSeconds := timerSeconds s - 1\<rparr>
      | Some Increment \<Rightarrow> s\<lparr>timerSeconds := timerSeconds s + 1\<rparr>)"

subsection \<open>Visual and audio SOS effects\<close>

definition visualSosEffect :: "app \<Rightarrow> app" where
  "visualSosEffect s =
     (if \<not> isSosActive s then
        (clearVisualSosTimeouts s)\<lparr>isSosLightVisible := True, visualSosCleanup := False\<rparr>
      else (schedulePatternVisual s)\<lparr>visualSosCleanup := True\<rparr>)"

definition visualSosCleanupRun :: "app \<Rightarrow> app" where
  "visualSosCleanupRun s = (if visualSosCleanup s then clearVisualSosTimeouts s else s)"

definition audioSosEffect :: "app \<Rightarrow> app" where
  "audioSosEffect s =
     (if \<not> isAudioSosActive s \<or> \<not> audioContextRef s then
        (clearAudioSosTimeouts s)\<lparr>audioSosCleanup := False\<rparr>
      else (schedulePatternAudio s)\<lparr>audioSosCleanup := True\<rparr>)"

definition audioSosCleanupRun :: "app \<Rightarrow> app" where
  "audioSosCleanupRun s = (if audioSosCleanup s then clearAudioSosTimeouts s else s)"

subsection \<open>Sensor logic (spirit level and compass)\<close>

text \<open>
  \<open>addEventListener\<close> ignores a closure that is registered already;
  \<open>removeEventListener\<close> removes the closure given, if it is registered.
\<close>

definition addEventListener :: "nat \<times> listenerFn \<Rightarrow> app \<Rightarrow> app" where
  "addEventListener l s =
     (if l \<in> set (listeners s) then s else s\<lparr>listeners := listeners s @ [l]\<rparr>)"

definition removeEventListener :: "nat \<times> listenerFn \<Rightarrow> app \<Rightarrow> app" where
  "removeEventListener l s = s\<lparr>listeners := filter (\<lambda>x. x \<noteq> l) (listeners s)\<rparr>"

text \<open>\<open>event.alpha ?? 0\<close>\<close>

definition orZero :: "real option \<Rightarrow> real" where
  "orZero v = (case v of None \<Rightarrow> 0 | Some x \<Rightarrow> x)"

definition handleOrientation :: "orientationEvent \<Rightarrow> app \<Rightarrow> app" where
  "handleOrientation ev s =
     s\<lparr>orientation := (orZero (alpha ev), orZero (beta ev), orZero (gamma ev))\<rparr>"

text \<open>
  The closure \<open>listener\<close> with identity \<open>l\<close>. The test \<open>if (sensorCheckTimeoutRef.current)\<close>
  holds for an id other than \<open>null\<close> and \<open>0\<close>.
\<close>

definition detectListener :: "nat \<Rightarrow> orientationEvent \<Rightarrow> app \<Rightarrow> app" where
  "detectListener l ev s =
     (let s1 = (case sensorCheckTimeoutRef s of
                  None \<Rightarrow> s
                | Some t \<Rightarrow> if t \<noteq> 0 then (clearTimeout t s)\<lparr>sensorCheckTimeoutRef := None\<rparr> else s);
          s2 = (if beta ev \<noteq> None \<or> gamma ev \<noteq> None \<or> alpha ev \<noteq> None
                then s1\<lparr>sensorSupportState := Supported\<rparr>
                else s1\<lparr>sensorSupportState := Unsupported\<rparr>)
      in removeEventListener (l, Detect) s2)"

text \<open>The callback of the 1000 ms timeout of the sensor check.\<close>

definition sensorTimeout :: "nat \<Rightarrow> app \<Rightarrow> app" where
  "sensorTimeout l s = removeEventListener (l, Detect) (s\<lparr>sensorSupportState := Unsupported\<rparr>)"

definition sensorEffect :: "app \<Rightarrow> app" where
  "sensorEffect s =
     (let s0 = s\<lparr>handleOrientationFn := nextFn s, nextFn := Suc (nextFn s)\<rparr>
      in if activeHologram s = SpiritLevel \<or> activeHologram s = Compass then
           (let s1 = (if sensorSupportState s = Checking then
                        (let l = nextFn s0;
                             sa = addEventListener (l, Detect) (s0\<lparr>nextFn := Suc l\<rparr>);
                             (sb, t) = setTimeout (SensorTimeout l) 1000 sa
                         in sb\<lparr>sensorCheckTimeoutRef := Some t\<rparr>)
                      else s0)
            in if sensorSupportState s = Supported then
                 (if requestPermissionApi s then
                    (if permissionState s = Granted then
                       addEventListener (handleOrientationFn s1, HandleOrientation) s1
                     else if permissionState s = Unknown then s1\<lparr>permissionState := Prompt\<rparr>
                     else s1)
                  else addEventListener (handleOrientationFn s1, HandleOrientation)
                         (s1\<lparr>permissionState := Granted\<rparr>))
               else s1)
         else s0)"

text \<open>
  The cleanup of the sensor effect: it removes the \<open>handleOrientation\<close> of its run and
  clears the timeout whose id is in \<open>sensorCheckTimeoutRef\<close>.
\<close>

definition sensorCleanup :: "app \<Rightarrow> app" where
  "sensorCleanup s =
     (let s1 = removeEventListener (handleOrientationFn s, HandleOrientation) s
      in case sensorCheckTimeoutRef s1 of
           None \<Rightarrow> s1
         | Some t \<Rightarrow> if t \<noteq> 0 then clearTimeout t s1 else s1)"

text \<open>
  A \<open>deviceorientation\<close> event goes to the listeners registered when it is dispatched,
  in the order of their registration, skipping one that was removed meanwhile.
\<close>

fun dispatchTo :: "(nat \<times> listenerFn) list \<Rightarrow> orientationEvent \<Rightarrow> app \<Rightarrow> app" where
  "dispatchTo [] ev s = s"
| "dispatchTo ((l, f) # ls) ev s =
     dispatchTo ls ev
       (if (l, f) \<in> set (listeners s) then
          (case f of Detect \<Rightarrow> detectListener l ev s
                   | HandleOrientation \<Rightarrow> handleOrientation ev s)
        else s)"

definition dispatchOrientation :: "orientationEvent \<Rightarrow> app \<Rightarrow> app" where
  "dispatchOrientation ev s = dispatchTo (listeners s) ev s"

subsection \<open>Running the effects after a render\<close>

text \<open>
  \<open>effectsPass old s\<close> is the commit of the render of \<open>s\<close>, where \<open>old\<close> is the state of the
  previous render: of the effects whose dependency array differs, first the cleanups,
  then the bodies, both in the order of the source. No body reads a cell that the body
  of another effect writes, so each body sees the values of the render.
\<close>

definition effectsPass :: "app \<Rightarrow> app \<Rightarrow> app" where
  "effectsPass old s =
     (let ct = ((isTimerActive old, timerSeconds old, timerMode old)
                  \<noteq> (isTimerActive s, timerSeconds s, timerMode s));
          cv = (isSosActive old \<noteq> isSosActive s);
          ca = (isAudioSosActive old \<noteq> isAudioSosActive s);
          cs = ((activeHologram old, sensorSupportState old, permissionState old)
                  \<noteq> (activeHologram s, sensorSupportState s, permissionState s));
          c1 = (if ct then timerCleanup s else s);
          c2 = (if cv then visualSosCleanupRun c1 else c1);
          c3 = (if ca then audioSosCleanupRun c2 else c2);
          c4 = (if cs then sensorCleanup c3 else c3);
          e1 = (if ct then timerEffect c4 else c4);
          e2 = (if cv then visualSosEffect e1 else e1);
          e3 = (if ca then audioSosEffect e2 else e2)
      in if cs then sensorEffect e3 else e3)"

text \<open>
  A body sets state in two places only (the timer effect at the end of a countdown, the
  sensor effect on the permission), and the render that follows sets none: after the
  second pass the state is stable (lemma \<open>commit_stable\<close>).
\<close>

definition commit :: "app \<Rightarrow> app \<Rightarrow> app" where
  "commit old s = effectsPass s (effectsPass old s)"

section \<open>Clock and alarm\<close>

text \<open>\<open>str.split(sep)\<close> for a one-character separator.\<close>

fun splitStr :: "char \<Rightarrow> string \<Rightarrow> string list" where
  "splitStr sep [] = [[]]"
| "splitStr sep (c # cs) =
     (if c = sep then [] # splitStr sep cs
      else (case splitStr sep cs of
              [] \<Rightarrow> [[c]]
            | p # ps \<Rightarrow> (c # p) # ps))"

text \<open>An array element, \<open>undefined\<close> (here \<open>None\<close>) beyond the end.\<close>

fun element :: "'a list \<Rightarrow> nat \<Rightarrow> 'a option" where
  "element [] i = None"
| "element (x # xs) 0 = Some x"
| "element (x # xs) (Suc i) = element xs i"

definition isWhiteSpace :: "char \<Rightarrow> bool" where
  "isWhiteSpace c = (of_char c \<in> {9, 10, 11, 12, 13, 32 :: nat})"

definition isDigit :: "char \<Rightarrow> bool" where
  "isDigit c = (48 \<le> (of_char c :: nat) \<and> (of_char c :: nat) \<le> 57)"

definition digitsValue :: "string \<Rightarrow> nat" where
  "digitsValue ds = foldl (\<lambda>a c. 10 * a + (of_char c - 48)) 0 ds"

text \<open>
  \<open>parseInt(x, 10)\<close>: leading white space is skipped, a sign is read, then the longest
  run of decimal digits; without a digit (and for \<open>undefined\<close>) the result is \<open>NaN\<close>,
  here \<open>None\<close>, which is equal to no number.
\<close>

definition parseInt10 :: "string option \<Rightarrow> int option" where
  "parseInt10 x =
     (case x of
        None \<Rightarrow> None
      | Some str \<Rightarrow>
          (let t = dropWhile isWhiteSpace str;
               neg = (t \<noteq> [] \<and> hd t = CHR ''-'');
               u = (if t \<noteq> [] \<and> (hd t = CHR ''-'' \<or> hd t = CHR ''+'') then tl t else t);
               ds = takeWhile isDigit u
           in if ds = [] then None
              else Some (if neg then - int (digitsValue ds) else int (digitsValue ds))))"

text \<open>
  The callback of \<open>clockInterval\<close>, with \<open>now\<close> the \<open>new Date()\<close> it reads. The effect
  registers the interval anew whenever \<open>alarmTime\<close> or \<open>isAlarmRinging\<close> changes, so the
  callback reads the current values.
\<close>

definition clockTick :: "date \<Rightarrow> app \<Rightarrow> app" where
  "clockTick now s =
     (let s1 = s\<lparr>currentDateTime := now\<rparr>
      in case alarmTime s of
           None \<Rightarrow> s1
         | Some a \<Rightarrow>
             if a \<noteq> [] \<and> \<not> isAlarmRinging s then
               (let parts = splitStr (CHR '':'') a;
                    hours = element parts 0;
                    minutes = element parts 1
                in if Some (int (getHours now)) = parseInt10 hours
                      \<and> Some (int (getMinutes now)) = parseInt10 minutes
                      \<and> getSeconds now = 0
                   then s1\<lparr>isAlarmRinging := True\<rparr>
                   else s1)
             else s1)"

section \<open>Event handlers\<close>

definition handleStartClick :: "app \<Rightarrow> app" where
  "handleStartClick s = s\<lparr>appState := Menu\<rparr>"

text \<open>
  The dictation branch also stops the speech recognition, which is not part of the model.
\<close>

definition handleBackClick :: "app \<Rightarrow> app" where
  "handleBackClick s =
     (if appState s = Hologram then
        (let s1 = (if activeHologram s = Timer
                   then s\<lparr>isTimerActive := False, timerFinished := False\<rparr> else s);
             s2 = (if activeHologram s = Alarm \<and> isAlarmRinging s
                   then s1\<lparr>isAlarmRinging := False\<rparr> else s1);
             s3 = (if activeHologram s = Flashlight
                   then clearAudioSosTimeouts (clearVisualSosTimeouts
                          (s2\<lparr>isFlashlightOn := False, isSosActive := False,
                              isAudioSosActive := False\<rparr>))
                   else s2);
             s4 = (if activeHologram s = SpiritLevel \<or> activeHologram s = Compass
                   then s3\<lparr>permissionState := Unknown, sensorSupportState := Checking\<rparr>
                   else s3);
             s5 = (if activeHologram s = Dictation then s4\<lparr>isRecording := False\<rparr> else s4)
         in s5\<lparr>activeHologram := HNone, appState := Menu\<rparr>)
      else if appState s = Menu then s\<lparr>appState := Start\<rparr>
      else s)"

definition handleHologramSelect :: "ActiveHologram \<Rightarrow> app \<Rightarrow> app" where
  "handleHologramSelect hologramType s =
     s\<lparr>activeHologram := hologramType, appState := Hologram\<rparr>"

definition handleStartStop :: "app \<Rightarrow> app" where
  "handleStartStop s =
     (let s1 = s\<lparr>timerFinished := False\<rparr>;
          s2 = (if timerSeconds s = 0 \<and> \<not> isTimerActive s
                then s1\<lparr>timerMode := Stopwatch\<rparr> else s1)
      in s2\<lparr>isTimerActive := (\<not> isTimerActive s)\<rparr>)"

definition handleReset :: "app \<Rightarrow> app" where
  "handleReset s =
     s\<lparr>isTimerActive := False, timerSeconds := 0, timerFinished := False,
       timerMode := Stopwatch\<rparr>"

definition handleSetPreset :: "int \<Rightarrow> app \<Rightarrow> app" where
  "handleSetPreset minutes s =
     s\<lparr>timerMode := Countdown, timerSeconds := minutes * 60, isTimerActive := True,
       timerFinished := False\<rparr>"

text \<open>\<open>v\<close> is the value of the time input; the empty string stands for no input.\<close>

definition handleSetAlarm :: "string \<Rightarrow> app \<Rightarrow> app" where
  "handleSetAlarm v s =
     (if v \<noteq> [] then s\<lparr>alarmTime := Some v, isAlarmRinging := False\<rparr> else s)"

definition handleClearAlarm :: "app \<Rightarrow> app" where
  "handleClearAlarm s = s\<lparr>alarmTime := None, isAlarmRinging := False\<rparr>"

definition handleStopRinging :: "app \<Rightarrow> app" where
  "handleStopRinging s = s\<lparr>isAlarmRinging := False\<rparr>"

text \<open>
  \<open>audioContextApi\<close> tells whether the platform has an \<open>AudioContext\<close> constructor; resuming
  a suspended context is not part of the model.
\<close>

definition initializeAudioContext :: "app \<Rightarrow> app" where
  "initializeAudioContext s =
     (if \<not> audioContextRef s \<and> audioContextApi s then s\<lparr>audioContextRef := True\<rparr> else s)"

definition handlePowerOn :: "app \<Rightarrow> app" where
  "handlePowerOn s = s\<lparr>isFlashlightOn := True\<rparr>"

definition handleSosVisual :: "app \<Rightarrow> app" where
  "handleSosVisual s = s\<lparr>isFlashlightOn := True, isSosActive := True\<rparr>"

definition handleSosAudio :: "app \<Rightarrow> app" where
  "handleSosAudio s =
     (initializeAudioContext s)\<lparr>isFlashlightOn := True, isSosActive := True,
        isAudioSosActive := True\<rparr>"

text \<open>
  \<open>handlePermissionRequest\<close> awaits \<open>DeviceMotionEvent.requestPermission()\<close>, when the
  platform has it: the call leaves a pending promise, and \<open>permissionResolved\<close> is the
  rest of the handler, run when the promise settles (\<open>granted\<close> is false for any other
  answer and for a rejection).
\<close>

definition handlePermissionRequest :: "app \<Rightarrow> app" where
  "handlePermissionRequest s =
     (if requestPermissionApi s then s\<lparr>pendingPermission := Suc (pendingPermission s)\<rparr>
      else s)"

definition permissionResolved :: "bool \<Rightarrow> app \<Rightarrow> app" where
  "permissionResolved granted s =
     (case pendingPermission s of
        0 \<Rightarrow> s
      | Suc n \<Rightarrow> s\<lparr>pendingPermission := n,
                    permissionState := (if granted then Granted else Denied)\<rparr>)"

section \<open>The browser runs the callbacks\<close>

definition runCallback :: "callback \<Rightarrow> app \<Rightarrow> app" where
  "runCallback c s =
     (case c of
        SetLight b \<Rightarrow> s\<lparr>isSosLightVisible := b\<rparr>
      | VisualLoop \<Rightarrow> schedulePatternVisual s
      | PlayTone d \<Rightarrow> playTone d s
      | AudioLoop \<Rightarrow> schedulePatternAudio s
      | SensorTimeout l \<Rightarrow> sensorTimeout l s)"

text \<open>
  The pending timeout with id \<open>i\<close> fires: never before it is due, and it is pending no
  longer when its callback runs.
\<close>

definition fireTimeout :: "nat \<Rightarrow> app \<Rightarrow> app" where
  "fireTimeout i s =
     (case find (\<lambda>t. tid t = i) (timers s) of
        None \<Rightarrow> s
      | Some t \<Rightarrow> if due t \<le> clock s then runCallback (run t) (clearTimeout i s) else s)"

datatype event =
  StartClick | BackClick | HologramSelect ActiveHologram
  | StartStop | Reset | SetPreset int
  | SetAlarm string | ClearAlarm | StopRinging
  | PowerOn | SosVisual | SosAudio
  | PermissionRequest | PermissionResolved bool
  | ClockTick date | TimerTick
  | Elapse nat | TimeoutFire nat
  | OrientationEvent orientationEvent

definition handle :: "event \<Rightarrow> app \<Rightarrow> app" where
  "handle e s =
     (case e of
        StartClick \<Rightarrow> handleStartClick s
      | BackClick \<Rightarrow> handleBackClick s
      | HologramSelect h \<Rightarrow> handleHologramSelect h s
      | StartStop \<Rightarrow> handleStartStop s
      | Reset \<Rightarrow> handleReset s
      | SetPreset m \<Rightarrow> handleSetPreset m s
      | SetAlarm v \<Rightarrow> handleSetAlarm v s
      | ClearAlarm \<Rightarrow> handleClearAlarm s
      | StopRinging \<Rightarrow> handleStopRinging s
      | PowerOn \<Rightarrow> handlePowerOn s
      | SosVisual \<Rightarrow> handleSosVisual s
      | SosAudio \<Rightarrow> handleSosAudio s
      | PermissionRequest \<Rightarrow> handlePermissionRequest s
      | PermissionResolved g \<Rightarrow> permissionResolved g s
      | ClockTick now \<Rightarrow> clockTick now s
      | TimerTick \<Rightarrow> timerTick s
      | Elapse d \<Rightarrow> s\<lparr>clock := clock s + d\<rparr>
      | TimeoutFire i \<Rightarrow> fireTimeout i s
      | OrientationEvent ev \<Rightarrow> dispatchOrientation ev s)"

text \<open>One event: its handler or callback, the render, and the effects.\<close>

definition step :: "event \<Rightarrow> app \<Rightarrow> app" where
  "step e s = commit s (handle e s)"

definition steps :: "event list \<Rightarrow> app \<Rightarrow> app" where
  "steps es s = fold step es s"

text \<open>
  The state after the first render and its effects, on a platform with or without
  \<open>DeviceMotionEvent.requestPermission\<close> and \<open>AudioContext\<close>.
\<close>

definition init :: "bool \<Rightarrow> bool \<Rightarrow> date \<Rightarrow> app" where
  "init rp ac now =
     \<lparr>appState = Start, activeHologram = HNone, currentDateTime = now,
      timerSeconds = 0, isTimerActive = False, timerFinished = False, timerMode = Stopwatch,
      alarmTime = None, isAlarmRinging = False,
      isFlashlightOn = False, isSosActive = False, isAudioSosActive = False,
      isSosLightVisible = True, sosTimeoutRef = [], sosAudioTimeoutRef = [],
      audioContextRef = False, isRecording = False,
      orientation = (0, 0, 0), permissionState = Unknown, sensorSupportState = Checking,
      sensorCheckTimeoutRef = None,
      clock = 0, lastTimerId = 0, timers = [], nextFn = 1, listeners = [],
      handleOrientationFn = 0, timerInterval = None,
      visualSosCleanup = False, audioSosCleanup = False, tones = [],
      pendingPermission = 0, requestPermissionApi = rp, audioContextApi = ac\<rparr>"

section \<open>Predicates and inputs used in the statements\<close>

text \<open>
  The interval of the timer feature is the one its effect registers for the current
  values of \<open>isTimerActive\<close>, \<open>timerMode\<close> and \<open>timerSeconds\<close>, and no countdown is active at
  zero: this holds after every event (lemma \<open>timerConsistent_steps\<close>).
\<close>

definition timerConsistent :: "app \<Rightarrow> bool" where
  "timerConsistent s =
     (timerInterval s =
        (if isTimerActive s then Some (if timerMode s = Countdown then Decrement else Increment)
         else None)
      \<and> (if isTimerActive s \<and> timerMode s = Countdown then 0 < timerSeconds s else True))"

text \<open>A date for the concrete runs.\<close>

definition midnight :: date where
  "midnight = \<lparr>getHours = 0, getMinutes = 0, getSeconds = 0\<rparr>"

text \<open>
  The test of the clock callback, apart from \<open>!isAlarmRinging\<close>: the alarm time is set and
  not empty, its parts before and after the first colon parse to the hours and minutes of
  \<open>now\<close>, and the seconds of \<open>now\<close> are 0.
\<close>

definition alarmMatches :: "date \<Rightarrow> string option \<Rightarrow> bool" where
  "alarmMatches now a =
     (case a of
        None \<Rightarrow> False
      | Some t \<Rightarrow>
          t \<noteq> []
          \<and> Some (int (getHours now)) = parseInt10 (element (splitStr (CHR '':'') t) 0)
          \<and> Some (int (getMinutes now)) = parseInt10 (element (splitStr (CHR '':'') t) 1)
          \<and> getSeconds now = 0)"

text \<open>The value of a time input for \<open>h\<close> hours and \<open>m\<close> minutes, \<open>HH:MM\<close>.\<close>

definition digitChar :: "nat \<Rightarrow> char" where
  "digitChar d = char_of (48 + d)"

definition timeValue :: "nat \<Rightarrow> nat \<Rightarrow> string" where
  "timeValue h m =
     [digitChar (h div 10), digitChar (h mod 10), CHR '':'',
      digitChar (m div 10), digitChar (m mod 10)]"

definition halfPastSeven :: date where
  "halfPastSeven = \<lparr>getHours = 7, getMinutes = 30, getSeconds = 0\<rparr>"

text \<open>The detection listeners that are registered, and the test of \<open>listener\<close> on its event.\<close>

definition detectListeners :: "app \<Rightarrow> (nat \<times> listenerFn) list" where
  "detectListeners s = filter (\<lambda>x. snd x = Detect) (listeners s)"

definition hasData :: "orientationEvent \<Rightarrow> bool" where
  "hasData ev = (beta ev \<noteq> None \<or> gamma ev \<noteq> None \<or> alpha ev \<noteq> None)"

text \<open>An event with a reading, and the menu of a platform that asks for the permission.\<close>

definition tilted :: orientationEvent where
  "tilted = \<lparr>alpha = None, beta = Some 1, gamma = None\<rparr>"

definition menu0 :: app where
  "menu0 = step StartClick (init True False midnight)"

text \<open>The callbacks of the visual and of the audio channel, and those of them that are pending.\<close>

definition isVisualCb :: "callback \<Rightarrow> bool" where
  "isVisualCb c = (case c of SetLight b \<Rightarrow> True | VisualLoop \<Rightarrow> True | _ \<Rightarrow> False)"

definition isAudioCb :: "callback \<Rightarrow> bool" where
  "isAudioCb c = (case c of PlayTone d \<Rightarrow> True | AudioLoop \<Rightarrow> True | _ \<Rightarrow> False)"

definition visualPending :: "app \<Rightarrow> timeout list" where
  "visualPending s = filter (\<lambda>t. isVisualCb (run t)) (timers s)"

definition audioPending :: "app \<Rightarrow> timeout list" where
  "audioPending s = filter (\<lambda>t. isAudioCb (run t)) (timers s)"

text \<open>
  The timeouts one pass of \<open>schedulePattern\<close> registers when the last id issued is \<open>b\<close> and
  the time is \<open>c\<close>: on the visual channel one per step and the loop restart, on the audio
  channel one per step that is on and the loop restart.
\<close>

definition visualRun :: "nat \<Rightarrow> nat \<Rightarrow> timeout list" where
  "visualRun b c =
     map (\<lambda>k. \<lparr>tid = b + 1 + k, due = c + sum_list (map duration (take k sosPattern)),
                 run = SetLight (on (sosPattern ! k))\<rparr>) [0..<18]
     @ [\<lparr>tid = b + 19, due = c + 7600, run = VisualLoop\<rparr>]"

definition audioRun :: "nat \<Rightarrow> nat \<Rightarrow> timeout list" where
  "audioRun b c =
     map (\<lambda>(i, k). \<lparr>tid = b + 1 + i, due = c + sum_list (map duration (take k sosPattern)),
                      run = PlayTone (duration (sosPattern ! k))\<rparr>)
       (enumerate 0 (filter (\<lambda>k. on (sosPattern ! k)) [0..<18]))
     @ [\<lparr>tid = b + 10, due = c + 7600, run = AudioLoop\<rparr>]"

text \<open>
  The pending callbacks of a channel are among those of one pass, the one whose ids the
  ref of the channel holds; and while the visual pattern is off the light is visible and
  no visual callback is pending. This holds after every event (lemma
  \<open>sosConsistent_steps\<close>); \<open>runsOwned\<close> and \<open>lightRule\<close> are its two parts.
\<close>

definition sosConsistent :: "app \<Rightarrow> bool" where
  "sosConsistent s =
     ((visualPending s = []
       \<or> (\<exists>b c. sosTimeoutRef s = map tid (visualRun b c)
                 \<and> set (visualPending s) \<subseteq> set (visualRun b c)))
      \<and> (audioPending s = []
          \<or> (\<exists>b c. sosAudioTimeoutRef s = map tid (audioRun b c)
                    \<and> set (audioPending s) \<subseteq> set (audioRun b c)))
      \<and> (isSosActive s \<or> (isSosLightVisible s \<and> visualPending s = [])))"

definition runsOwned :: "app \<Rightarrow> bool" where
  "runsOwned s =
     ((visualPending s = []
       \<or> (\<exists>b c. sosTimeoutRef s = map tid (visualRun b c)
                 \<and> set (visualPending s) \<subseteq> set (visualRun b c)))
      \<and> (audioPending s = []
          \<or> (\<exists>b c. sosAudioTimeoutRef s = map tid (audioRun b c)
                    \<and> set (audioPending s) \<subseteq> set (audioRun b c))))"

definition lightRule :: "app \<Rightarrow> bool" where
  "lightRule s = (isSosActive s \<or> (isSosLightVisible s \<and> visualPending s = []))"

text \<open>Both patterns are off and no callback of either channel is pending.\<close>

definition sosQuiet :: "app \<Rightarrow> bool" where
  "sosQuiet s =
     (\<not> isSosActive s \<and> \<not> isAudioSosActive s \<and> visualPending s = [] \<and> audioPending s = [])"

text \<open>The flashlight feature just entered, on a platform with an audio context.\<close>

definition flashlightOff :: app where
  "flashlightOff = steps [StartClick, HologramSelect Flashlight] (init False True midnight)"

text \<open>Every pending timeout has an id the browser has issued.\<close>

definition idsIssued :: "app \<Rightarrow> bool" where
  "idsIssued s = list_all (\<lambda>t. tid t \<le> lastTimerId s) (timers s)"

text \<open>
  The events that only let time pass: a tick of the clock of the page and the passing of
  \<open>d\<close> milliseconds.
\<close>

definition passing :: "event \<Rightarrow> bool" where
  "passing e = (case e of ClockTick now \<Rightarrow> True | Elapse d \<Rightarrow> True | _ \<Rightarrow> False)"

section \<open>Timeouts and the scheduling passes, in closed form\<close>

lemma fold_clearTimeout:
  "fold clearTimeout ids s = s\<lparr>timers := filter (\<lambda>t. tid t \<notin> set ids) (timers s)\<rparr>"
proof (induction ids arbitrary: s)
  case Nil
  show ?case by simp
next
  case (Cons i ids)
  show ?case
    by (simp only: fold_simps o_apply Cons.IH) (simp add: clearTimeout_def conj_commute)
qed

lemma clearVisualSosTimeouts_eq:
  "clearVisualSosTimeouts s =
     s\<lparr>timers := filter (\<lambda>t. tid t \<notin> set (sosTimeoutRef s)) (timers s), sosTimeoutRef := []\<rparr>"
  by (simp add: clearVisualSosTimeouts_def fold_clearTimeout)

lemma clearAudioSosTimeouts_eq:
  "clearAudioSosTimeouts s =
     s\<lparr>timers := filter (\<lambda>t. tid t \<notin> set (sosAudioTimeoutRef s)) (timers s),
       sosAudioTimeoutRef := []\<rparr>"
  by (simp add: clearAudioSosTimeouts_def fold_clearTimeout)

lemma upt_shift: "map f [0..<Suc n] = f 0 # map (\<lambda>k. f (Suc k)) [0..<n]"
  by (simp only: upt_conv_Cons[of 0 "Suc n"] map_Suc_upt[symmetric]) (simp add: comp_def)

lemma visualForEach_eq:
  "visualForEach pat (s, tos, c) =
     (s\<lparr>timers := timers s @ map (\<lambda>k. \<lparr>tid = lastTimerId s + 1 + k,
                                          due = clock s + (c + sum_list (map duration (take k pat))),
                                          run = SetLight (on (pat ! k))\<rparr>) [0..<length pat],
        lastTimerId := lastTimerId s + length pat\<rparr>,
      tos @ map (\<lambda>k. lastTimerId s + 1 + k) [0..<length pat],
      c + sum_list (map duration pat))"
proof (induction pat arbitrary: s tos c)
  case Nil
  show ?case by simp
next
  case (Cons sg pat)
  show ?case
    by (simp only: visualForEach.simps setTimeout_def Let_def prod.case Cons.IH length_Cons upt_shift)
       (simp add: add.assoc)
qed

lemma sosPattern_length: "length sosPattern = 18"
  by (simp add: sosPattern_def)

lemma sosPattern_total: "sum_list (map duration sosPattern) = 7600"
  by (simp add: sosPattern_def)

lemma sosPattern_offsets:
  "map (\<lambda>k. sum_list (map duration (take k sosPattern))) [0..<18] =
     [0, 200, 400, 600, 800, 1000, 1700, 2300, 2500, 3100, 3300, 3900, 4600, 4800, 5000,
      5200, 5400, 5600]"
  by (simp add: sosPattern_def upt_rec[of _ "numeral _"])

lemma schedulePatternVisual_eq:
  "schedulePatternVisual s =
     s\<lparr>timers := filter (\<lambda>t. tid t \<notin> set (sosTimeoutRef s)) (timers s)
                  @ map (\<lambda>k. \<lparr>tid = lastTimerId s + 1 + k,
                                 due = clock s + sum_list (map duration (take k sosPattern)),
                                 run = SetLight (on (sosPattern ! k))\<rparr>) [0..<18]
                  @ [\<lparr>tid = lastTimerId s + 19, due = clock s + 7600, run = VisualLoop\<rparr>],
        lastTimerId := lastTimerId s + 19,
        sosTimeoutRef := map (\<lambda>k. lastTimerId s + 1 + k) [0..<18] @ [lastTimerId s + 19]\<rparr>"
  by (simp add: schedulePatternVisual_def clearVisualSosTimeouts_eq visualForEach_eq
      sosPattern_length sosPattern_total setTimeout_def Let_def add.commute)

lemma audioForEach_sos:
  "audioForEach sosPattern (s, [], 0) =
     (s\<lparr>timers := timers s @
          [\<lparr>tid = lastTimerId s + 1, due = clock s, run = PlayTone 200\<rparr>,
           \<lparr>tid = lastTimerId s + 2, due = clock s + 400, run = PlayTone 200\<rparr>,
           \<lparr>tid = lastTimerId s + 3, due = clock s + 800, run = PlayTone 200\<rparr>,
           \<lparr>tid = lastTimerId s + 4, due = clock s + 1700, run = PlayTone 600\<rparr>,
           \<lparr>tid = lastTimerId s + 5, due = clock s + 2500, run = PlayTone 600\<rparr>,
           \<lparr>tid = lastTimerId s + 6, due = clock s + 3300, run = PlayTone 600\<rparr>,
           \<lparr>tid = lastTimerId s + 7, due = clock s + 4600, run = PlayTone 200\<rparr>,
           \<lparr>tid = lastTimerId s + 8, due = clock s + 5000, run = PlayTone 200\<rparr>,
           \<lparr>tid = lastTimerId s + 9, due = clock s + 5400, run = PlayTone 200\<rparr>],
        lastTimerId := lastTimerId s + 9\<rparr>,
      map (\<lambda>k. lastTimerId s + 1 + k) [0..<9], 7600)"
  by (simp add: sosPattern_def setTimeout_def Let_def upt_rec[of _ "numeral _"])

lemma schedulePatternAudio_eq:
  "schedulePatternAudio s =
     s\<lparr>timers := filter (\<lambda>t. tid t \<notin> set (sosAudioTimeoutRef s)) (timers s) @
          [\<lparr>tid = lastTimerId s + 1, due = clock s, run = PlayTone 200\<rparr>,
           \<lparr>tid = lastTimerId s + 2, due = clock s + 400, run = PlayTone 200\<rparr>,
           \<lparr>tid = lastTimerId s + 3, due = clock s + 800, run = PlayTone 200\<rparr>,
           \<lparr>tid = lastTimerId s + 4, due = clock s + 1700, run = PlayTone 600\<rparr>,
           \<lparr>tid = lastTimerId s + 5, due = clock s + 2500, run = PlayTone 600\<rparr>,
           \<lparr>tid = lastTimerId s + 6, due = clock s + 3300, run = PlayTone 600\<rparr>,
           \<lparr>tid = lastTimerId s + 7, due = clock s + 4600, run = PlayTone 200\<rparr>,
           \<lparr>tid = lastTimerId s + 8, due = clock s + 5000, run = PlayTone 200\<rparr>,
           \<lparr>tid = lastTimerId s + 9, due = clock s + 5400, run = PlayTone 200\<rparr>,
           \<lparr>tid = lastTimerId s + 10, due = clock s + 7600, run = AudioLoop\<rparr>],
        lastTimerId := lastTimerId s + 10,
        sosAudioTimeoutRef := map (\<lambda>k. lastTimerId s + 1 + k) [0..<9] @ [lastTimerId s + 10]\<rparr>"
  by (simp add: schedulePatternAudio_def clearAudioSosTimeouts_eq audioForEach_sos
      setTimeout_def Let_def add.commute)


section \<open>What each function leaves unchanged\<close>

lemma timerCleanup_frame [simp]:
  "appState (timerCleanup s) = appState s"
  "activeHologram (timerCleanup s) = activeHologram s"
  "currentDateTime (timerCleanup s) = currentDateTime s"
  "timerSeconds (timerCleanup s) = timerSeconds s"
  "isTimerActive (timerCleanup s) = isTimerActive s"
  "timerFinished (timerCleanup s) = timerFinished s"
  "timerMode (timerCleanup s) = timerMode s"
  "alarmTime (timerCleanup s) = alarmTime s"
  "isAlarmRinging (timerCleanup s) = isAlarmRinging s"
  "isFlashlightOn (timerCleanup s) = isFlashlightOn s"
  "isSosActive (timerCleanup s) = isSosActive s"
  "isAudioSosActive (timerCleanup s) = isAudioSosActive s"
  "isSosLightVisible (timerCleanup s) = isSosLightVisible s"
  "sosTimeoutRef (timerCleanup s) = sosTimeoutRef s"
  "sosAudioTimeoutRef (timerCleanup s) = sosAudioTimeoutRef s"
  "audioContextRef (timerCleanup s) = audioContextRef s"
  "isRecording (timerCleanup s) = isRecording s"
  "orientation (timerCleanup s) = orientation s"
  "permissionState (timerCleanup s) = permissionState s"
  "sensorSupportState (timerCleanup s) = sensorSupportState s"
  "sensorCheckTimeoutRef (timerCleanup s) = sensorCheckTimeoutRef s"
  "clock (timerCleanup s) = clock s"
  "lastTimerId (timerCleanup s) = lastTimerId s"
  "timers (timerCleanup s) = timers s"
  "nextFn (timerCleanup s) = nextFn s"
  "listeners (timerCleanup s) = listeners s"
  "handleOrientationFn (timerCleanup s) = handleOrientationFn s"
  "visualSosCleanup (timerCleanup s) = visualSosCleanup s"
  "audioSosCleanup (timerCleanup s) = audioSosCleanup s"
  "tones (timerCleanup s) = tones s"
  "pendingPermission (timerCleanup s) = pendingPermission s"
  "requestPermissionApi (timerCleanup s) = requestPermissionApi s"
  "audioContextApi (timerCleanup s) = audioContextApi s"
  by (simp_all add: timerCleanup_def)

lemma timerEffect_frame [simp]:
  "appState (timerEffect s) = appState s"
  "activeHologram (timerEffect s) = activeHologram s"
  "currentDateTime (timerEffect s) = currentDateTime s"
  "timerSeconds (timerEffect s) = timerSeconds s"
  "timerMode (timerEffect s) = timerMode s"
  "alarmTime (timerEffect s) = alarmTime s"
  "isAlarmRinging (timerEffect s) = isAlarmRinging s"
  "isFlashlightOn (timerEffect s) = isFlashlightOn s"
  "isSosActive (timerEffect s) = isSosActive s"
  "isAudioSosActive (timerEffect s) = isAudioSosActive s"
  "isSosLightVisible (timerEffect s) = isSosLightVisible s"
  "sosTimeoutRef (timerEffect s) = sosTimeoutRef s"
  "sosAudioTimeoutRef (timerEffect s) = sosAudioTimeoutRef s"
  "audioContextRef (timerEffect s) = audioContextRef s"
  "isRecording (timerEffect s) = isRecording s"
  "orientation (timerEffect s) = orientation s"
  "permissionState (timerEffect s) = permissionState s"
  "sensorSupportState (timerEffect s) = sensorSupportState s"
  "sensorCheckTimeoutRef (timerEffect s) = sensorCheckTimeoutRef s"
  "clock (timerEffect s) = clock s"
  "lastTimerId (timerEffect s) = lastTimerId s"
  "timers (timerEffect s) = timers s"
  "nextFn (timerEffect s) = nextFn s"
  "listeners (timerEffect s) = listeners s"
  "handleOrientationFn (timerEffect s) = handleOrientationFn s"
  "visualSosCleanup (timerEffect s) = visualSosCleanup s"
  "audioSosCleanup (timerEffect s) = audioSosCleanup s"
  "tones (timerEffect s) = tones s"
  "pendingPermission (timerEffect s) = pendingPermission s"
  "requestPermissionApi (timerEffect s) = requestPermissionApi s"
  "audioContextApi (timerEffect s) = audioContextApi s"
  by (simp_all add: timerEffect_def)

lemma clearVisualSosTimeouts_frame [simp]:
  "appState (clearVisualSosTimeouts s) = appState s"
  "activeHologram (clearVisualSosTimeouts s) = activeHologram s"
  "currentDateTime (clearVisualSosTimeouts s) = currentDateTime s"
  "timerSeconds (clearVisualSosTimeouts s) = timerSeconds s"
  "isTimerActive (clearVisualSosTimeouts s) = isTimerActive s"
  "timerFinished (clearVisualSosTimeouts s) = timerFinished s"
  "timerMode (clearVisualSosTimeouts s) = timerMode s"
  "alarmTime (clearVisualSosTimeouts s) = alarmTime s"
  "isAlarmRinging (clearVisualSosTimeouts s) = isAlarmRinging s"
  "isFlashlightOn (clearVisualSosTimeouts s) = isFlashlightOn s"
  "isSosActive (clearVisualSosTimeouts s) = isSosActive s"
  "isAudioSosActive (clearVisualSosTimeouts s) = isAudioSosActive s"
  "isSosLightVisible (clearVisualSosTimeouts s) = isSosLightVisible s"
  "sosAudioTimeoutRef (clearVisualSosTimeouts s) = sosAudioTimeoutRef s"
  "audioContextRef (clearVisualSosTimeouts s) = audioContextRef s"
  "isRecording (clearVisualSosTimeouts s) = isRecording s"
  "orientation (clearVisualSosTimeouts s) = orientation s"
  "permissionState (clearVisualSosTimeouts s) = permissionState s"
  "sensorSupportState (clearVisualSosTimeouts s) = sensorSupportState s"
  "sensorCheckTimeoutRef (clearVisualSosTimeouts s) = sensorCheckTimeoutRef s"
  "clock (clearVisualSosTimeouts s) = clock s"
  "lastTimerId (clearVisualSosTimeouts s) = lastTimerId s"
  "nextFn (clearVisualSosTimeouts s) = nextFn s"
  "listeners (clearVisualSosTimeouts s) = listeners s"
  "handleOrientationFn (clearVisualSosTimeouts s) = handleOrientationFn s"
  "timerInterval (clearVisualSosTimeouts s) = timerInterval s"
  "visualSosCleanup (clearVisualSosTimeouts s) = visualSosCleanup s"
  "audioSosCleanup (clearVisualSosTimeouts s) = audioSosCleanup s"
  "tones (clearVisualSosTimeouts s) = tones s"
  "pendingPermission (clearVisualSosTimeouts s) = pendingPermission s"
  "requestPermissionApi (clearVisualSosTimeouts s) = requestPermissionApi s"
  "audioContextApi (clearVisualSosTimeouts s) = audioContextApi s"
  by (simp_all add: clearVisualSosTimeouts_eq)

lemma schedulePatternVisual_frame [simp]:
  "appState (schedulePatternVisual s) = appState s"
  "activeHologram (schedulePatternVisual s) = activeHologram s"
  "currentDateTime (schedulePatternVisual s) = currentDateTime s"
  "timerSeconds (schedulePatternVisual s) = timerSeconds s"
  "isTimerActive (schedulePatternVisual s) = isTimerActive s"
  "timerFinished (schedulePatternVisual s) = timerFinished s"
  "timerMode (schedulePatternVisual s) = timerMode s"
  "alarmTime (schedulePatternVisual s) = alarmTime s"
  "isAlarmRinging (schedulePatternVisual s) = isAlarmRinging s"
  "isFlashlightOn (schedulePatternVisual s) = isFlashlightOn s"
  "isSosActive (schedulePatternVisual s) = isSosActive s"
  "isAudioSosActive (schedulePatternVisual s) = isAudioSosActive s"
  "isSosLightVisible (schedulePatternVisual s) = isSosLightVisible s"
  "sosAudioTimeoutRef (schedulePatternVisual s) = sosAudioTimeoutRef s"
  "audioContextRef (schedulePatternVisual s) = audioContextRef s"
  "isRecording (schedulePatternVisual s) = isRecording s"
  "orientation (schedulePatternVisual s) = orientation s"
  "permissionState (schedulePatternVisual s) = permissionState s"
  "sensorSupportState (schedulePatternVisual s) = sensorSupportState s"
  "sensorCheckTimeoutRef (schedulePatternVisual s) = sensorCheckTimeoutRef s"
  "clock (schedulePatternVisual s) = clock s"
  "nextFn (schedulePatternVisual s) = nextFn s"
  "listeners (schedulePatternVisual s) = listeners s"
  "handleOrientationFn (schedulePatternVisual s) = handleOrientationFn s"
  "timerInterval (schedulePatternVisual s) = timerInterval s"
  "visualSosCleanup (schedulePatternVisual s) = visualSosCleanup s"
  "audioSosCleanup (schedulePatternVisual s) = audioSosCleanup s"
  "tones (schedulePatternVisual s) = tones s"
  "pendingPermission (schedulePatternVisual s) = pendingPermission s"
  "requestPermissionApi (schedulePatternVisual s) = requestPermissionApi s"
  "audioContextApi (schedulePatternVisual s) = audioContextApi s"
  by (simp_all add: schedulePatternVisual_eq)

lemma visualSosCleanupRun_frame [simp]:
  "appState (visualSosCleanupRun s) = appState s"
  "activeHologram (visualSosCleanupRun s) = activeHologram s"
  "currentDateTime (visualSosCleanupRun s) = currentDateTime s"
  "timerSeconds (visualSosCleanupRun s) = timerSeconds s"
  "isTimerActive (visualSosCleanupRun s) = isTimerActive s"
  "timerFinished (visualSosCleanupRun s) = timerFinished s"
  "timerMode (visualSosCleanupRun s) = timerMode s"
  "alarmTime (visualSosCleanupRun s) = alarmTime s"
  "isAlarmRinging (visualSosCleanupRun s) = isAlarmRinging s"
  "isFlashlightOn (visualSosCleanupRun s) = isFlashlightOn s"
  "isSosActive (visualSosCleanupRun s) = isSosActive s"
  "isAudioSosActive (visualSosCleanupRun s) = isAudioSosActive s"
  "isSosLightVisible (visualSosCleanupRun s) = isSosLightVisible s"
  "sosAudioTimeoutRef (visualSosCleanupRun s) = sosAudioTimeoutRef s"
  "audioContextRef (visualSosCleanupRun s) = audioContextRef s"
  "isRecording (visualSosCleanupRun s) = isRecording s"
  "orientation (visualSosCleanupRun s) = orientation s"
  "permissionState (visualSosCleanupRun s) = permissionState s"
  "sensorSupportState (visualSosCleanupRun s) = sensorSupportState s"
  "sensorCheckTimeoutRef (visualSosCleanupRun s) = sensorCheckTimeoutRef s"
  "clock (visualSosCleanupRun s) = clock s"
  "lastTimerId (visualSosCleanupRun s) = lastTimerId s"
  "nextFn (visualSosCleanupRun s) = nextFn s"
  "listeners (visualSosCleanupRun s) = listeners s"
  "handleOrientationFn (visualSosCleanupRun s) = handleOrientationFn s"
  "timerInterval (visualSosCleanupRun s) = timerInterval s"
  "visualSosCleanup (visualSosCleanupRun s) = visualSosCleanup s"
  "audioSosCleanup (visualSosCleanupRun s) = audioSosCleanup s"
  "tones (visualSosCleanupRun s) = tones s"
  "pendingPermission (visualSosCleanupRun s) = pendingPermission s"
  "requestPermissionApi (visualSosCleanupRun s) = requestPermissionApi s"
  "audioContextApi (visualSosCleanupRun s) = audioContextApi s"
  by (simp_all add: visualSosCleanupRun_def clearVisualSosTimeouts_eq)

lemma visualSosEffect_frame [simp]:
  "appState (visualSosEffect s) = appState s"
  "activeHologram (visualSosEffect s) = activeHologram s"
  "currentDateTime (visualSosEffect s) = currentDateTime s"
  "timerSeconds (visualSosEffect s) = timerSeconds s"
  "isTimerActive (visualSosEffect s) = isTimerActive s"
  "timerFinished (visualSosEffect s) = timerFinished s"
  "timerMode (visualSosEffect s) = timerMode s"
  "alarmTime (visualSosEffect s) = alarmTime s"
  "isAlarmRinging (visualSosEffect s) = isAlarmRinging s"
  "isFlashlightOn (visualSosEffect s) = isFlashlightOn s"
  "isSosActive (visualSosEffect s) = isSosActive s"
  "isAudioSosActive (visualSosEffect s) = isAudioSosActive s"
  "sosAudioTimeoutRef (visualSosEffect s) = sosAudioTimeoutRef s"
  "audioContextRef (visualSosEffect s) = audioContextRef s"
  "isRecording (visualSosEffect s) = isRecording s"
  "orientation (visualSosEffect s) = orientation s"
  "permissionState (visualSosEffect s) = permissionState s"
  "sensorSupportState (visualSosEffect s) = sensorSupportState s"
  "sensorCheckTimeoutRef (visualSosEffect s) = sensorCheckTimeoutRef s"
  "clock (visualSosEffect s) = clock s"
  "nextFn (visualSosEffect s) = nextFn s"
  "listeners (visualSosEffect s) = listeners s"
  "handleOrientationFn (visualSosEffect s) = handleOrientationFn s"
  "timerInterval (visualSosEffect s) = timerInterval s"
  "audioSosCleanup (visualSosEffect s) = audioSosCleanup s"
  "tones (visualSosEffect s) = tones s"
  "pendingPermission (visualSosEffect s) = pendingPermission s"
  "requestPermissionApi (visualSosEffect s) = requestPermissionApi s"
  "audioContextApi (visualSosEffect s) = audioContextApi s"
  by (simp_all add: visualSosEffect_def clearVisualSosTimeouts_eq schedulePatternVisual_eq)

lemma clearAudioSosTimeouts_frame [simp]:
  "appState (clearAudioSosTimeouts s) = appState s"
  "activeHologram (clearAudioSosTimeouts s) = activeHologram s"
  "currentDateTime (clearAudioSosTimeouts s) = currentDateTime s"
  "timerSeconds (clearAudioSosTimeouts s) = timerSeconds s"
  "isTimerActive (clearAudioSosTimeouts s) = isTimerActive s"
  "timerFinished (clearAudioSosTimeouts s) = timerFinished s"
  "timerMode (clearAudioSosTimeouts s) = timerMode s"
  "alarmTime (clearAudioSosTimeouts s) = alarmTime s"
  "isAlarmRinging (clearAudioSosTimeouts s) = isAlarmRinging s"
  "isFlashlightOn (clearAudioSosTimeouts s) = isFlashlightOn s"
  "isSosActive (clearAudioSosTimeouts s) = isSosActive s"
  "isAudioSosActive (clearAudioSosTimeouts s) = isAudioSosActive s"
  "isSosLightVisible (clearAudioSosTimeouts s) = isSosLightVisible s"
  "sosTimeoutRef (clearAudioSosTimeouts s) = sosTimeoutRef s"
  "audioContextRef (clearAudioSosTimeouts s) = audioContextRef s"
  "isRecording (clearAudioSosTimeouts s) = isRecording s"
  "orientation (clearAudioSosTimeouts s) = orientation s"
  "permissionState (clearAudioSosTimeouts s) = permissionState s"
  "sensorSupportState (clearAudioSosTimeouts s) = sensorSupportState s"
  "sensorCheckTimeoutRef (clearAudioSosTimeouts s) = sensorCheckTimeoutRef s"
  "clock (clearAudioSosTimeouts s) = clock s"
  "lastTimerId (clearAudioSosTimeouts s) = lastTimerId s"
  "nextFn (clearAudioSosTimeouts s) = nextFn s"
  "listeners (clearAudioSosTimeouts s) = listeners s"
  "handleOrientationFn (clearAudioSosTimeouts s) = handleOrientationFn s"
  "timerInterval (clearAudioSosTimeouts s) = timerInterval s"
  "visualSosCleanup (clearAudioSosTimeouts s) = visualSosCleanup s"
  "audioSosCleanup (clearAudioSosTimeouts s) = audioSosCleanup s"
  "tones (clearAudioSosTimeouts s) = tones s"
  "pendingPermission (clearAudioSosTimeouts s) = pendingPermission s"
  "requestPermissionApi (clearAudioSosTimeouts s) = requestPermissionApi s"
  "audioContextApi (clearAudioSosTimeouts s) = audioContextApi s"
  by (simp_all add: clearAudioSosTimeouts_eq)

lemma schedulePatternAudio_frame [simp]:
  "appState (schedulePatternAudio s) = appState s"
  "activeHologram (schedulePatternAudio s) = activeHologram s"
  "currentDateTime (schedulePatternAudio s) = currentDateTime s"
  "timerSeconds (schedulePatternAudio s) = timerSeconds s"
  "isTimerActive (schedulePatternAudio s) = isTimerActive s"
  "timerFinished (schedulePatternAudio s) = timerFinished s"
  "timerMode (schedulePatternAudio s) = timerMode s"
  "alarmTime (schedulePatternAudio s) = alarmTime s"
  "isAlarmRinging (schedulePatternAudio s) = isAlarmRinging s"
  "isFlashlightOn (schedulePatternAudio s) = isFlashlightOn s"
  "isSosActive (schedulePatternAudio s) = isSosActive s"
  "isAudioSosActive (schedulePatternAudio s) = isAudioSosActive s"
  "isSosLightVisible (schedulePatternAudio s) = isSosLightVisible s"
  "sosTimeoutRef (schedulePatternAudio s) = sosTimeoutRef s"
  "audioContextRef (schedulePatternAudio s) = audioContextRef s"
  "isRecording (schedulePatternAudio s) = isRecording s"
  "orientation (schedulePatternAudio s) = orientation s"
  "permissionState (schedulePatternAudio s) = permissionState s"
  "sensorSupportState (schedulePatternAudio s) = sensorSupportState s"
  "sensorCheckTimeoutRef (schedulePatternAudio s) = sensorCheckTimeoutRef s"
  "clock (schedulePatternAudio s) = clock s"
  "nextFn (schedulePatternAudio s) = nextFn s"
  "listeners (schedulePatternAudio s) = listeners s"
  "handleOrientationFn (schedulePatternAudio s) = handleOrientationFn s"
  "timerInterval (schedulePatternAudio s) = timerInterval s"
  "visualSosCleanup (schedulePatternAudio s) = visualSosCleanup s"
  "audioSosCleanup (schedulePatternAudio s) = audioSosCleanup s"
  "tones (schedulePatternAudio s) = tones s"
  "pendingPermission (schedulePatternAudio s) = pendingPermission s"
  "requestPermissionApi (schedulePatternAudio s) = requestPermissionApi s"
  "audioContextApi (schedulePatternAudio s) = audioContextApi s"
  by (simp_all add: schedulePatternAudio_eq)

lemma audioSosCleanupRun_frame [simp]:
  "appState (audioSosCleanupRun s) = appState s"
  "activeHologram (audioSosCleanupRun s) = activeHologram s"
  "currentDateTime (audioSosCleanupRun s) = currentDateTime s"
  "timerSeconds (audioSosCleanupRun s) = timerSeconds s"
  "isTimerActive (audioSosCleanupRun s) = isTimerActive s"
  "timerFinished (audioSosCleanupRun s) = timerFinished s"
  "timerMode (audioSosCleanupRun s) = timerMode s"
  "alarmTime (audioSosCleanupRun s) = alarmTime s"
  "isAlarmRinging (audioSosCleanupRun s) = isAlarmRinging s"
  "isFlashlightOn (audioSosCleanupRun s) = isFlashlightOn s"
  "isSosActive (audioSosCleanupRun s) = isSosActive s"
  "isAudioSosActive (audioSosCleanupRun s) = isAudioSosActive s"
  "isSosLightVisible (audioSosCleanupRun s) = isSosLightVisible s"
  "sosTimeoutRef (audioSosCleanupRun s) = sosTimeoutRef s"
  "audioContextRef (audioSosCleanupRun s) = audioContextRef s"
  "isRecording (audioSosCleanupRun s) = isRecording s"
  "orientation (audioSosCleanupRun s) = orientation s"
  "permissionState (audioSosCleanupRun s) = permissionState s"
  "sensorSupportState (audioSosCleanupRun s) = sensorSupportState s"
  "sensorCheckTimeoutRef (audioSosCleanupRun s) = sensorCheckTimeoutRef s"
  "clock (audioSosCleanupRun s) = clock s"
  "lastTimerId (audioSosCleanupRun s) = lastTimerId s"
  "nextFn (audioSosCleanupRun s) = nextFn s"
  "listeners (audioSosCleanupRun s) = listeners s"
  "handleOrientationFn (audioSosCleanupRun s) = handleOrientationFn s"
  "timerInterval (audioSosCleanupRun s) = timerInterval s"
  "visualSosCleanup (audioSosCleanupRun s) = visualSosCleanup s"
  "audioSosCleanup (audioSosCleanupRun s) = audioSosCleanup s"
  "tones (audioSosCleanupRun s) = tones s"
  "pendingPermission (audioSosCleanupRun s) = pendingPermission s"
  "requestPermissionApi (audioSosCleanupRun s) = requestPermissionApi s"
  "audioContextApi (audioSosCleanupRun s) = audioContextApi s"
  by (simp_all add: audioSosCleanupRun_def clearAudioSosTimeouts_eq)

lemma audioSosEffect_frame [simp]:
  "appState (audioSosEffect s) = appState s"
  "activeHologram (audioSosEffect s) = activeHologram s"
  "currentDateTime (audioSosEffect s) = currentDateTime s"
  "timerSeconds (audioSosEffect s) = timerSeconds s"
  "isTimerActive (audioSosEffect s) = isTimerActive s"
  "timerFinished (audioSosEffect s) = timerFinished s"
  "timerMode (audioSosEffect s) = timerMode s"
  "alarmTime (audioSosEffect s) = alarmTime s"
  "isAlarmRinging (audioSosEffect s) = isAlarmRinging s"
  "isFlashlightOn (audioSosEffect s) = isFlashlightOn s"
  "isSosActive (audioSosEffect s) = isSosActive s"
  "isAudioSosActive (audioSosEffect s) = isAudioSosActive s"
  "isSosLightVisible (audioSosEffect s) = isSosLightVisible s"
  "sosTimeoutRef (audioSosEffect s) = sosTimeoutRef s"
  "audioContextRef (audioSosEffect s) = audioContextRef s"
  "isRecording (audioSosEffect s) = isRecording s"
  "orientation (audioSosEffect s) = orientation s"
  "permissionState (audioSosEffect s) = permissionState s"
  "sensorSupportState (audioSosEffect s) = sensorSupportState s"
  "sensorCheckTimeoutRef (audioSosEffect s) = sensorCheckTimeoutRef s"
  "clock (audioSosEffect s) = clock s"
  "nextFn (audioSosEffect s) = nextFn s"
  "listeners (audioSosEffect s) = listeners s"
  "handleOrientationFn (audioSosEffect s) = handleOrientationFn s"
  "timerInterval (audioSosEffect s) = timerInterval s"
  "visualSosCleanup (audioSosEffect s) = visualSosCleanup s"
  "tones (audioSosEffect s) = tones s"
  "pendingPermission (audioSosEffect s) = pendingPermission s"
  "requestPermissionApi (audioSosEffect s) = requestPermissionApi s"
  "audioContextApi (audioSosEffect s) = audioContextApi s"
  by (simp_all add: audioSosEffect_def clearAudioSosTimeouts_eq schedulePatternAudio_eq)

lemma sensorCleanup_frame [simp]:
  "appState (sensorCleanup s) = appState s"
  "activeHologram (sensorCleanup s) = activeHologram s"
  "currentDateTime (sensorCleanup s) = currentDateTime s"
  "timerSeconds (sensorCleanup s) = timerSeconds s"
  "isTimerActive (sensorCleanup s) = isTimerActive s"
  "timerFinished (sensorCleanup s) = timerFinished s"
  "timerMode (sensorCleanup s) = timerMode s"
  "alarmTime (sensorCleanup s) = alarmTime s"
  "isAlarmRinging (sensorCleanup s) = isAlarmRinging s"
  "isFlashlightOn (sensorCleanup s) = isFlashlightOn s"
  "isSosActive (sensorCleanup s) = isSosActive s"
  "isAudioSosActive (sensorCleanup s) = isAudioSosActive s"
  "isSosLightVisible (sensorCleanup s) = isSosLightVisible s"
  "sosTimeoutRef (sensorCleanup s) = sosTimeoutRef s"
  "sosAudioTimeoutRef (sensorCleanup s) = sosAudioTimeoutRef s"
  "audioContextRef (sensorCleanup s) = audioContextRef s"
  "isRecording (sensorCleanup s) = isRecording s"
  "orientation (sensorCleanup s) = orientation s"
  "permissionState (sensorCleanup s) = permissionState s"
  "sensorSupportState (sensorCleanup s) = sensorSupportState s"
  "sensorCheckTimeoutRef (sensorCleanup s) = sensorCheckTimeoutRef s"
  "clock (sensorCleanup s) = clock s"
  "lastTimerId (sensorCleanup s) = lastTimerId s"
  "nextFn (sensorCleanup s) = nextFn s"
  "handleOrientationFn (sensorCleanup s) = handleOrientationFn s"
  "timerInterval (sensorCleanup s) = timerInterval s"
  "visualSosCleanup (sensorCleanup s) = visualSosCleanup s"
  "audioSosCleanup (sensorCleanup s) = audioSosCleanup s"
  "tones (sensorCleanup s) = tones s"
  "pendingPermission (sensorCleanup s) = pendingPermission s"
  "requestPermissionApi (sensorCleanup s) = requestPermissionApi s"
  "audioContextApi (sensorCleanup s) = audioContextApi s"
  by (simp_all add: sensorCleanup_def removeEventListener_def clearTimeout_def Let_def split: option.split)

lemma sensorEffect_frame [simp]:
  "appState (sensorEffect s) = appState s"
  "activeHologram (sensorEffect s) = activeHologram s"
  "currentDateTime (sensorEffect s) = currentDateTime s"
  "timerSeconds (sensorEffect s) = timerSeconds s"
  "isTimerActive (sensorEffect s) = isTimerActive s"
  "timerFinished (sensorEffect s) = timerFinished s"
  "timerMode (sensorEffect s) = timerMode s"
  "alarmTime (sensorEffect s) = alarmTime s"
  "isAlarmRinging (sensorEffect s) = isAlarmRinging s"
  "isFlashlightOn (sensorEffect s) = isFlashlightOn s"
  "isSosActive (sensorEffect s) = isSosActive s"
  "isAudioSosActive (sensorEffect s) = isAudioSosActive s"
  "isSosLightVisible (sensorEffect s) = isSosLightVisible s"
  "sosTimeoutRef (sensorEffect s) = sosTimeoutRef s"
  "sosAudioTimeoutRef (sensorEffect s) = sosAudioTimeoutRef s"
  "audioContextRef (sensorEffect s) = audioContextRef s"
  "isRecording (sensorEffect s) = isRecording s"
  "orientation (sensorEffect s) = orientation s"
  "sensorSupportState (sensorEffect s) = sensorSupportState s"
  "clock (sensorEffect s) = clock s"
  "timerInterval (sensorEffect s) = timerInterval s"
  "visualSosCleanup (sensorEffect s) = visualSosCleanup s"
  "audioSosCleanup (sensorEffect s) = audioSosCleanup s"
  "tones (sensorEffect s) = tones s"
  "pendingPermission (sensorEffect s) = pendingPermission s"
  "requestPermissionApi (sensorEffect s) = requestPermissionApi s"
  "audioContextApi (sensorEffect s) = audioContextApi s"
  by (simp_all add: sensorEffect_def addEventListener_def setTimeout_def Let_def)

lemma clearTimeout_frame [simp]:
  "appState (clearTimeout i s) = appState s"
  "activeHologram (clearTimeout i s) = activeHologram s"
  "currentDateTime (clearTimeout i s) = currentDateTime s"
  "timerSeconds (clearTimeout i s) = timerSeconds s"
  "isTimerActive (clearTimeout i s) = isTimerActive s"
  "timerFinished (clearTimeout i s) = timerFinished s"
  "timerMode (clearTimeout i s) = timerMode s"
  "alarmTime (clearTimeout i s) = alarmTime s"
  "isAlarmRinging (clearTimeout i s) = isAlarmRinging s"
  "isFlashlightOn (clearTimeout i s) = isFlashlightOn s"
  "isSosActive (clearTimeout i s) = isSosActive s"
  "isAudioSosActive (clearTimeout i s) = isAudioSosActive s"
  "isSosLightVisible (clearTimeout i s) = isSosLightVisible s"
  "sosTimeoutRef (clearTimeout i s) = sosTimeoutRef s"
  "sosAudioTimeoutRef (clearTimeout i s) = sosAudioTimeoutRef s"
  "audioContextRef (clearTimeout i s) = audioContextRef s"
  "isRecording (clearTimeout i s) = isRecording s"
  "orientation (clearTimeout i s) = orientation s"
  "permissionState (clearTimeout i s) = permissionState s"
  "sensorSupportState (clearTimeout i s) = sensorSupportState s"
  "sensorCheckTimeoutRef (clearTimeout i s) = sensorCheckTimeoutRef s"
  "clock (clearTimeout i s) = clock s"
  "lastTimerId (clearTimeout i s) = lastTimerId s"
  "nextFn (clearTimeout i s) = nextFn s"
  "listeners (clearTimeout i s) = listeners s"
  "handleOrientationFn (clearTimeout i s) = handleOrientationFn s"
  "timerInterval (clearTimeout i s) = timerInterval s"
  "visualSosCleanup (clearTimeout i s) = visualSosCleanup s"
  "audioSosCleanup (clearTimeout i s) = audioSosCleanup s"
  "tones (clearTimeout i s) = tones s"
  "pendingPermission (clearTimeout i s) = pendingPermission s"
  "requestPermissionApi (clearTimeout i s) = requestPermissionApi s"
  "audioContextApi (clearTimeout i s) = audioContextApi s"
  by (simp_all add: clearTimeout_def)

lemma removeEventListener_frame [simp]:
  "appState (removeEventListener l s) = appState s"
  "activeHologram (removeEventListener l s) = activeHologram s"
  "currentDateTime (removeEventListener l s) = currentDateTime s"
  "timerSeconds (removeEventListener l s) = timerSeconds s"
  "isTimerActive (removeEventListener l s) = isTimerActive s"
  "timerFinished (removeEventListener l s) = timerFinished s"
  "timerMode (removeEventListener l s) = timerMode s"
  "alarmTime (removeEventListener l s) = alarmTime s"
  "isAlarmRinging (removeEventListener l s) = isAlarmRinging s"
  "isFlashlightOn (removeEventListener l s) = isFlashlightOn s"
  "isSosActive (removeEventListener l s) = isSosActive s"
  "isAudioSosActive (removeEventListener l s) = isAudioSosActive s"
  "isSosLightVisible (removeEventListener l s) = isSosLightVisible s"
  "sosTimeoutRef (removeEventListener l s) = sosTimeoutRef s"
  "sosAudioTimeoutRef (removeEventListener l s) = sosAudioTimeoutRef s"
  "audioContextRef (removeEventListener l s) = audioContextRef s"
  "isRecording (removeEventListener l s) = isRecording s"
  "orientation (removeEventListener l s) = orientation s"
  "permissionState (removeEventListener l s) = permissionState s"
  "sensorSupportState (removeEventListener l s) = sensorSupportState s"
  "sensorCheckTimeoutRef (removeEventListener l s) = sensorCheckTimeoutRef s"
  "clock (removeEventListener l s) = clock s"
  "lastTimerId (removeEventListener l s) = lastTimerId s"
  "timers (removeEventListener l s) = timers s"
  "nextFn (removeEventListener l s) = nextFn s"
  "handleOrientationFn (removeEventListener l s) = handleOrientationFn s"
  "timerInterval (removeEventListener l s) = timerInterval s"
  "visualSosCleanup (removeEventListener l s) = visualSosCleanup s"
  "audioSosCleanup (removeEventListener l s) = audioSosCleanup s"
  "tones (removeEventListener l s) = tones s"
  "pendingPermission (removeEventListener l s) = pendingPermission s"
  "requestPermissionApi (removeEventListener l s) = requestPermissionApi s"
  "audioContextApi (removeEventListener l s) = audioContextApi s"
  by (simp_all add: removeEventListener_def)

lemma addEventListener_frame [simp]:
  "appState (addEventListener l s) = appState s"
  "activeHologram (addEventListener l s) = activeHologram s"
  "currentDateTime (addEventListener l s) = currentDateTime s"
  "timerSeconds (addEventListener l s) = timerSeconds s"
  "isTimerActive (addEventListener l s) = isTimerActive s"
  "timerFinished (addEventListener l s) = timerFinished s"
  "timerMode (addEventListener l s) = timerMode s"
  "alarmTime (addEventListener l s) = alarmTime s"
  "isAlarmRinging (addEventListener l s) = isAlarmRinging s"
  "isFlashlightOn (addEventListener l s) = isFlashlightOn s"
  "isSosActive (addEventListener l s) = isSosActive s"
  "isAudioSosActive (addEventListener l s) = isAudioSosActive s"
  "isSosLightVisible (addEventListener l s) = isSosLightVisible s"
  "sosTimeoutRef (addEventListener l s) = sosTimeoutRef s"
  "sosAudioTimeoutRef (addEventListener l s) = sosAudioTimeoutRef s"
  "audioContextRef (addEventListener l s) = audioContextRef s"
  "isRecording (addEventListener l s) = isRecording s"
  "orientation (addEventListener l s) = orientation s"
  "permissionState (addEventListener l s) = permissionState s"
  "sensorSupportState (addEventListener l s) = sensorSupportState s"
  "sensorCheckTimeoutRef (addEventListener l s) = sensorCheckTimeoutRef s"
  "clock (addEventListener l s) = clock s"
  "lastTimerId (addEventListener l s) = lastTimerId s"
  "timers (addEventListener l s) = timers s"
  "nextFn (addEventListener l s) = nextFn s"
  "handleOrientationFn (addEventListener l s) = handleOrientationFn s"
  "timerInterval (addEventListener l s) = timerInterval s"
  "visualSosCleanup (addEventListener l s) = visualSosCleanup s"
  "audioSosCleanup (addEventListener l s) = audioSosCleanup s"
  "tones (addEventListener l s) = tones s"
  "pendingPermission (addEventListener l s) = pendingPermission s"
  "requestPermissionApi (addEventListener l s) = requestPermissionApi s"
  "audioContextApi (addEventListener l s) = audioContextApi s"
  by (simp_all add: addEventListener_def)

lemma playTone_frame [simp]:
  "appState (playTone d s) = appState s"
  "activeHologram (playTone d s) = activeHologram s"
  "currentDateTime (playTone d s) = currentDateTime s"
  "timerSeconds (playTone d s) = timerSeconds s"
  "isTimerActive (playTone d s) = isTimerActive s"
  "timerFinished (playTone d s) = timerFinished s"
  "timerMode (playTone d s) = timerMode s"
  "alarmTime (playTone d s) = alarmTime s"
  "isAlarmRinging (playTone d s) = isAlarmRinging s"
  "isFlashlightOn (playTone d s) = isFlashlightOn s"
  "isSosActive (playTone d s) = isSosActive s"
  "isAudioSosActive (playTone d s) = isAudioSosActive s"
  "isSosLightVisible (playTone d s) = isSosLightVisible s"
  "sosTimeoutRef (playTone d s) = sosTimeoutRef s"
  "sosAudioTimeoutRef (playTone d s) = sosAudioTimeoutRef s"
  "audioContextRef (playTone d s) = audioContextRef s"
  "isRecording (playTone d s) = isRecording s"
  "orientation (playTone d s) = orientation s"
  "permissionState (playTone d s) = permissionState s"
  "sensorSupportState (playTone d s) = sensorSupportState s"
  "sensorCheckTimeoutRef (playTone d s) = sensorCheckTimeoutRef s"
  "clock (playTone d s) = clock s"
  "lastTimerId (playTone d s) = lastTimerId s"
  "timers (playTone d s) = timers s"
  "nextFn (playTone d s) = nextFn s"
  "listeners (playTone d s) = listeners s"
  "handleOrientationFn (playTone d s) = handleOrientationFn s"
  "timerInterval (playTone d s) = timerInterval s"
  "visualSosCleanup (playTone d s) = visualSosCleanup s"
  "audioSosCleanup (playTone d s) = audioSosCleanup s"
  "pendingPermission (playTone d s) = pendingPermission s"
  "requestPermissionApi (playTone d s) = requestPermissionApi s"
  "audioContextApi (playTone d s) = audioContextApi s"
  by (simp_all add: playTone_def)

lemma sensorTimeout_frame [simp]:
  "appState (sensorTimeout l s) = appState s"
  "activeHologram (sensorTimeout l s) = activeHologram s"
  "currentDateTime (sensorTimeout l s) = currentDateTime s"
  "timerSeconds (sensorTimeout l s) = timerSeconds s"
  "isTimerActive (sensorTimeout l s) = isTimerActive s"
  "timerFinished (sensorTimeout l s) = timerFinished s"
  "timerMode (sensorTimeout l s) = timerMode s"
  "alarmTime (sensorTimeout l s) = alarmTime s"
  "isAlarmRinging (sensorTimeout l s) = isAlarmRinging s"
  "isFlashlightOn (sensorTimeout l s) = isFlashlightOn s"
  "isSosActive (sensorTimeout l s) = isSosActive s"
  "isAudioSosActive (sensorTimeout l s) = isAudioSosActive s"
  "isSosLightVisible (sensorTimeout l s) = isSosLightVisible s"
  "sosTimeoutRef (sensorTimeout l s) = sosTimeoutRef s"
  "sosAudioTimeoutRef (sensorTimeout l s) = sosAudioTimeoutRef s"
  "audioContextRef (sensorTimeout l s) = audioContextRef s"
  "isRecording (sensorTimeout l s) = isRecording s"
  "orientation (sensorTimeout l s) = orientation s"
  "permissionState (sensorTimeout l s) = permissionState s"
  "sensorCheckTimeoutRef (sensorTimeout l s) = sensorCheckTimeoutRef s"
  "clock (sensorTimeout l s) = clock s"
  "lastTimerId (sensorTimeout l s) = lastTimerId s"
  "timers (sensorTimeout l s) = timers s"
  "nextFn (sensorTimeout l s) = nextFn s"
  "handleOrientationFn (sensorTimeout l s) = handleOrientationFn s"
  "timerInterval (sensorTimeout l s) = timerInterval s"
  "visualSosCleanup (sensorTimeout l s) = visualSosCleanup s"
  "audioSosCleanup (sensorTimeout l s) = audioSosCleanup s"
  "tones (sensorTimeout l s) = tones s"
  "pendingPermission (sensorTimeout l s) = pendingPermission s"
  "requestPermissionApi (sensorTimeout l s) = requestPermissionApi s"
  "audioContextApi (sensorTimeout l s) = audioContextApi s"
  by (simp_all add: sensorTimeout_def)

lemma detectListener_frame [simp]:
  "appState (detectListener l ev s) = appState s"
  "activeHologram (detectListener l ev s) = activeHologram s"
  "currentDateTime (detectListener l ev s) = currentDateTime s"
  "timerSeconds (detectListener l ev s) = timerSeconds s"
  "isTimerActive (detectListener l ev s) = isTimerActive s"
  "timerFinished (detectListener l ev s) = timerFinished s"
  "timerMode (detectListener l ev s) = timerMode s"
  "alarmTime (detectListener l ev s) = alarmTime s"
  "isAlarmRinging (detectListener l ev s) = isAlarmRinging s"
  "isFlashlightOn (detectListener l ev s) = isFlashlightOn s"
  "isSosActive (detectListener l ev s) = isSosActive s"
  "isAudioSosActive (detectListener l ev s) = isAudioSosActive s"
  "isSosLightVisible (detectListener l ev s) = isSosLightVisible s"
  "sosTimeoutRef (detectListener l ev s) = sosTimeoutRef s"
  "sosAudioTimeoutRef (detectListener l ev s) = sosAudioTimeoutRef s"
  "audioContextRef (detectListener l ev s) = audioContextRef s"
  "isRecording (detectListener l ev s) = isRecording s"
  "orientation (detectListener l ev s) = orientation s"
  "permissionState (detectListener l ev s) = permissionState s"
  "clock (detectListener l ev s) = clock s"
  "lastTimerId (detectListener l ev s) = lastTimerId s"
  "nextFn (detectListener l ev s) = nextFn s"
  "handleOrientationFn (detectListener l ev s) = handleOrientationFn s"
  "timerInterval (detectListener l ev s) = timerInterval s"
  "visualSosCleanup (detectListener l ev s) = visualSosCleanup s"
  "audioSosCleanup (detectListener l ev s) = audioSosCleanup s"
  "tones (detectListener l ev s) = tones s"
  "pendingPermission (detectListener l ev s) = pendingPermission s"
  "requestPermissionApi (detectListener l ev s) = requestPermissionApi s"
  "audioContextApi (detectListener l ev s) = audioContextApi s"
  by (simp_all add: detectListener_def Let_def split: option.split)

lemma handleOrientation_frame [simp]:
  "appState (handleOrientation ev s) = appState s"
  "activeHologram (handleOrientation ev s) = activeHologram s"
  "currentDateTime (handleOrientation ev s) = currentDateTime s"
  "timerSeconds (handleOrientation ev s) = timerSeconds s"
  "isTimerActive (handleOrientation ev s) = isTimerActive s"
  "timerFinished (handleOrientation ev s) = timerFinished s"
  "timerMode (handleOrientation ev s) = timerMode s"
  "alarmTime (handleOrientation ev s) = alarmTime s"
  "isAlarmRinging (handleOrientation ev s) = isAlarmRinging s"
  "isFlashlightOn (handleOrientation ev s) = isFlashlightOn s"
  "isSosActive (handleOrientation ev s) = isSosActive s"
  "isAudioSosActive (handleOrientation ev s) = isAudioSosActive s"
  "isSosLightVisible (handleOrientation ev s) = isSosLightVisible s"
  "sosTimeoutRef (handleOrientation ev s) = sosTimeoutRef s"
  "sosAudioTimeoutRef (handleOrientation ev s) = sosAudioTimeoutRef s"
  "audioContextRef (handleOrientation ev s) = audioContextRef s"
  "isRecording (handleOrientation ev s) = isRecording s"
  "permissionState (handleOrientation ev s) = permissionState s"
  "sensorSupportState (handleOrientation ev s) = sensorSupportState s"
  "sensorCheckTimeoutRef (handleOrientation ev s) = sensorCheckTimeoutRef s"
  "clock (handleOrientation ev s) = clock s"
  "lastTimerId (handleOrientation ev s) = lastTimerId s"
  "timers (handleOrientation ev s) = timers s"
  "nextFn (handleOrientation ev s) = nextFn s"
  "listeners (handleOrientation ev s) = listeners s"
  "handleOrientationFn (handleOrientation ev s) = handleOrientationFn s"
  "timerInterval (handleOrientation ev s) = timerInterval s"
  "visualSosCleanup (handleOrientation ev s) = visualSosCleanup s"
  "audioSosCleanup (handleOrientation ev s) = audioSosCleanup s"
  "tones (handleOrientation ev s) = tones s"
  "pendingPermission (handleOrientation ev s) = pendingPermission s"
  "requestPermissionApi (handleOrientation ev s) = requestPermissionApi s"
  "audioContextApi (handleOrientation ev s) = audioContextApi s"
  by (simp_all add: handleOrientation_def)

lemma runCallback_frame [simp]:
  "appState (runCallback c s) = appState s"
  "activeHologram (runCallback c s) = activeHologram s"
  "currentDateTime (runCallback c s) = currentDateTime s"
  "timerSeconds (runCallback c s) = timerSeconds s"
  "isTimerActive (runCallback c s) = isTimerActive s"
  "timerFinished (runCallback c s) = timerFinished s"
  "timerMode (runCallback c s) = timerMode s"
  "alarmTime (runCallback c s) = alarmTime s"
  "isAlarmRinging (runCallback c s) = isAlarmRinging s"
  "isFlashlightOn (runCallback c s) = isFlashlightOn s"
  "isSosActive (runCallback c s) = isSosActive s"
  "isAudioSosActive (runCallback c s) = isAudioSosActive s"
  "audioContextRef (runCallback c s) = audioContextRef s"
  "isRecording (runCallback c s) = isRecording s"
  "orientation (runCallback c s) = orientation s"
  "permissionState (runCallback c s) = permissionState s"
  "sensorCheckTimeoutRef (runCallback c s) = sensorCheckTimeoutRef s"
  "clock (runCallback c s) = clock s"
  "nextFn (runCallback c s) = nextFn s"
  "handleOrientationFn (runCallback c s) = handleOrientationFn s"
  "timerInterval (runCallback c s) = timerInterval s"
  "visualSosCleanup (runCallback c s) = visualSosCleanup s"
  "audioSosCleanup (runCallback c s) = audioSosCleanup s"
  "pendingPermission (runCallback c s) = pendingPermission s"
  "requestPermissionApi (runCallback c s) = requestPermissionApi s"
  "audioContextApi (runCallback c s) = audioContextApi s"
  by (simp_all add: runCallback_def split: callback.split)

lemma fireTimeout_frame [simp]:
  "appState (fireTimeout i s) = appState s"
  "activeHologram (fireTimeout i s) = activeHologram s"
  "currentDateTime (fireTimeout i s) = currentDateTime s"
  "timerSeconds (fireTimeout i s) = timerSeconds s"
  "isTimerActive (fireTimeout i s) = isTimerActive s"
  "timerFinished (fireTimeout i s) = timerFinished s"
  "timerMode (fireTimeout i s) = timerMode s"
  "alarmTime (fireTimeout i s) = alarmTime s"
  "isAlarmRinging (fireTimeout i s) = isAlarmRinging s"
  "isFlashlightOn (fireTimeout i s) = isFlashlightOn s"
  "isSosActive (fireTimeout i s) = isSosActive s"
  "isAudioSosActive (fireTimeout i s) = isAudioSosActive s"
  "audioContextRef (fireTimeout i s) = audioContextRef s"
  "isRecording (fireTimeout i s) = isRecording s"
  "orientation (fireTimeout i s) = orientation s"
  "permissionState (fireTimeout i s) = permissionState s"
  "sensorCheckTimeoutRef (fireTimeout i s) = sensorCheckTimeoutRef s"
  "clock (fireTimeout i s) = clock s"
  "nextFn (fireTimeout i s) = nextFn s"
  "handleOrientationFn (fireTimeout i s) = handleOrientationFn s"
  "timerInterval (fireTimeout i s) = timerInterval s"
  "visualSosCleanup (fireTimeout i s) = visualSosCleanup s"
  "audioSosCleanup (fireTimeout i s) = audioSosCleanup s"
  "pendingPermission (fireTimeout i s) = pendingPermission s"
  "requestPermissionApi (fireTimeout i s) = requestPermissionApi s"
  "audioContextApi (fireTimeout i s) = audioContextApi s"
  by (simp_all add: fireTimeout_def split: option.split)

lemma dispatchTo_frame [simp]:
  "appState (dispatchTo ls ev s) = appState s"
  "activeHologram (dispatchTo ls ev s) = activeHologram s"
  "currentDateTime (dispatchTo ls ev s) = currentDateTime s"
  "timerSeconds (dispatchTo ls ev s) = timerSeconds s"
  "isTimerActive (dispatchTo ls ev s) = isTimerActive s"
  "timerFinished (dispatchTo ls ev s) = timerFinished s"
  "timerMode (dispatchTo ls ev s) = timerMode s"
  "alarmTime (dispatchTo ls ev s) = alarmTime s"
  "isAlarmRinging (dispatchTo ls ev s) = isAlarmRinging s"
  "isFlashlightOn (dispatchTo ls ev s) = isFlashlightOn s"
  "isSosActive (dispatchTo ls ev s) = isSosActive s"
  "isAudioSosActive (dispatchTo ls ev s) = isAudioSosActive s"
  "isSosLightVisible (dispatchTo ls ev s) = isSosLightVisible s"
  "sosTimeoutRef (dispatchTo ls ev s) = sosTimeoutRef s"
  "sosAudioTimeoutRef (dispatchTo ls ev s) = sosAudioTimeoutRef s"
  "audioContextRef (dispatchTo ls ev s) = audioContextRef s"
  "isRecording (dispatchTo ls ev s) = isRecording s"
  "permissionState (dispatchTo ls ev s) = permissionState s"
  "clock (dispatchTo ls ev s) = clock s"
  "lastTimerId (dispatchTo ls ev s) = lastTimerId s"
  "nextFn (dispatchTo ls ev s) = nextFn s"
  "handleOrientationFn (dispatchTo ls ev s) = handleOrientationFn s"
  "timerInterval (dispatchTo ls ev s) = timerInterval s"
  "visualSosCleanup (dispatchTo ls ev s) = visualSosCleanup s"
  "audioSosCleanup (dispatchTo ls ev s) = audioSosCleanup s"
  "tones (dispatchTo ls ev s) = tones s"
  "pendingPermission (dispatchTo ls ev s) = pendingPermission s"
  "requestPermissionApi (dispatchTo ls ev s) = requestPermissionApi s"
  "audioContextApi (dispatchTo ls ev s) = audioContextApi s"
  by (induction ls ev s rule: dispatchTo.induct; simp split: listenerFn.split)+

lemma dispatchOrientation_frame [simp]:
  "appState (dispatchOrientation ev s) = appState s"
  "activeHologram (dispatchOrientation ev s) = activeHologram s"
  "currentDateTime (dispatchOrientation ev s) = currentDateTime s"
  "timerSeconds (dispatchOrientation ev s) = timerSeconds s"
  "isTimerActive (dispatchOrientation ev s) = isTimerActive s"
  "timerFinished (dispatchOrientation ev s) = timerFinished s"
  "timerMode (dispatchOrientation ev s) = timerMode s"
  "alarmTime (dispatchOrientation ev s) = alarmTime s"
  "isAlarmRinging (dispatchOrientation ev s) = isAlarmRinging s"
  "isFlashlightOn (dispatchOrientation ev s) = isFlashlightOn s"
  "isSosActive (dispatchOrientation ev s) = isSosActive s"
  "isAudioSosActive (dispatchOrientation ev s) = isAudioSosActive s"
  "isSosLightVisible (dispatchOrientation ev s) = isSosLightVisible s"
  "sosTimeoutRef (dispatchOrientation ev s) = sosTimeoutRef s"
  "sosAudioTimeoutRef (dispatchOrientation ev s) = sosAudioTimeoutRef s"
  "audioContextRef (dispatchOrientation ev s) = audioContextRef s"
  "isRecording (dispatchOrientation ev s) = isRecording s"
  "permissionState (dispatchOrientation ev s) = permissionState s"
  "clock (dispatchOrientation ev s) = clock s"
  "lastTimerId (dispatchOrientation ev s) = lastTimerId s"
  "nextFn (dispatchOrientation ev s) = nextFn s"
  "handleOrientationFn (dispatchOrientation ev s) = handleOrientationFn s"
  "timerInterval (dispatchOrientation ev s) = timerInterval s"
  "visualSosCleanup (dispatchOrientation ev s) = visualSosCleanup s"
  "audioSosCleanup (dispatchOrientation ev s) = audioSosCleanup s"
  "tones (dispatchOrientation ev s) = tones s"
  "pendingPermission (dispatchOrientation ev s) = pendingPermission s"
  "requestPermissionApi (dispatchOrientation ev s) = requestPermissionApi s"
  "audioContextApi (dispatchOrientation ev s) = audioContextApi s"
  by (simp_all add: dispatchOrientation_def)


section \<open>Events, renders and the timer feature\<close>

lemmas handler_defs =
  handleStartClick_def handleBackClick_def handleHologramSelect_def handleStartStop_def
  handleReset_def handleSetPreset_def handleSetAlarm_def handleClearAlarm_def
  handleStopRinging_def initializeAudioContext_def handlePowerOn_def handleSosVisual_def
  handleSosAudio_def handlePermissionRequest_def permissionResolved_def clockTick_def
  timerTick_def

lemma effectsPass_same [simp]: "effectsPass s s = s"
  by (simp add: effectsPass_def)

lemma effectsPass_timer_fields:
  "timerSeconds (effectsPass old s) = timerSeconds s"
  "timerMode (effectsPass old s) = timerMode s"
  "isTimerActive (effectsPass old s) =
     (if (isTimerActive old, timerSeconds old, timerMode old) \<noteq> (isTimerActive s, timerSeconds s, timerMode s)
      then isTimerActive (timerEffect s) else isTimerActive s)"
  "timerFinished (effectsPass old s) =
     (if (isTimerActive old, timerSeconds old, timerMode old) \<noteq> (isTimerActive s, timerSeconds s, timerMode s)
      then timerFinished (timerEffect s) else timerFinished s)"
  "timerInterval (effectsPass old s) =
     (if (isTimerActive old, timerSeconds old, timerMode old) \<noteq> (isTimerActive s, timerSeconds s, timerMode s)
      then timerInterval (timerEffect (timerCleanup s)) else timerInterval s)"
  by (simp_all add: effectsPass_def Let_def timerEffect_def timerCleanup_def)

lemma handle_timerInterval [simp]: "timerInterval (handle e s) = timerInterval s"
  by (cases e) (simp_all add: handle_def handler_defs Let_def split: option.split intervalFn.split nat.split)

lemma timerConsistent_effectsPass:
  assumes "timerConsistent s \<or> (isTimerActive old, timerSeconds old, timerMode old) \<noteq> (isTimerActive s, timerSeconds s, timerMode s)"
  shows "timerConsistent (effectsPass old s)"
  using assms
  by (auto simp add: timerConsistent_def effectsPass_timer_fields timerEffect_def timerCleanup_def)

lemma timerConsistent_step: 
  assumes "timerConsistent s" shows "timerConsistent (step e s)"
proof -
  have 1: "timerConsistent (handle e s) \<or> (isTimerActive s, timerSeconds s, timerMode s) \<noteq> (isTimerActive (handle e s), timerSeconds (handle e s), timerMode (handle e s))"
    using assms by (auto simp add: timerConsistent_def)
  show ?thesis unfolding step_def commit_def
    by (intro timerConsistent_effectsPass disjI1 1)
qed

lemma timerConsistent_init: "timerConsistent (init rp ac now)"
  by (simp add: timerConsistent_def init_def)

lemma steps_snoc: "steps (es @ [e]) s = step e (steps es s)"
  by (simp add: steps_def)

lemma timerConsistent_steps: "timerConsistent s \<Longrightarrow> timerConsistent (steps es s)"
  by (induction es rule: rev_induct) (simp_all add: steps_snoc timerConsistent_step, simp add: steps_def)


lemma preset_state:
  assumes "timerConsistent s"
  shows "timerMode (step (SetPreset 1) s) = Countdown \<and> timerSeconds (step (SetPreset 1) s) = 60 \<and>
         isTimerActive (step (SetPreset 1) s) \<and> \<not> timerFinished (step (SetPreset 1) s)"
  by (simp add: step_def commit_def effectsPass_timer_fields handle_def handleSetPreset_def
      timerEffect_def timerCleanup_def)

lemma countdown_tick:
  assumes "timerConsistent s" and "timerMode s = Countdown" and "isTimerActive s"
    and "\<not> timerFinished s"
  shows "timerMode (step TimerTick s) = Countdown \<and>
         timerSeconds (step TimerTick s) = timerSeconds s - 1 \<and>
         isTimerActive (step TimerTick s) = (1 < timerSeconds s) \<and>
         timerFinished (step TimerTick s) = (timerSeconds s \<le> 1)"
  using assms
  by (auto simp add: timerConsistent_def step_def commit_def effectsPass_timer_fields handle_def
      timerTick_def timerEffect_def timerCleanup_def)

lemma finished_tick:
  assumes "timerConsistent s" and "\<not> isTimerActive s"
  shows "step TimerTick s = s"
  using assms
  by (simp add: timerConsistent_def step_def commit_def handle_def timerTick_def)

lemma replicate_steps_Suc: "steps (replicate (Suc k) e) s = step e (steps (replicate k e) s)"
proof -
  have "replicate (Suc k) e = replicate k e @ [e]"
    by (simp add: replicate_append_same)
  then show ?thesis by (simp only: steps_snoc)
qed

lemma countdown_run:
  assumes "timerConsistent s" and "timerMode s = Countdown" and "isTimerActive s"
    and "\<not> timerFinished s" and "timerSeconds s = int n"
  shows "timerMode (steps (replicate k TimerTick) s) = Countdown \<and>
         timerSeconds (steps (replicate k TimerTick) s) = (if k < n then int n - int k else 0) \<and>
         isTimerActive (steps (replicate k TimerTick) s) = (k < n) \<and>
         timerFinished (steps (replicate k TimerTick) s) = (n \<le> k)"
proof (induction k)
  case 0
  have "0 < timerSeconds s" using assms by (simp add: timerConsistent_def)
  then show ?case using assms by (simp add: steps_def)
next
  case (Suc k)
  let ?s = "steps (replicate k TimerTick) s"
  have c: "timerConsistent ?s" using assms(1) by (rule timerConsistent_steps)
  show ?case
  proof (cases "k < n")
    case True
    with Suc have "timerMode ?s = Countdown" "isTimerActive ?s" "\<not> timerFinished ?s"
      "timerSeconds ?s = int n - int k" by simp_all
    from countdown_tick[OF c this(1,2,3)] this(4) True show ?thesis
      by (simp only: replicate_steps_Suc) auto
  next
    case False
    with Suc have "\<not> isTimerActive ?s" by simp
    from finished_tick[OF c this] Suc False show ?thesis
      by (simp only: replicate_steps_Suc) auto
  qed
qed


section \<open>Cells no effect writes, and the alarm\<close>

lemma effectsPass_frame [simp]:
  "appState (effectsPass old s) = appState s"
  "activeHologram (effectsPass old s) = activeHologram s"
  "currentDateTime (effectsPass old s) = currentDateTime s"
  "alarmTime (effectsPass old s) = alarmTime s"
  "isAlarmRinging (effectsPass old s) = isAlarmRinging s"
  "isFlashlightOn (effectsPass old s) = isFlashlightOn s"
  "isSosActive (effectsPass old s) = isSosActive s"
  "isAudioSosActive (effectsPass old s) = isAudioSosActive s"
  "audioContextRef (effectsPass old s) = audioContextRef s"
  "isRecording (effectsPass old s) = isRecording s"
  "orientation (effectsPass old s) = orientation s"
  "sensorSupportState (effectsPass old s) = sensorSupportState s"
  "clock (effectsPass old s) = clock s"
  "tones (effectsPass old s) = tones s"
  "pendingPermission (effectsPass old s) = pendingPermission s"
  "requestPermissionApi (effectsPass old s) = requestPermissionApi s"
  "audioContextApi (effectsPass old s) = audioContextApi s"
  by (simp_all add: effectsPass_def Let_def)

lemma step_frame:
  "appState (step e s) = appState (handle e s)"
  "activeHologram (step e s) = activeHologram (handle e s)"
  "alarmTime (step e s) = alarmTime (handle e s)"
  "isAlarmRinging (step e s) = isAlarmRinging (handle e s)"
  "isSosActive (step e s) = isSosActive (handle e s)"
  "isAudioSosActive (step e s) = isAudioSosActive (handle e s)"
  "sensorSupportState (step e s) = sensorSupportState (handle e s)"
  "clock (step e s) = clock (handle e s)"
  "tones (step e s) = tones (handle e s)"
  "pendingPermission (step e s) = pendingPermission (handle e s)"
  "requestPermissionApi (step e s) = requestPermissionApi (handle e s)"
  "audioContextApi (step e s) = audioContextApi (handle e s)"
  by (simp_all add: step_def commit_def)

lemma of_char_digitChar: "d < 10 \<Longrightarrow> (of_char (digitChar d) :: nat) = 48 + d"
  by (simp add: digitChar_def)

lemma digitChar_props:
  assumes "d < 10"
  shows "isDigit (digitChar d)" and "\<not> isWhiteSpace (digitChar d)"
    and "digitChar d \<noteq> CHR '':''" and "digitChar d \<noteq> CHR ''-''" and "digitChar d \<noteq> CHR ''+''"
    and "of_char (digitChar d) - 48 = d"
proof -
  note v = of_char_digitChar[OF assms]
  show "isDigit (digitChar d)" using assms by (simp add: isDigit_def v)
  show "\<not> isWhiteSpace (digitChar d)" by (simp add: isWhiteSpace_def v)
  have "(of_char (digitChar d) :: nat) \<noteq> of_char (CHR '':'')" using assms by (simp add: v)
  then show "digitChar d \<noteq> CHR '':''" by auto
  have "(of_char (digitChar d) :: nat) \<noteq> of_char (CHR ''-'')" by (simp add: v)
  then show "digitChar d \<noteq> CHR ''-''" by auto
  have "(of_char (digitChar d) :: nat) \<noteq> of_char (CHR ''+'')" by (simp add: v)
  then show "digitChar d \<noteq> CHR ''+''" by auto
  show "of_char (digitChar d) - 48 = d" by (simp add: v)
qed

lemma parseInt10_two_digits:
  assumes "a < 10" and "b < 10"
  shows "parseInt10 (Some [digitChar a, digitChar b]) = Some (int (10 * a + b))"
  by (simp add: parseInt10_def digitsValue_def Let_def digitChar_props[OF assms(1)]
      digitChar_props[OF assms(2)])

lemma splitStr_timeValue:
  assumes "h < 100" and "m < 100"
  shows "splitStr (CHR '':'') (timeValue h m) =
           [[digitChar (h div 10), digitChar (h mod 10)], [digitChar (m div 10), digitChar (m mod 10)]]"
proof -
  have "h div 10 < 10" "h mod 10 < 10" "m div 10 < 10" "m mod 10 < 10" using assms by auto
  then show ?thesis by (simp add: timeValue_def digitChar_props)
qed

lemma alarmMatches_timeValue:
  assumes "h < 100" and "m < 100"
  shows "alarmMatches now (Some (timeValue h m)) =
           (getHours now = h \<and> getMinutes now = m \<and> getSeconds now = 0)"
proof -
  have d: "h div 10 < 10" "h mod 10 < 10" "m div 10 < 10" "m mod 10 < 10" using assms by auto
  have "timeValue h m \<noteq> []" by (simp add: timeValue_def)
  then show ?thesis
    using parseInt10_two_digits[OF d(1,2)] parseInt10_two_digits[OF d(3,4)]
    by (auto simp add: alarmMatches_def splitStr_timeValue[OF assms])
qed

lemma handle_isAlarmRinging:
  "isAlarmRinging (handle e s) =
     (case e of
        ClockTick now \<Rightarrow> isAlarmRinging s \<or> alarmMatches now (alarmTime s)
      | StopRinging \<Rightarrow> False
      | ClearAlarm \<Rightarrow> False
      | SetAlarm v \<Rightarrow> isAlarmRinging s \<and> v = []
      | BackClick \<Rightarrow> isAlarmRinging s \<and> \<not> (appState s = Hologram \<and> activeHologram s = Alarm)
      | _ \<Rightarrow> isAlarmRinging s)"
  by (cases e)
    (auto simp add: handle_def handler_defs alarmMatches_def Let_def
      split: option.split intervalFn.split nat.split)


section \<open>The sensor feature: entering, leaving, detecting\<close>

lemma effectsPass_sensor_only:
  assumes "isTimerActive old = isTimerActive s" and "timerSeconds old = timerSeconds s"
    and "timerMode old = timerMode s" and "isSosActive old = isSosActive s"
    and "isAudioSosActive old = isAudioSosActive s"
  shows "effectsPass old s =
           (if (activeHologram old, sensorSupportState old, permissionState old)
                 \<noteq> (activeHologram s, sensorSupportState s, permissionState s)
            then sensorEffect (sensorCleanup s) else s)"
  using assms by (simp add: effectsPass_def Let_def)

lemma handleBackClick_sensor:
  assumes "appState s = Hologram" and "activeHologram s = SpiritLevel \<or> activeHologram s = Compass"
  shows "handleBackClick s = s\<lparr>permissionState := Unknown, sensorSupportState := Checking,
                activeHologram := HNone, appState := Menu\<rparr>"
  using assms(2)
proof
  assume "activeHologram s = SpiritLevel"
  with assms(1) show ?thesis by (simp add: handleBackClick_def Let_def)
next
  assume "activeHologram s = Compass"
  with assms(1) show ?thesis by (simp add: handleBackClick_def Let_def)
qed

lemma permissionState_sensorEffect_idle:
  "activeHologram s \<noteq> SpiritLevel \<Longrightarrow> activeHologram s \<noteq> Compass \<Longrightarrow>
     permissionState (sensorEffect s) = permissionState s"
  "sensorSupportState s \<noteq> Supported \<Longrightarrow> permissionState (sensorEffect s) = permissionState s"
  by (simp_all add: sensorEffect_def Let_def setTimeout_def addEventListener_def)

lemma step_back_sensor:
  assumes "appState s = Hologram" and "activeHologram s = SpiritLevel \<or> activeHologram s = Compass"
  shows "step BackClick s =
           sensorEffect (sensorCleanup
             (s\<lparr>permissionState := Unknown, sensorSupportState := Checking,
                activeHologram := HNone, appState := Menu\<rparr>))"
proof -
  let ?h = "s\<lparr>permissionState := Unknown, sensorSupportState := Checking,
                activeHologram := HNone, appState := Menu\<rparr>"
  have h: "handle BackClick s = ?h"
    by (simp add: handle_def handleBackClick_sensor[OF assms])
  have "activeHologram s \<noteq> activeHologram ?h" using assms(2) by auto
  then have p1: "effectsPass s ?h = sensorEffect (sensorCleanup ?h)"
    by (subst effectsPass_sensor_only) simp_all
  have p2: "effectsPass ?h (sensorEffect (sensorCleanup ?h)) = sensorEffect (sensorCleanup ?h)"
    by (subst effectsPass_sensor_only) (simp_all add: permissionState_sensorEffect_idle)
  show ?thesis
    by (simp only: step_def commit_def h p1 p2)
qed

lemma step_select_sensor:
  assumes "activeHologram s = HNone" and "sensorSupportState s = Checking"
    and "h = SpiritLevel \<or> h = Compass"
  shows "step (HologramSelect h) s =
           sensorEffect (sensorCleanup (s\<lparr>activeHologram := h, appState := Hologram\<rparr>))"
proof -
  let ?h = "s\<lparr>activeHologram := h, appState := Hologram\<rparr>"
  have h: "handle (HologramSelect h) s = ?h"
    by (simp add: handle_def handleHologramSelect_def)
  have "activeHologram s \<noteq> activeHologram ?h" using assms by auto
  then have p1: "effectsPass s ?h = sensorEffect (sensorCleanup ?h)"
    by (subst effectsPass_sensor_only) simp_all
  have p2: "effectsPass ?h (sensorEffect (sensorCleanup ?h)) = sensorEffect (sensorCleanup ?h)"
    using assms(2) by (subst effectsPass_sensor_only) (simp_all add: permissionState_sensorEffect_idle)
  show ?thesis
    by (simp only: step_def commit_def h p1 p2)
qed

lemma sensorEffect_checking:
  assumes "activeHologram x = SpiritLevel \<or> activeHologram x = Compass"
    and "sensorSupportState x = Checking"
  shows "sensorEffect x =
           x\<lparr>handleOrientationFn := nextFn x, nextFn := Suc (Suc (nextFn x)),
             listeners := (if (Suc (nextFn x), Detect) \<in> set (listeners x) then listeners x
                           else listeners x @ [(Suc (nextFn x), Detect)]),
             timers := timers x @ [\<lparr>tid = Suc (lastTimerId x), due = clock x + 1000,
                                    run = SensorTimeout (Suc (nextFn x))\<rparr>],
             lastTimerId := Suc (lastTimerId x),
             sensorCheckTimeoutRef := Some (Suc (lastTimerId x))\<rparr>"
  using assms(1)
proof
  assume "activeHologram x = SpiritLevel"
  with assms(2) show ?thesis
    by (simp add: sensorEffect_def Let_def setTimeout_def addEventListener_def)
next
  assume "activeHologram x = Compass"
  with assms(2) show ?thesis
    by (simp add: sensorEffect_def Let_def setTimeout_def addEventListener_def)
qed

lemma sensorEffect_not_checking:
  assumes "sensorSupportState x \<noteq> Checking"
  shows "timers (sensorEffect x) = timers x"
    and "lastTimerId (sensorEffect x) = lastTimerId x"
    and "sensorCheckTimeoutRef (sensorEffect x) = sensorCheckTimeoutRef x"
    and "detectListeners (sensorEffect x) = detectListeners x"
  using assms
  by (simp_all add: sensorEffect_def Let_def addEventListener_def detectListeners_def)

lemma sensorCleanup_props:
  "set (timers (sensorCleanup x)) \<subseteq> set (timers x)"
  "detectListeners (sensorCleanup x) = detectListeners x"
  "listeners x = [] \<Longrightarrow> listeners (sensorCleanup x) = []"
  by (auto simp add: sensorCleanup_def Let_def removeEventListener_def clearTimeout_def
      detectListeners_def split: option.split intro: filter_cong)

lemma sensorEffect_idle:
  assumes "activeHologram x = HNone"
  shows "sensorEffect x = x\<lparr>handleOrientationFn := nextFn x, nextFn := Suc (nextFn x)\<rparr>"
  using assms by (simp add: sensorEffect_def Let_def)

lemma step_elapse: "step (Elapse d) s = s\<lparr>clock := clock s + d\<rparr>"
  by (simp add: step_def commit_def handle_def effectsPass_sensor_only)

lemma commit_sensor_only:
  assumes "isTimerActive old = isTimerActive s" and "timerSeconds old = timerSeconds s"
    and "timerMode old = timerMode s" and "isSosActive old = isSosActive s"
    and "isAudioSosActive old = isAudioSosActive s"
  shows "commit old s =
           (if (activeHologram old, sensorSupportState old, permissionState old)
                 \<noteq> (activeHologram s, sensorSupportState s, permissionState s)
            then (if permissionState (sensorEffect (sensorCleanup s)) \<noteq> permissionState s
                  then sensorEffect (sensorCleanup (sensorEffect (sensorCleanup s)))
                  else sensorEffect (sensorCleanup s))
            else s)"
  using assms
  by (simp add: commit_def effectsPass_sensor_only)

lemma detectListeners_effectsPass:
  assumes "sensorSupportState s \<noteq> Checking"
  shows "detectListeners (effectsPass old s) = detectListeners s"
proof -
  have a: "\<And>x. detectListeners (timerCleanup x) = detectListeners x"
    "\<And>x. detectListeners (timerEffect x) = detectListeners x"
    "\<And>x. detectListeners (visualSosCleanupRun x) = detectListeners x"
    "\<And>x. detectListeners (visualSosEffect x) = detectListeners x"
    "\<And>x. detectListeners (audioSosCleanupRun x) = detectListeners x"
    "\<And>x. detectListeners (audioSosEffect x) = detectListeners x"
    by (simp_all add: detectListeners_def)
  show ?thesis using assms
    by (simp add: effectsPass_def Let_def a sensorCleanup_props(2) sensorEffect_not_checking(4))
qed

lemma detectListeners_commit:
  assumes "sensorSupportState s \<noteq> Checking"
  shows "detectListeners (commit old s) = detectListeners s"
  using assms by (simp add: commit_def detectListeners_effectsPass)

lemma dispatchTo_no_detect:
  assumes "detectListeners s = []"
  shows "listeners (dispatchTo ls ev s) = listeners s \<and>
         sensorSupportState (dispatchTo ls ev s) = sensorSupportState s"
  using assms
proof (induction ls arbitrary: s)
  case Nil
  show ?case by simp
next
  case (Cons a ls)
  obtain l f where a: "a = (l, f)" by (cases a)
  show ?case
  proof (cases "(l, f) \<in> set (listeners s)")
    case False
    then show ?thesis using Cons by (simp add: a)
  next
    case True
    have "f \<noteq> Detect"
    proof
      assume "f = Detect"
      with True have "(l, f) \<in> set (detectListeners s)" by (simp add: detectListeners_def)
      with Cons.prems show False by simp
    qed
    then have f: "f = HandleOrientation" by (cases f) simp_all
    have d: "detectListeners (handleOrientation ev s) = []"
      using Cons.prems by (simp add: detectListeners_def)
    from Cons.IH[OF d] True show ?thesis by (simp add: a f)
  qed
qed

lemma unsupported_runCallback:
  assumes "sensorSupportState s = Unsupported" and "detectListeners s = []"
  shows "sensorSupportState (runCallback c s) = Unsupported \<and> detectListeners (runCallback c s) = []"
proof (cases c)
  case (SensorTimeout l)
  have "filter (\<lambda>x. snd x = Detect) (filter (\<lambda>x. x \<noteq> (l, Detect)) (listeners s)) = []"
    using assms(2) by (simp add: detectListeners_def filter_empty_conv)
  then show ?thesis
    by (simp add: SensorTimeout runCallback_def sensorTimeout_def removeEventListener_def
        detectListeners_def)
qed (use assms in \<open>simp_all add: runCallback_def detectListeners_def\<close>)

lemma unsupported_handle:
  assumes "sensorSupportState s = Unsupported" and "detectListeners s = []" and "e \<noteq> BackClick"
  shows "sensorSupportState (handle e s) = Unsupported \<and> detectListeners (handle e s) = []"
proof (cases e)
  case (TimeoutFire i)
  have c: "sensorSupportState (clearTimeout i s) = Unsupported" "detectListeners (clearTimeout i s) = []"
    using assms by (simp_all add: detectListeners_def)
  show ?thesis
    using assms unsupported_runCallback[OF c]
    by (simp add: TimeoutFire handle_def fireTimeout_def split: option.split)
next
  case (OrientationEvent ev)
  show ?thesis
    using assms dispatchTo_no_detect[OF assms(2), of "listeners s" ev]
    by (simp add: OrientationEvent handle_def dispatchOrientation_def detectListeners_def)
qed (use assms in \<open>simp_all add: handle_def handler_defs detectListeners_def Let_def
       split: option.split intervalFn.split nat.split\<close>)

lemma unsupported_step:
  assumes "sensorSupportState s = Unsupported" and "detectListeners s = []" and "e \<noteq> BackClick"
  shows "sensorSupportState (step e s) = Unsupported \<and> detectListeners (step e s) = []"
proof -
  note h = unsupported_handle[OF assms]
  then have "sensorSupportState (handle e s) \<noteq> Checking" by simp
  from detectListeners_commit[OF this] h show ?thesis
    by (simp add: step_frame) (simp add: step_def)
qed

lemma unsupported_steps:
  assumes "sensorSupportState s = Unsupported" and "detectListeners s = []"
    and "BackClick \<notin> set es"
  shows "sensorSupportState (steps es s) = Unsupported \<and> detectListeners (steps es s) = []"
  using assms(3)
proof (induction es rule: rev_induct)
  case Nil
  show ?case using assms(1,2) by (simp add: steps_def)
next
  case (snoc e es)
  then have "sensorSupportState (steps es s) = Unsupported \<and> detectListeners (steps es s) = []"
    and "e \<noteq> BackClick" by auto
  then show ?case by (simp add: steps_snoc unsupported_step)
qed

lemma timers_sensor_pass:
  assumes "sensorSupportState z \<noteq> Checking"
  shows "set (timers (sensorEffect (sensorCleanup z))) \<subseteq> set (timers z)"
  using assms sensorCleanup_props(1)[of z]
  by (simp add: sensorEffect_not_checking(1))

lemma timers_commit_sensor_only:
  assumes "isTimerActive old = isTimerActive s" and "timerSeconds old = timerSeconds s"
    and "timerMode old = timerMode s" and "isSosActive old = isSosActive s"
    and "isAudioSosActive old = isAudioSosActive s" and "sensorSupportState s \<noteq> Checking"
  shows "set (timers (commit old s)) \<subseteq> set (timers s)"
proof -
  have a: "set (timers (sensorEffect (sensorCleanup s))) \<subseteq> set (timers s)"
    by (rule timers_sensor_pass[OF assms(6)])
  have "sensorSupportState (sensorEffect (sensorCleanup s)) \<noteq> Checking"
    using assms(6) by simp
  from timers_sensor_pass[OF this] a
  have b: "set (timers (sensorEffect (sensorCleanup (sensorEffect (sensorCleanup s))))) \<subseteq> set (timers s)"
    by blast
  show ?thesis
    using a b by (simp add: commit_sensor_only[OF assms(1-5)])
qed

lemma find_append_last:
  assumes "\<forall>x\<in>set xs. \<not> P x" and "P y"
  shows "find P (xs @ [y]) = Some y"
  using assms by (induction xs) simp_all

lemma enter_sensor:
  assumes "activeHologram s0 = HNone" and "sensorSupportState s0 = Checking"
    and "listeners s0 = []" and "h = SpiritLevel \<or> h = Compass"
  shows "activeHologram (step (HologramSelect h) s0) = h"
    and "sensorSupportState (step (HologramSelect h) s0) = Checking"
    and "listeners (step (HologramSelect h) s0) = [(Suc (nextFn s0), Detect)]"
    and "\<exists>old. set old \<subseteq> set (timers s0) \<and> timers (step (HologramSelect h) s0) =
           old @ [\<lparr>tid = Suc (lastTimerId s0), due = clock s0 + 1000,
                   run = SensorTimeout (Suc (nextFn s0))\<rparr>]"
    and "sensorCheckTimeoutRef (step (HologramSelect h) s0) = Some (Suc (lastTimerId s0))"
    and "clock (step (HologramSelect h) s0) = clock s0"
    and "isTimerActive (step (HologramSelect h) s0) = isTimerActive s0"
    and "timerSeconds (step (HologramSelect h) s0) = timerSeconds s0"
    and "timerMode (step (HologramSelect h) s0) = timerMode s0"
    and "isSosActive (step (HologramSelect h) s0) = isSosActive s0"
    and "isAudioSosActive (step (HologramSelect h) s0) = isAudioSosActive s0"
proof -
  let ?x = "sensorCleanup (s0\<lparr>activeHologram := h, appState := Hologram\<rparr>)"
  have x: "activeHologram ?x = SpiritLevel \<or> activeHologram ?x = Compass"
    "sensorSupportState ?x = Checking"
    using assms by simp_all
  have l: "listeners ?x = []" using assms(3) by (simp add: sensorCleanup_props(3))
  have t: "set (timers ?x) \<subseteq> set (timers s0)"
    using sensorCleanup_props(1)[of "s0\<lparr>activeHologram := h, appState := Hologram\<rparr>"] by simp
  have e: "step (HologramSelect h) s0 = sensorEffect ?x"
    by (rule step_select_sensor[OF assms(1,2,4)])
  note c = sensorEffect_checking[OF x]
  show "activeHologram (step (HologramSelect h) s0) = h"
    "sensorSupportState (step (HologramSelect h) s0) = Checking"
    "clock (step (HologramSelect h) s0) = clock s0"
    "isTimerActive (step (HologramSelect h) s0) = isTimerActive s0"
    "timerSeconds (step (HologramSelect h) s0) = timerSeconds s0"
    "timerMode (step (HologramSelect h) s0) = timerMode s0"
    "isSosActive (step (HologramSelect h) s0) = isSosActive s0"
    "isAudioSosActive (step (HologramSelect h) s0) = isAudioSosActive s0"
    using assms(2) by (simp_all add: e)
  show "listeners (step (HologramSelect h) s0) = [(Suc (nextFn s0), Detect)]"
    by (simp add: e c l)
  show "sensorCheckTimeoutRef (step (HologramSelect h) s0) = Some (Suc (lastTimerId s0))"
    by (simp add: e c)
  have "timers (step (HologramSelect h) s0) =
           timers ?x @ [\<lparr>tid = Suc (lastTimerId s0), due = clock s0 + 1000,
                   run = SensorTimeout (Suc (nextFn s0))\<rparr>]"
    by (simp add: e c)
  with t show "\<exists>old. set old \<subseteq> set (timers s0) \<and> timers (step (HologramSelect h) s0) =
           old @ [\<lparr>tid = Suc (lastTimerId s0), due = clock s0 + 1000,
                   run = SensorTimeout (Suc (nextFn s0))\<rparr>]"
    by blast
qed


section \<open>The SOS channels: which callbacks are pending\<close>

lemma audioRun_explicit:
  "audioRun b c =
          [\<lparr>tid = b + 1, due = c, run = PlayTone 200\<rparr>,
           \<lparr>tid = b + 2, due = c + 400, run = PlayTone 200\<rparr>,
           \<lparr>tid = b + 3, due = c + 800, run = PlayTone 200\<rparr>,
           \<lparr>tid = b + 4, due = c + 1700, run = PlayTone 600\<rparr>,
           \<lparr>tid = b + 5, due = c + 2500, run = PlayTone 600\<rparr>,
           \<lparr>tid = b + 6, due = c + 3300, run = PlayTone 600\<rparr>,
           \<lparr>tid = b + 7, due = c + 4600, run = PlayTone 200\<rparr>,
           \<lparr>tid = b + 8, due = c + 5000, run = PlayTone 200\<rparr>,
           \<lparr>tid = b + 9, due = c + 5400, run = PlayTone 200\<rparr>,
           \<lparr>tid = b + 10, due = c + 7600, run = AudioLoop\<rparr>]"
  by (simp add: audioRun_def sosPattern_def upt_rec[of _ "numeral _"] enumerate_simps)

lemma schedulePatternVisual_run:
  "schedulePatternVisual s =
     s\<lparr>timers := filter (\<lambda>t. tid t \<notin> set (sosTimeoutRef s)) (timers s)
                  @ visualRun (lastTimerId s) (clock s),
        lastTimerId := lastTimerId s + 19,
        sosTimeoutRef := map tid (visualRun (lastTimerId s) (clock s))\<rparr>"
  by (simp add: schedulePatternVisual_eq visualRun_def comp_def)

lemma schedulePatternAudio_run:
  "schedulePatternAudio s =
     s\<lparr>timers := filter (\<lambda>t. tid t \<notin> set (sosAudioTimeoutRef s)) (timers s)
                  @ audioRun (lastTimerId s) (clock s),
        lastTimerId := lastTimerId s + 10,
        sosAudioTimeoutRef := map tid (audioRun (lastTimerId s) (clock s))\<rparr>"
  by (simp add: schedulePatternAudio_eq audioRun_explicit upt_rec[of _ "numeral _"])

lemma visualRun_cb: "t \<in> set (visualRun b c) \<Longrightarrow> isVisualCb (run t) \<and> \<not> isAudioCb (run t)"
  by (auto simp add: visualRun_def isVisualCb_def isAudioCb_def)

lemma audioRun_cb: "t \<in> set (audioRun b c) \<Longrightarrow> isAudioCb (run t) \<and> \<not> isVisualCb (run t)"
  by (auto simp add: audioRun_explicit isVisualCb_def isAudioCb_def)

lemma filter_visualRun:
  "filter (\<lambda>t. isVisualCb (run t)) (visualRun b c) = visualRun b c"
  "filter (\<lambda>t. isAudioCb (run t)) (visualRun b c) = []"
  "filter (\<lambda>t. isAudioCb (run t)) (audioRun b c) = audioRun b c"
  "filter (\<lambda>t. isVisualCb (run t)) (audioRun b c) = []"
  using visualRun_cb audioRun_cb by (simp_all add: filter_id_conv filter_empty_conv)

lemma sosConsistent_iff: "sosConsistent s = (runsOwned s \<and> lightRule s)"
  by (simp add: sosConsistent_def runsOwned_def lightRule_def)

lemma runsOwned_shrink:
  assumes "runsOwned s"
    and "set (visualPending s') \<subseteq> set (visualPending s)"
    and "set (audioPending s') \<subseteq> set (audioPending s)"
    and "sosTimeoutRef s' = sosTimeoutRef s" and "sosAudioTimeoutRef s' = sosAudioTimeoutRef s"
  shows "runsOwned s'"
proof -
  have v: "visualPending s' = []
       \<or> (\<exists>b c. sosTimeoutRef s' = map tid (visualRun b c)
                 \<and> set (visualPending s') \<subseteq> set (visualRun b c))"
  proof (cases "visualPending s = []")
    case True
    with assms(2) show ?thesis by simp
  next
    case False
    with assms(1) obtain b c where "sosTimeoutRef s = map tid (visualRun b c)"
      "set (visualPending s) \<subseteq> set (visualRun b c)" by (auto simp add: runsOwned_def)
    with assms(2,4) show ?thesis by fastforce
  qed
  have a: "audioPending s' = []
          \<or> (\<exists>b c. sosAudioTimeoutRef s' = map tid (audioRun b c)
                    \<and> set (audioPending s') \<subseteq> set (audioRun b c))"
  proof (cases "audioPending s = []")
    case True
    with assms(3) show ?thesis by simp
  next
    case False
    with assms(1) obtain b c where "sosAudioTimeoutRef s = map tid (audioRun b c)"
      "set (audioPending s) \<subseteq> set (audioRun b c)" by (auto simp add: runsOwned_def)
    with assms(3,5) show ?thesis by fastforce
  qed
  from v a show ?thesis by (simp add: runsOwned_def)
qed

lemma pending_mono:
  assumes "set (timers s') \<subseteq> set (timers s)"
  shows "set (visualPending s') \<subseteq> set (visualPending s)"
    and "set (audioPending s') \<subseteq> set (audioPending s)"
  using assms by (auto simp add: visualPending_def audioPending_def)

lemma pending_same:
  assumes "timers s' = timers s"
  shows "visualPending s' = visualPending s" and "audioPending s' = audioPending s"
  using assms by (simp_all add: visualPending_def audioPending_def)

lemma owned_visual_cleared:
  assumes "runsOwned s"
  shows "filter (\<lambda>t. isVisualCb (run t)) (filter (\<lambda>t. tid t \<notin> set (sosTimeoutRef s)) (timers s)) = []"
proof (cases "visualPending s = []")
  case True
  then show ?thesis by (auto simp add: visualPending_def filter_empty_conv)
next
  case False
  with assms obtain b c where r: "sosTimeoutRef s = map tid (visualRun b c)"
    "set (visualPending s) \<subseteq> set (visualRun b c)" by (auto simp add: runsOwned_def)
  have "\<And>t. t \<in> set (timers s) \<Longrightarrow> isVisualCb (run t) \<Longrightarrow> tid t \<in> set (sosTimeoutRef s)"
  proof -
    fix t assume "t \<in> set (timers s)" "isVisualCb (run t)"
    then have "t \<in> set (visualPending s)" by (simp add: visualPending_def)
    with r(2) have "t \<in> set (visualRun b c)" by blast
    then show "tid t \<in> set (sosTimeoutRef s)" by (simp add: r(1))
  qed
  then show ?thesis by (auto simp add: filter_empty_conv)
qed

lemma owned_audio_cleared:
  assumes "runsOwned s"
  shows "filter (\<lambda>t. isAudioCb (run t)) (filter (\<lambda>t. tid t \<notin> set (sosAudioTimeoutRef s)) (timers s)) = []"
proof (cases "audioPending s = []")
  case True
  then show ?thesis by (auto simp add: audioPending_def filter_empty_conv)
next
  case False
  with assms obtain b c where r: "sosAudioTimeoutRef s = map tid (audioRun b c)"
    "set (audioPending s) \<subseteq> set (audioRun b c)" by (auto simp add: runsOwned_def)
  have "\<And>t. t \<in> set (timers s) \<Longrightarrow> isAudioCb (run t) \<Longrightarrow> tid t \<in> set (sosAudioTimeoutRef s)"
  proof -
    fix t assume "t \<in> set (timers s)" "isAudioCb (run t)"
    then have "t \<in> set (audioPending s)" by (simp add: audioPending_def)
    with r(2) have "t \<in> set (audioRun b c)" by blast
    then show "tid t \<in> set (sosAudioTimeoutRef s)" by (simp add: r(1))
  qed
  then show ?thesis by (auto simp add: filter_empty_conv)
qed

lemma clearVisual_pending:
  assumes "runsOwned s"
  shows "visualPending (clearVisualSosTimeouts s) = []"
    and "set (audioPending (clearVisualSosTimeouts s)) \<subseteq> set (audioPending s)"
    and "runsOwned (clearVisualSosTimeouts s)"
proof -
  show v: "visualPending (clearVisualSosTimeouts s) = []"
    using owned_visual_cleared[OF assms] by (simp add: visualPending_def clearVisualSosTimeouts_eq)
  show a: "set (audioPending (clearVisualSosTimeouts s)) \<subseteq> set (audioPending s)"
    by (auto simp add: audioPending_def clearVisualSosTimeouts_eq)
  have "audioPending (clearVisualSosTimeouts s) = []
          \<or> (\<exists>b c. sosAudioTimeoutRef (clearVisualSosTimeouts s) = map tid (audioRun b c)
                    \<and> set (audioPending (clearVisualSosTimeouts s)) \<subseteq> set (audioRun b c))"
  proof (cases "audioPending s = []")
    case True
    with a show ?thesis by simp
  next
    case False
    with assms obtain b c where "sosAudioTimeoutRef s = map tid (audioRun b c)"
      "set (audioPending s) \<subseteq> set (audioRun b c)" by (auto simp add: runsOwned_def)
    with a show ?thesis by fastforce
  qed
  with v show "runsOwned (clearVisualSosTimeouts s)" by (simp add: runsOwned_def)
qed

lemma clearAudio_pending:
  assumes "runsOwned s"
  shows "audioPending (clearAudioSosTimeouts s) = []"
    and "set (visualPending (clearAudioSosTimeouts s)) \<subseteq> set (visualPending s)"
    and "runsOwned (clearAudioSosTimeouts s)"
proof -
  show v: "audioPending (clearAudioSosTimeouts s) = []"
    using owned_audio_cleared[OF assms] by (simp add: audioPending_def clearAudioSosTimeouts_eq)
  show a: "set (visualPending (clearAudioSosTimeouts s)) \<subseteq> set (visualPending s)"
    by (auto simp add: visualPending_def clearAudioSosTimeouts_eq)
  have "visualPending (clearAudioSosTimeouts s) = []
          \<or> (\<exists>b c. sosTimeoutRef (clearAudioSosTimeouts s) = map tid (visualRun b c)
                    \<and> set (visualPending (clearAudioSosTimeouts s)) \<subseteq> set (visualRun b c))"
  proof (cases "visualPending s = []")
    case True
    with a show ?thesis by simp
  next
    case False
    with assms obtain b c where "sosTimeoutRef s = map tid (visualRun b c)"
      "set (visualPending s) \<subseteq> set (visualRun b c)" by (auto simp add: runsOwned_def)
    with a show ?thesis by fastforce
  qed
  with v show "runsOwned (clearAudioSosTimeouts s)" by (simp add: runsOwned_def)
qed

lemma schedulePatternVisual_pending:
  assumes "runsOwned s"
  shows "visualPending (schedulePatternVisual s) = visualRun (lastTimerId s) (clock s)"
    and "set (audioPending (schedulePatternVisual s)) \<subseteq> set (audioPending s)"
    and "runsOwned (schedulePatternVisual s)"
proof -
  show v: "visualPending (schedulePatternVisual s) = visualRun (lastTimerId s) (clock s)"
    using owned_visual_cleared[OF assms]
    by (simp add: visualPending_def schedulePatternVisual_run filter_visualRun)
  show a: "set (audioPending (schedulePatternVisual s)) \<subseteq> set (audioPending s)"
    by (auto simp add: audioPending_def schedulePatternVisual_run filter_visualRun)
  have r: "sosTimeoutRef (schedulePatternVisual s) = map tid (visualRun (lastTimerId s) (clock s))"
    by (simp add: schedulePatternVisual_run)
  have "audioPending (schedulePatternVisual s) = []
          \<or> (\<exists>b c. sosAudioTimeoutRef (schedulePatternVisual s) = map tid (audioRun b c)
                    \<and> set (audioPending (schedulePatternVisual s)) \<subseteq> set (audioRun b c))"
  proof (cases "audioPending s = []")
    case True
    with a show ?thesis by simp
  next
    case False
    with assms obtain b c where "sosAudioTimeoutRef s = map tid (audioRun b c)"
      "set (audioPending s) \<subseteq> set (audioRun b c)" by (auto simp add: runsOwned_def)
    with a show ?thesis by fastforce
  qed
  moreover have "\<exists>b c. sosTimeoutRef (schedulePatternVisual s) = map tid (visualRun b c)
                 \<and> set (visualPending (schedulePatternVisual s)) \<subseteq> set (visualRun b c)"
    by (intro exI[of _ "lastTimerId s"] exI[of _ "clock s"]) (simp add: v r)
  ultimately show "runsOwned (schedulePatternVisual s)"
    by (simp add: runsOwned_def)
qed

lemma schedulePatternAudio_pending:
  assumes "runsOwned s"
  shows "audioPending (schedulePatternAudio s) = audioRun (lastTimerId s) (clock s)"
    and "set (visualPending (schedulePatternAudio s)) \<subseteq> set (visualPending s)"
    and "runsOwned (schedulePatternAudio s)"
proof -
  show v: "audioPending (schedulePatternAudio s) = audioRun (lastTimerId s) (clock s)"
    using owned_audio_cleared[OF assms]
    by (simp add: audioPending_def schedulePatternAudio_run filter_visualRun)
  show a: "set (visualPending (schedulePatternAudio s)) \<subseteq> set (visualPending s)"
    by (auto simp add: visualPending_def schedulePatternAudio_run filter_visualRun)
  have r: "sosAudioTimeoutRef (schedulePatternAudio s) = map tid (audioRun (lastTimerId s) (clock s))"
    by (simp add: schedulePatternAudio_run)
  have "visualPending (schedulePatternAudio s) = []
          \<or> (\<exists>b c. sosTimeoutRef (schedulePatternAudio s) = map tid (visualRun b c)
                    \<and> set (visualPending (schedulePatternAudio s)) \<subseteq> set (visualRun b c))"
  proof (cases "visualPending s = []")
    case True
    with a show ?thesis by simp
  next
    case False
    with assms obtain b c where "sosTimeoutRef s = map tid (visualRun b c)"
      "set (visualPending s) \<subseteq> set (visualRun b c)" by (auto simp add: runsOwned_def)
    with a show ?thesis by fastforce
  qed
  moreover have "\<exists>b c. sosAudioTimeoutRef (schedulePatternAudio s) = map tid (audioRun b c)
                 \<and> set (audioPending (schedulePatternAudio s)) \<subseteq> set (audioRun b c)"
    by (intro exI[of _ "lastTimerId s"] exI[of _ "clock s"]) (simp add: v r)
  ultimately show "runsOwned (schedulePatternAudio s)"
    by (simp add: runsOwned_def)
qed

lemma lightRule_shrink:
  assumes "lightRule s" and "set (visualPending s') \<subseteq> set (visualPending s)"
    and "isSosActive s' = isSosActive s" and "isSosLightVisible s' = isSosLightVisible s"
  shows "lightRule s'"
  using assms by (auto simp add: lightRule_def)

text \<open>The stages of a commit, one by one.\<close>

lemma stage_timerCleanup:
  "runsOwned x \<Longrightarrow> runsOwned (timerCleanup x)"
  "set (visualPending (timerCleanup x)) \<subseteq> set (visualPending x)"
  by (simp_all add: runsOwned_def visualPending_def audioPending_def)

lemma stage_timerEffect:
  "runsOwned x \<Longrightarrow> runsOwned (timerEffect x)"
  "set (visualPending (timerEffect x)) \<subseteq> set (visualPending x)"
  by (simp_all add: runsOwned_def visualPending_def audioPending_def)

lemma stage_visualSosCleanupRun:
  "runsOwned x \<Longrightarrow> runsOwned (visualSosCleanupRun x)"
  "runsOwned x \<Longrightarrow> set (visualPending (visualSosCleanupRun x)) \<subseteq> set (visualPending x)"
  by (simp_all add: visualSosCleanupRun_def clearVisual_pending)

lemma stage_audioSosCleanupRun:
  "runsOwned x \<Longrightarrow> runsOwned (audioSosCleanupRun x)"
  "runsOwned x \<Longrightarrow> set (visualPending (audioSosCleanupRun x)) \<subseteq> set (visualPending x)"
  by (simp_all add: audioSosCleanupRun_def clearAudio_pending)

lemma runsOwned_flag [simp]:
  "runsOwned (x\<lparr>visualSosCleanup := b\<rparr>) = runsOwned x"
  "runsOwned (x\<lparr>audioSosCleanup := b\<rparr>) = runsOwned x"
  "runsOwned (x\<lparr>isSosLightVisible := b\<rparr>) = runsOwned x"
  "visualPending (x\<lparr>visualSosCleanup := b\<rparr>) = visualPending x"
  "visualPending (x\<lparr>audioSosCleanup := b\<rparr>) = visualPending x"
  "visualPending (x\<lparr>isSosLightVisible := b\<rparr>) = visualPending x"
  by (simp_all add: runsOwned_def visualPending_def audioPending_def)

lemma stage_audioSosEffect:
  "runsOwned x \<Longrightarrow> runsOwned (audioSosEffect x)"
  "runsOwned x \<Longrightarrow> set (visualPending (audioSosEffect x)) \<subseteq> set (visualPending x)"
  by (simp_all add: audioSosEffect_def clearAudio_pending schedulePatternAudio_pending)

lemma stage_visualSosEffect:
  assumes "runsOwned x"
  shows "runsOwned (visualSosEffect x)" and "lightRule (visualSosEffect x)"
  using assms
  by (simp_all add: visualSosEffect_def clearVisual_pending schedulePatternVisual_pending
      lightRule_def)

lemma stage_sensorCleanup:
  "runsOwned x \<Longrightarrow> runsOwned (sensorCleanup x)"
  "set (visualPending (sensorCleanup x)) \<subseteq> set (visualPending x)"
proof -
  note m = pending_mono[OF sensorCleanup_props(1)[of x]]
  show "set (visualPending (sensorCleanup x)) \<subseteq> set (visualPending x)" by (rule m(1))
  show "runsOwned x \<Longrightarrow> runsOwned (sensorCleanup x)"
    by (rule runsOwned_shrink[OF _ m]) simp_all
qed

lemma pending_sensorEffect:
  "visualPending (sensorEffect x) = visualPending x"
  "audioPending (sensorEffect x) = audioPending x"
  by (simp_all add: visualPending_def audioPending_def sensorEffect_def Let_def setTimeout_def
      addEventListener_def isVisualCb_def isAudioCb_def)

lemma stage_sensorEffect:
  "runsOwned x \<Longrightarrow> runsOwned (sensorEffect x)"
  "set (visualPending (sensorEffect x)) \<subseteq> set (visualPending x)"
  by (simp_all add: runsOwned_def pending_sensorEffect)

lemmas stage_runsOwned =
  stage_timerCleanup(1) stage_timerEffect(1) stage_visualSosCleanupRun(1)
  stage_audioSosCleanupRun(1) stage_audioSosEffect(1) stage_visualSosEffect(1)
  stage_sensorCleanup(1) stage_sensorEffect(1)

lemma runsOwned_effectsPass:
  assumes "runsOwned s"
  shows "runsOwned (effectsPass old s)"
  using assms by (simp add: effectsPass_def Let_def stage_runsOwned)

lemma stage_light:
  "lightRule x \<Longrightarrow> lightRule (timerCleanup x)"
  "lightRule x \<Longrightarrow> lightRule (timerEffect x)"
  "lightRule x \<Longrightarrow> runsOwned x \<Longrightarrow> lightRule (visualSosCleanupRun x)"
  "lightRule x \<Longrightarrow> runsOwned x \<Longrightarrow> lightRule (audioSosCleanupRun x)"
  "lightRule x \<Longrightarrow> runsOwned x \<Longrightarrow> lightRule (audioSosEffect x)"
  "lightRule x \<Longrightarrow> lightRule (sensorCleanup x)"
  "lightRule x \<Longrightarrow> lightRule (sensorEffect x)"
proof -
  show "lightRule x \<Longrightarrow> lightRule (timerCleanup x)"
    by (rule lightRule_shrink[OF _ stage_timerCleanup(2)]) simp_all
  show "lightRule x \<Longrightarrow> lightRule (timerEffect x)"
    by (rule lightRule_shrink[OF _ stage_timerEffect(2)]) simp_all
  show "lightRule x \<Longrightarrow> runsOwned x \<Longrightarrow> lightRule (visualSosCleanupRun x)"
    by (rule lightRule_shrink[OF _ stage_visualSosCleanupRun(2)]) simp_all
  show "lightRule x \<Longrightarrow> runsOwned x \<Longrightarrow> lightRule (audioSosCleanupRun x)"
    by (rule lightRule_shrink[OF _ stage_audioSosCleanupRun(2)]) simp_all
  show "lightRule x \<Longrightarrow> runsOwned x \<Longrightarrow> lightRule (audioSosEffect x)"
    by (rule lightRule_shrink[OF _ stage_audioSosEffect(2)]) simp_all
  show "lightRule x \<Longrightarrow> lightRule (sensorCleanup x)"
    by (rule lightRule_shrink[OF _ stage_sensorCleanup(2)]) simp_all
  show "lightRule x \<Longrightarrow> lightRule (sensorEffect x)"
    by (rule lightRule_shrink[OF _ stage_sensorEffect(2)]) simp_all
qed

lemma lightRule_effectsPass:
  assumes "runsOwned s" and "lightRule s \<or> isSosActive old \<noteq> isSosActive s"
  shows "lightRule (effectsPass old s)"
proof (cases "isSosActive old = isSosActive s")
  case True
  with assms(2) have "lightRule s" by simp
  with assms(1) True show ?thesis
    by (simp add: effectsPass_def Let_def stage_runsOwned stage_light)
next
  case False
  with assms(1) show ?thesis
    by (simp add: effectsPass_def Let_def stage_runsOwned stage_light stage_visualSosEffect(2))
qed

lemma sosConsistent_commit:
  assumes "runsOwned s" and "lightRule s \<or> isSosActive old \<noteq> isSosActive s"
  shows "sosConsistent (commit old s)"
proof -
  have a: "runsOwned (effectsPass old s)" by (rule runsOwned_effectsPass[OF assms(1)])
  have b: "lightRule (effectsPass old s)" by (rule lightRule_effectsPass[OF assms])
  show ?thesis
    unfolding commit_def sosConsistent_iff
    using runsOwned_effectsPass[OF a] lightRule_effectsPass[OF a disjI1[OF b]] by simp
qed

lemma sos_shrink:
  assumes "sosConsistent s" and "set (timers s') \<subseteq> set (timers s)"
    and "sosTimeoutRef s' = sosTimeoutRef s" and "sosAudioTimeoutRef s' = sosAudioTimeoutRef s"
    and "isSosActive s' = isSosActive s" and "isSosLightVisible s' = isSosLightVisible s"
  shows "runsOwned s' \<and> lightRule s'"
proof -
  note m = pending_mono[OF assms(2)]
  from assms(1) have "runsOwned s" "lightRule s" by (simp_all add: sosConsistent_iff)
  then show ?thesis
    using runsOwned_shrink[OF _ m assms(3,4)] lightRule_shrink[OF _ m(1) assms(5,6)] by simp
qed

lemma sos_dispatchTo:
  assumes "runsOwned s \<and> lightRule s"
  shows "runsOwned (dispatchTo ls ev s) \<and> lightRule (dispatchTo ls ev s)"
  using assms
proof (induction ls arbitrary: s)
  case Nil
  then show ?case by simp
next
  case (Cons a ls)
  obtain l f where a: "a = (l, f)" by (cases a)
  let ?n = "if (l, f) \<in> set (listeners s) then
          (case f of Detect \<Rightarrow> detectListener l ev s
                   | HandleOrientation \<Rightarrow> handleOrientation ev s)
        else s"
  have c: "sosConsistent s" using Cons.prems by (simp add: sosConsistent_iff)
  have t: "set (timers ?n) \<subseteq> set (timers s)"
    by (auto simp add: detectListener_def Let_def clearTimeout_def removeEventListener_def
        handleOrientation_def split: listenerFn.split option.split)
  have "runsOwned ?n \<and> lightRule ?n"
    by (rule sos_shrink[OF c t]) (simp_all split: listenerFn.split)
  from Cons.IH[OF this] show ?case by (simp add: a)
qed

lemma sos_fireTimeout:
  assumes "sosConsistent s"
  shows "runsOwned (fireTimeout i s) \<and> lightRule (fireTimeout i s)"
proof (cases "find (\<lambda>t. tid t = i) (timers s)")
  case None
  with assms show ?thesis by (simp add: fireTimeout_def sosConsistent_iff)
next
  case (Some t)
  then have tin: "t \<in> set (timers s)"
    by (auto simp add: find_Some_iff)
  from assms have ro: "runsOwned s" and lr: "lightRule s" by (simp_all add: sosConsistent_iff)
  let ?c = "clearTimeout i s"
  have cl: "runsOwned ?c \<and> lightRule ?c"
    by (rule sos_shrink[OF assms]) (auto simp add: clearTimeout_def)
  have act: "isVisualCb (run t) \<Longrightarrow> isSosActive s"
  proof -
    assume "isVisualCb (run t)"
    with tin have "t \<in> set (visualPending s)" by (simp add: visualPending_def)
    then have "visualPending s \<noteq> []" by auto
    with lr show "isSosActive s" by (simp add: lightRule_def)
  qed
  show ?thesis
  proof (cases "due t \<le> clock s")
    case False
    with Some assms show ?thesis by (simp add: fireTimeout_def sosConsistent_iff)
  next
    case True
    have "runsOwned (runCallback (run t) ?c) \<and> lightRule (runCallback (run t) ?c)"
    proof (cases "run t")
      case (SetLight b)
      then have "isSosActive s" using act by (simp add: isVisualCb_def)
      with cl show ?thesis by (simp add: SetLight runCallback_def lightRule_def)
    next
      case VisualLoop
      then have "isSosActive s" using act by (simp add: isVisualCb_def)
      with cl show ?thesis
        by (simp add: VisualLoop runCallback_def schedulePatternVisual_pending(3) lightRule_def)
    next
      case (PlayTone d)
      have "sosConsistent ?c" using cl by (simp add: sosConsistent_iff)
      from sos_shrink[OF this, of "playTone d ?c"] show ?thesis
        by (simp add: PlayTone runCallback_def)
    next
      case AudioLoop
      from cl have "runsOwned (schedulePatternAudio ?c)"
        by (simp add: schedulePatternAudio_pending(3))
      moreover from cl have "lightRule ?c" and "runsOwned ?c" by simp_all
      then have "lightRule (schedulePatternAudio ?c)"
        by (rule lightRule_shrink[OF _ schedulePatternAudio_pending(2)]) simp_all
      ultimately show ?thesis by (simp add: AudioLoop runCallback_def)
    next
      case (SensorTimeout l)
      have "sosConsistent ?c" using cl by (simp add: sosConsistent_iff)
      from sos_shrink[OF this, of "sensorTimeout l ?c"] show ?thesis
        by (simp add: SensorTimeout runCallback_def sensorTimeout_def removeEventListener_def)
    qed
    with Some True show ?thesis by (simp add: fireTimeout_def)
  qed
qed

lemma sos_backClick:
  assumes "sosConsistent s"
  shows "runsOwned (handleBackClick s) \<and>
         (lightRule (handleBackClick s) \<or> isSosActive s \<noteq> isSosActive (handleBackClick s))"
proof (cases "appState s = Hologram \<and> activeHologram s = Flashlight")
  case False
  have "runsOwned (handleBackClick s) \<and> lightRule (handleBackClick s)"
    using False by (intro sos_shrink[OF assms]) (auto simp add: handleBackClick_def Let_def)
  then show ?thesis by simp
next
  case True
  from assms have ro: "runsOwned s" and lr: "lightRule s" by (simp_all add: sosConsistent_iff)
  let ?f = "s\<lparr>isFlashlightOn := False, isSosActive := False, isAudioSosActive := False\<rparr>"
  have h: "handleBackClick s =
             (clearAudioSosTimeouts (clearVisualSosTimeouts ?f))\<lparr>activeHologram := HNone, appState := Menu\<rparr>"
    using True by (simp add: handleBackClick_def Let_def)
  have f: "runsOwned ?f" using ro by (simp add: runsOwned_def visualPending_def audioPending_def)
  note v = clearVisual_pending[OF f]
  note a = clearAudio_pending[OF v(3)]
  have 1: "runsOwned (handleBackClick s)"
    using a(3) by (simp add: h runsOwned_def visualPending_def audioPending_def)
  have "set (visualPending (clearAudioSosTimeouts (clearVisualSosTimeouts ?f))) \<subseteq> {}"
    using a(2) by (simp only: v(1) list.set)
  then have "visualPending (clearAudioSosTimeouts (clearVisualSosTimeouts ?f)) = []"
    by simp
  then have 2: "visualPending (handleBackClick s) = []"
    by (simp add: h visualPending_def)
  have 3: "isSosLightVisible (handleBackClick s) = isSosLightVisible s"
    "isSosActive (handleBackClick s) = False"
    by (simp_all add: h)
  show ?thesis
  proof (cases "isSosActive s")
    case True
    with 1 3 show ?thesis by simp
  next
    case False
    with lr have "isSosLightVisible s" by (simp add: lightRule_def)
    with 1 2 3 show ?thesis by (simp add: lightRule_def)
  qed
qed

lemma sos_handle:
  assumes "sosConsistent s"
  shows "runsOwned (handle e s) \<and>
         (lightRule (handle e s) \<or> isSosActive s \<noteq> isSosActive (handle e s))"
proof (cases e)
  case BackClick
  then show ?thesis using sos_backClick[OF assms] by (simp add: handle_def)
next
  case SosVisual
  from assms have "runsOwned s" by (simp add: sosConsistent_iff)
  then show ?thesis
    by (simp add: SosVisual handle_def handleSosVisual_def runsOwned_def lightRule_def
        visualPending_def audioPending_def)
next
  case SosAudio
  from assms have "runsOwned s" by (simp add: sosConsistent_iff)
  then show ?thesis
    by (simp add: SosAudio handle_def handleSosAudio_def initializeAudioContext_def
        runsOwned_def lightRule_def visualPending_def audioPending_def)
next
  case (TimeoutFire i)
  then show ?thesis using sos_fireTimeout[OF assms] by (simp add: handle_def)
next
  case (OrientationEvent ev)
  from assms have "runsOwned s \<and> lightRule s" by (simp add: sosConsistent_iff)
  from sos_dispatchTo[OF this] show ?thesis
    by (simp add: OrientationEvent handle_def dispatchOrientation_def)
qed (use sos_shrink[OF assms, of "handle e s"] in
      \<open>simp_all add: handle_def handler_defs Let_def split: option.split intervalFn.split nat.split\<close>)

lemma sosConsistent_step:
  assumes "sosConsistent s"
  shows "sosConsistent (step e s)"
  using sos_handle[OF assms, of e] by (simp add: step_def sosConsistent_commit)

lemma sosConsistent_init: "sosConsistent (init rp ac now)"
  by (simp add: sosConsistent_def init_def visualPending_def audioPending_def)

lemma sosConsistent_steps: "sosConsistent s \<Longrightarrow> sosConsistent (steps es s)"
  by (induction es rule: rev_induct) (simp_all add: steps_snoc sosConsistent_step, simp add: steps_def)

lemma quiet_shrink:
  assumes "sosQuiet s" and "set (timers s') \<subseteq> set (timers s)"
    and "isSosActive s' = isSosActive s" and "isAudioSosActive s' = isAudioSosActive s"
  shows "sosQuiet s'"
proof -
  note m = pending_mono[OF assms(2)]
  from assms(1) have "set (visualPending s') \<subseteq> {}" "set (audioPending s') \<subseteq> {}"
    using m by (simp_all add: sosQuiet_def)
  then have "visualPending s' = []" "audioPending s' = []" by simp_all
  with assms show ?thesis by (simp add: sosQuiet_def)
qed

lemma timers_clear_subset:
  "set (timers (clearVisualSosTimeouts x)) \<subseteq> set (timers x)"
  "set (timers (clearAudioSosTimeouts x)) \<subseteq> set (timers x)"
  by (auto simp add: clearVisualSosTimeouts_eq clearAudioSosTimeouts_eq)

lemma quiet_stage:
  assumes "sosQuiet x"
  shows "sosQuiet (timerCleanup x)" and "sosQuiet (timerEffect x)"
    and "sosQuiet (visualSosCleanupRun x)" and "sosQuiet (visualSosEffect x)"
    and "sosQuiet (audioSosCleanupRun x)" and "sosQuiet (audioSosEffect x)"
    and "sosQuiet (sensorCleanup x)" and "sosQuiet (sensorEffect x)"
proof -
  show "sosQuiet (timerCleanup x)" by (rule quiet_shrink[OF assms]) simp_all
  show "sosQuiet (timerEffect x)" by (rule quiet_shrink[OF assms]) simp_all
  show "sosQuiet (visualSosCleanupRun x)"
    by (rule quiet_shrink[OF assms]) (simp_all add: visualSosCleanupRun_def timers_clear_subset)
  have "\<not> isSosActive x" "\<not> isAudioSosActive x" using assms by (simp_all add: sosQuiet_def)
  then show "sosQuiet (visualSosEffect x)" "sosQuiet (audioSosEffect x)"
    using quiet_shrink[OF assms, of "clearVisualSosTimeouts x"]
      quiet_shrink[OF assms, of "clearAudioSosTimeouts x"]
    by (simp_all add: visualSosEffect_def audioSosEffect_def timers_clear_subset sosQuiet_def
        visualPending_def audioPending_def)
  show "sosQuiet (audioSosCleanupRun x)"
    by (rule quiet_shrink[OF assms]) (simp_all add: audioSosCleanupRun_def timers_clear_subset)
  show "sosQuiet (sensorCleanup x)"
    by (rule quiet_shrink[OF assms]) (simp_all add: sensorCleanup_props(1))
  show "sosQuiet (sensorEffect x)"
    using assms by (simp add: sosQuiet_def pending_sensorEffect)
qed

lemma quiet_effectsPass:
  assumes "sosQuiet s"
  shows "sosQuiet (effectsPass old s)"
  using assms by (simp add: effectsPass_def Let_def quiet_stage)

lemma quiet_commit:
  assumes "sosQuiet s"
  shows "sosQuiet (commit old s)"
  using assms by (simp add: commit_def quiet_effectsPass)

lemma light_effectsPass:
  assumes "\<not> isSosActive s" and "isSosLightVisible s"
  shows "isSosLightVisible (effectsPass old s)"
  using assms by (simp add: effectsPass_def Let_def visualSosEffect_def)

lemma light_commit:
  assumes "\<not> isSosActive s" and "isSosLightVisible s"
  shows "isSosLightVisible (commit old s)"
  using assms by (simp add: commit_def light_effectsPass)

lemma quiet_dispatchTo:
  assumes "sosQuiet s"
  shows "sosQuiet (dispatchTo ls ev s)"
  using assms
proof (induction ls arbitrary: s)
  case Nil
  then show ?case by simp
next
  case (Cons a ls)
  obtain l f where a: "a = (l, f)" by (cases a)
  let ?n = "if (l, f) \<in> set (listeners s) then
          (case f of Detect \<Rightarrow> detectListener l ev s
                   | HandleOrientation \<Rightarrow> handleOrientation ev s)
        else s"
  have t: "set (timers ?n) \<subseteq> set (timers s)"
    by (auto simp add: detectListener_def Let_def clearTimeout_def removeEventListener_def
        handleOrientation_def split: listenerFn.split option.split)
  have "sosQuiet ?n"
    by (rule quiet_shrink[OF Cons.prems t]) (simp_all split: listenerFn.split)
  from Cons.IH[OF this] show ?case by (simp add: a)
qed

lemma quiet_fireTimeout:
  assumes "sosQuiet s"
  shows "sosQuiet (fireTimeout i s) \<and> isSosLightVisible (fireTimeout i s) = isSosLightVisible s
         \<and> tones (fireTimeout i s) = tones s"
proof (cases "find (\<lambda>t. tid t = i) (timers s)")
  case None
  with assms show ?thesis by (simp add: fireTimeout_def)
next
  case (Some t)
  then have tin: "t \<in> set (timers s)"
    by (auto simp add: find_Some_iff)
  have nv: "\<not> isVisualCb (run t)"
  proof
    assume "isVisualCb (run t)"
    with tin have "t \<in> set (visualPending s)" by (simp add: visualPending_def)
    with assms show False by (simp add: sosQuiet_def)
  qed
  have na: "\<not> isAudioCb (run t)"
  proof
    assume "isAudioCb (run t)"
    with tin have "t \<in> set (audioPending s)" by (simp add: audioPending_def)
    with assms show False by (simp add: sosQuiet_def)
  qed
  from nv na obtain l where r: "run t = SensorTimeout l"
    by (cases "run t") (simp_all add: isVisualCb_def isAudioCb_def)
  let ?r = "sensorTimeout l (clearTimeout i s)"
  have "sosQuiet ?r"
    by (rule quiet_shrink[OF assms]) (auto simp add: clearTimeout_def sensorTimeout_def
        removeEventListener_def)
  with Some r assms show ?thesis
    by (simp add: fireTimeout_def runCallback_def)
qed

lemma quiet_handle:
  assumes "sosQuiet s" and "e \<noteq> SosVisual" and "e \<noteq> SosAudio"
  shows "sosQuiet (handle e s) \<and> isSosLightVisible (handle e s) = isSosLightVisible s
         \<and> tones (handle e s) = tones s"
proof (cases e)
  case BackClick
  have "sosQuiet (handleBackClick s)"
    using assms(1)
    by (intro quiet_shrink[OF assms(1)])
       (auto simp add: handleBackClick_def Let_def clearVisualSosTimeouts_eq
          clearAudioSosTimeouts_eq sosQuiet_def)
  then show ?thesis
    by (simp add: BackClick handle_def handleBackClick_def Let_def)
next
  case (TimeoutFire i)
  then show ?thesis using quiet_fireTimeout[OF assms(1)] by (simp add: handle_def)
next
  case (OrientationEvent ev)
  from quiet_dispatchTo[OF assms(1)] show ?thesis
    by (simp add: OrientationEvent handle_def dispatchOrientation_def)
qed (use assms quiet_shrink[OF assms(1), of "handle e s"] in
      \<open>simp_all add: handle_def handler_defs Let_def split: option.split intervalFn.split nat.split\<close>)

lemma quiet_step:
  assumes "sosQuiet s" and "isSosLightVisible s" and "e \<noteq> SosVisual" and "e \<noteq> SosAudio"
  shows "sosQuiet (step e s) \<and> isSosLightVisible (step e s) \<and> tones (step e s) = tones s"
proof -
  note h = quiet_handle[OF assms(1,3,4)]
  then have q: "sosQuiet (handle e s)" and l: "isSosLightVisible (handle e s)"
    using assms(2) by simp_all
  from q have n: "\<not> isSosActive (handle e s)" by (simp add: sosQuiet_def)
  show ?thesis
    using quiet_commit[OF q, of s] light_commit[OF n l, of s] h
    by (simp add: step_frame) (simp add: step_def)
qed

lemma quiet_steps:
  assumes "sosQuiet s" and "isSosLightVisible s"
    and "SosVisual \<notin> set es" and "SosAudio \<notin> set es"
  shows "sosQuiet (steps es s) \<and> isSosLightVisible (steps es s) \<and> tones (steps es s) = tones s"
  using assms(3,4)
proof (induction es rule: rev_induct)
  case Nil
  show ?case using assms(1,2) by (simp add: steps_def)
next
  case (snoc e es)
  then have ih: "sosQuiet (steps es s)" "isSosLightVisible (steps es s)"
    "tones (steps es s) = tones s" and e: "e \<noteq> SosVisual" "e \<noteq> SosAudio" by auto
  from quiet_step[OF ih(1,2) e] ih(3) show ?case by (simp add: steps_snoc)
qed

lemma tones_handle: "take (length (tones s)) (tones (handle e s)) = tones s"
  by (cases e)
     (simp_all add: handle_def handler_defs fireTimeout_def runCallback_def playTone_def Let_def
        split: option.split callback.split intervalFn.split nat.split)

lemma commit_same_deps:
  assumes "isTimerActive old = isTimerActive s" and "timerSeconds old = timerSeconds s"
    and "timerMode old = timerMode s" and "isSosActive old = isSosActive s"
    and "isAudioSosActive old = isAudioSosActive s" and "activeHologram old = activeHologram s"
    and "sensorSupportState old = sensorSupportState s"
    and "permissionState old = permissionState s"
  shows "commit old s = s"
  using assms by (simp add: commit_sensor_only)

lemma step_fire_loop:
  assumes "find (\<lambda>t. tid t = i) (timers s) = Some t" and "due t \<le> clock s"
  shows "run t = VisualLoop \<Longrightarrow> step (TimeoutFire i) s = schedulePatternVisual (clearTimeout i s)"
    and "run t = AudioLoop \<Longrightarrow> step (TimeoutFire i) s = schedulePatternAudio (clearTimeout i s)"
proof -
  assume r: "run t = VisualLoop"
  have "handle (TimeoutFire i) s = schedulePatternVisual (clearTimeout i s)"
    using assms r by (simp add: handle_def fireTimeout_def runCallback_def)
  then show "step (TimeoutFire i) s = schedulePatternVisual (clearTimeout i s)"
    by (simp add: step_def commit_same_deps)
next
  assume r: "run t = AudioLoop"
  have "handle (TimeoutFire i) s = schedulePatternAudio (clearTimeout i s)"
    using assms r by (simp add: handle_def fireTimeout_def runCallback_def)
  then show "step (TimeoutFire i) s = schedulePatternAudio (clearTimeout i s)"
    by (simp add: step_def commit_same_deps)
qed

lemma runsOwned_clearTimeout:
  assumes "runsOwned s"
  shows "runsOwned (clearTimeout i s)"
proof -
  have "set (timers (clearTimeout i s)) \<subseteq> set (timers s)" by (auto simp add: clearTimeout_def)
  from runsOwned_shrink[OF assms pending_mono[OF this]] show ?thesis by simp
qed

lemma effectsPass_visual_only:
  assumes "isTimerActive old = isTimerActive s" and "timerSeconds old = timerSeconds s"
    and "timerMode old = timerMode s" and "isAudioSosActive old = isAudioSosActive s"
    and "activeHologram old = activeHologram s"
    and "sensorSupportState old = sensorSupportState s"
    and "permissionState old = permissionState s"
  shows "effectsPass old s =
           (if isSosActive old \<noteq> isSosActive s then visualSosEffect (visualSosCleanupRun s) else s)"
  using assms by (simp add: effectsPass_def Let_def)

lemma step_SosVisual:
  assumes "\<not> isSosActive s"
  shows "step SosVisual s =
           (schedulePatternVisual (visualSosCleanupRun (handleSosVisual s)))\<lparr>visualSosCleanup := True\<rparr>"
proof -
  let ?h = "handleSosVisual s"
  have a: "isSosActive ?h" by (simp add: handleSosVisual_def)
  have p1: "effectsPass s ?h = visualSosEffect (visualSosCleanupRun ?h)"
    using assms by (subst effectsPass_visual_only) (simp_all add: handleSosVisual_def)
  have e: "visualSosEffect (visualSosCleanupRun ?h)
             = (schedulePatternVisual (visualSosCleanupRun ?h))\<lparr>visualSosCleanup := True\<rparr>"
    using a by (simp add: visualSosEffect_def)
  have p2: "effectsPass ?h (visualSosEffect (visualSosCleanupRun ?h))
              = visualSosEffect (visualSosCleanupRun ?h)"
    using effectsPass_visual_only[of ?h "visualSosEffect (visualSosCleanupRun ?h)"] by simp
  have "step SosVisual s = visualSosEffect (visualSosCleanupRun ?h)"
    by (simp only: step_def commit_def handle_def event.case p1 p2)
  then show ?thesis by (simp only: e)
qed

lemma sos_start_pending:
  assumes "sosConsistent s" and "\<not> isSosActive s"
  shows "visualPending (step SosVisual s) = visualRun (lastTimerId s) (clock s)"
proof -
  from assms(1) have "runsOwned s" by (simp add: sosConsistent_iff)
  then have "runsOwned (handleSosVisual s)"
    by (simp add: handleSosVisual_def runsOwned_def visualPending_def audioPending_def)
  then have "runsOwned (visualSosCleanupRun (handleSosVisual s))"
    by (rule stage_visualSosCleanupRun(1))
  from schedulePatternVisual_pending(1)[OF this] show ?thesis
    by (simp add: step_SosVisual[OF assms(2)] handleSosVisual_def)
qed

lemma sos_loop_pending:
  assumes "sosConsistent s" and "find (\<lambda>t. tid t = i) (timers s) = Some t"
    and "due t \<le> clock s"
  shows "run t = VisualLoop \<Longrightarrow>
           visualPending (step (TimeoutFire i) s) = visualRun (lastTimerId s) (clock s)"
    and "run t = AudioLoop \<Longrightarrow>
           audioPending (step (TimeoutFire i) s) = audioRun (lastTimerId s) (clock s)"
proof -
  from assms(1) have "runsOwned s" by (simp add: sosConsistent_iff)
  then have c: "runsOwned (clearTimeout i s)" by (rule runsOwned_clearTimeout)
  show "run t = VisualLoop \<Longrightarrow>
           visualPending (step (TimeoutFire i) s) = visualRun (lastTimerId s) (clock s)"
    using schedulePatternVisual_pending(1)[OF c] by (simp add: step_fire_loop(1)[OF assms(2,3)])
  show "run t = AudioLoop \<Longrightarrow>
           audioPending (step (TimeoutFire i) s) = audioRun (lastTimerId s) (clock s)"
    using schedulePatternAudio_pending(1)[OF c] by (simp add: step_fire_loop(2)[OF assms(2,3)])
qed

lemma flashlightOff_fields:
  "appState flashlightOff = Hologram" "activeHologram flashlightOff = Flashlight"
  "\<not> isSosActive flashlightOff" "clock flashlightOff = 0" "tones flashlightOff = []"
  by (simp_all add: flashlightOff_def steps_def step_frame handle_def handler_defs init_def)


section \<open>Two passes of the effects suffice\<close>

lemma permissionState_sensorEffect:
  "permissionState (sensorEffect x) =
     (if (activeHologram x = SpiritLevel \<or> activeHologram x = Compass)
          \<and> sensorSupportState x = Supported
      then (if requestPermissionApi x
            then (if permissionState x = Unknown then Prompt else permissionState x)
            else Granted)
      else permissionState x)"
  by (simp add: sensorEffect_def Let_def addEventListener_def setTimeout_def)

lemma effectsPass_permission:
  "permissionState (effectsPass old s) =
     (if (activeHologram old, sensorSupportState old, permissionState old)
           \<noteq> (activeHologram s, sensorSupportState s, permissionState s)
      then permissionState (sensorEffect s) else permissionState s)"
  by (auto simp add: effectsPass_def Let_def permissionState_sensorEffect)

lemma commit_stable: "effectsPass (effectsPass old s) (commit old s) = commit old s"
proof -
  let ?p = "effectsPass old s"
  let ?q = "effectsPass s ?p"
  have t: "isTimerActive ?q = isTimerActive ?p" "timerSeconds ?q = timerSeconds ?p"
    "timerMode ?q = timerMode ?p"
    by (simp_all add: effectsPass_timer_fields timerEffect_def)
  have f: "isSosActive ?q = isSosActive ?p" "isAudioSosActive ?q = isAudioSosActive ?p"
    "activeHologram ?q = activeHologram ?p" "sensorSupportState ?q = sensorSupportState ?p"
    by simp_all
  have p: "permissionState ?q = permissionState ?p"
    by (simp add: effectsPass_permission[of s] effectsPass_permission[of old]
        permissionState_sensorEffect)
  show ?thesis
    unfolding commit_def using t f p by (simp add: effectsPass_sensor_only)
qed


section \<open>The ids of the pending timeouts\<close>

lemma idsIssued_iff: "idsIssued s = (\<forall>t\<in>set (timers s). tid t \<le> lastTimerId s)"
  by (simp add: idsIssued_def list_all_iff)

lemma ids_shrink:
  assumes "idsIssued s" and "set (timers s') \<subseteq> set (timers s)"
    and "lastTimerId s \<le> lastTimerId s'"
  shows "idsIssued s'"
  using assms by (fastforce simp add: idsIssued_iff)

lemma ids_visualRun: "t \<in> set (visualRun b c) \<Longrightarrow> tid t \<le> b + 19"
  by (auto simp add: visualRun_def)

lemma ids_audioRun: "t \<in> set (audioRun b c) \<Longrightarrow> tid t \<le> b + 10"
  by (auto simp add: audioRun_explicit)

lemma ids_schedule:
  assumes "idsIssued s"
  shows "idsIssued (schedulePatternVisual s)" and "idsIssued (schedulePatternAudio s)"
  using assms ids_visualRun[of _ "lastTimerId s" "clock s"] ids_audioRun[of _ "lastTimerId s" "clock s"]
  by (auto simp add: idsIssued_iff schedulePatternVisual_run schedulePatternAudio_run)

lemma ids_stage:
  assumes "idsIssued x"
  shows "idsIssued (timerCleanup x)" and "idsIssued (timerEffect x)"
    and "idsIssued (visualSosCleanupRun x)" and "idsIssued (visualSosEffect x)"
    and "idsIssued (audioSosCleanupRun x)" and "idsIssued (audioSosEffect x)"
    and "idsIssued (sensorCleanup x)" and "idsIssued (sensorEffect x)"
proof -
  show "idsIssued (timerCleanup x)" by (rule ids_shrink[OF assms]) simp_all
  show "idsIssued (timerEffect x)" by (rule ids_shrink[OF assms]) simp_all
  show "idsIssued (visualSosCleanupRun x)"
    by (rule ids_shrink[OF assms]) (simp_all add: visualSosCleanupRun_def timers_clear_subset)
  show "idsIssued (audioSosCleanupRun x)"
    by (rule ids_shrink[OF assms]) (simp_all add: audioSosCleanupRun_def timers_clear_subset)
  have cv: "idsIssued (clearVisualSosTimeouts x)"
    by (rule ids_shrink[OF assms]) (simp_all add: timers_clear_subset)
  have ca: "idsIssued (clearAudioSosTimeouts x)"
    by (rule ids_shrink[OF assms]) (simp_all add: timers_clear_subset)
  show "idsIssued (visualSosEffect x)"
    using cv ids_schedule(1)[OF assms] by (simp add: visualSosEffect_def idsIssued_iff)
  show "idsIssued (audioSosEffect x)"
    using ca ids_schedule(2)[OF assms] by (simp add: audioSosEffect_def idsIssued_iff)
  show "idsIssued (sensorCleanup x)"
    by (rule ids_shrink[OF assms]) (simp_all add: sensorCleanup_props(1))
  show "idsIssued (sensorEffect x)"
    using assms
    by (auto simp add: idsIssued_iff sensorEffect_def Let_def setTimeout_def addEventListener_def)
qed

lemma ids_effectsPass: "idsIssued s \<Longrightarrow> idsIssued (effectsPass old s)"
  by (simp add: effectsPass_def Let_def ids_stage)

lemma ids_commit: "idsIssued s \<Longrightarrow> idsIssued (commit old s)"
  by (simp add: commit_def ids_effectsPass)

lemma ids_dispatchTo:
  assumes "idsIssued s"
  shows "idsIssued (dispatchTo ls ev s)"
  using assms
proof (induction ls arbitrary: s)
  case Nil
  then show ?case by simp
next
  case (Cons a ls)
  obtain l f where a: "a = (l, f)" by (cases a)
  let ?n = "if (l, f) \<in> set (listeners s) then
          (case f of Detect \<Rightarrow> detectListener l ev s
                   | HandleOrientation \<Rightarrow> handleOrientation ev s)
        else s"
  have t: "set (timers ?n) \<subseteq> set (timers s)"
    by (auto simp add: detectListener_def Let_def clearTimeout_def removeEventListener_def
        handleOrientation_def split: listenerFn.split option.split)
  have "idsIssued ?n"
    by (rule ids_shrink[OF Cons.prems t]) (simp split: listenerFn.split)
  from Cons.IH[OF this] show ?case by (simp add: a)
qed

lemma ids_fireTimeout:
  assumes "idsIssued s"
  shows "idsIssued (fireTimeout i s)"
proof -
  have c: "idsIssued (clearTimeout i s)"
    by (rule ids_shrink[OF assms]) (auto simp add: clearTimeout_def)
  have "idsIssued (runCallback cb (clearTimeout i s))" for cb
  proof (cases cb)
    case (SetLight b)
    then show ?thesis using c by (simp add: runCallback_def idsIssued_iff)
  next
    case VisualLoop
    then show ?thesis using ids_schedule(1)[OF c] by (simp add: runCallback_def)
  next
    case (PlayTone d)
    then show ?thesis using c by (simp add: runCallback_def idsIssued_iff)
  next
    case AudioLoop
    then show ?thesis using ids_schedule(2)[OF c] by (simp add: runCallback_def)
  next
    case (SensorTimeout l)
    then show ?thesis using c
      by (simp add: runCallback_def idsIssued_iff sensorTimeout_def removeEventListener_def)
  qed
  with assms show ?thesis by (simp add: fireTimeout_def split: option.split)
qed

lemma ids_handle:
  assumes "idsIssued s"
  shows "idsIssued (handle e s)"
proof (cases e)
  case BackClick
  have "idsIssued (handleBackClick s)"
    by (rule ids_shrink[OF assms])
       (auto simp add: handleBackClick_def Let_def clearVisualSosTimeouts_eq clearAudioSosTimeouts_eq)
  then show ?thesis by (simp add: BackClick handle_def)
next
  case (TimeoutFire i)
  then show ?thesis using ids_fireTimeout[OF assms] by (simp add: handle_def)
next
  case (OrientationEvent ev)
  then show ?thesis using ids_dispatchTo[OF assms] by (simp add: handle_def dispatchOrientation_def)
qed (use assms in \<open>simp_all add: idsIssued_iff handle_def handler_defs Let_def
       split: option.split intervalFn.split nat.split\<close>)

lemma ids_steps: "idsIssued (steps es (init rp ac now))"
proof (induction es rule: rev_induct)
  case Nil
  show ?case by (simp add: steps_def idsIssued_def init_def)
next
  case (snoc e es)
  then show ?case by (simp add: steps_snoc step_def ids_commit ids_handle)
qed



subsection \<open>Events that only let time pass\<close>

lemma step_passing:
  assumes "passing e"
  shows "step e s = s\<lparr>clock := clock (step e s), currentDateTime := currentDateTime (step e s),
                       isAlarmRinging := isAlarmRinging (step e s)\<rparr>"
    and "clock s \<le> clock (step e s)"
proof -
  have h: "handle e s = s\<lparr>clock := clock (handle e s), currentDateTime := currentDateTime (handle e s),
                       isAlarmRinging := isAlarmRinging (handle e s)\<rparr> \<and> clock s \<le> clock (handle e s)"
    using assms
    by (cases e) (simp_all add: passing_def handle_def clockTick_def Let_def split: option.split)
  have "commit s (handle e s) = handle e s"
    by (rule commit_same_deps) (subst h, simp)+
  then have st: "step e s = handle e s" by (simp add: step_def)
  show "step e s = s\<lparr>clock := clock (step e s), currentDateTime := currentDateTime (step e s),
                       isAlarmRinging := isAlarmRinging (step e s)\<rparr>"
    unfolding st using h by simp
  show "clock s \<le> clock (step e s)" unfolding st using h by simp
qed

lemma steps_passing:
  assumes "list_all passing es"
  shows "steps es s = s\<lparr>clock := clock (steps es s), currentDateTime := currentDateTime (steps es s),
                       isAlarmRinging := isAlarmRinging (steps es s)\<rparr> \<and>
         clock s \<le> clock (steps es s)"
  using assms
proof (induction es rule: rev_induct)
  case Nil
  show ?case by (simp add: steps_def)
next
  case (snoc e es)
  then have p: "passing e" and ih: "steps es s = s\<lparr>clock := clock (steps es s),
      currentDateTime := currentDateTime (steps es s),
      isAlarmRinging := isAlarmRinging (steps es s)\<rparr>" "clock s \<le> clock (steps es s)"
    by simp_all
  let ?x = "steps es s"
  note a = step_passing[OF p, of ?x]
  have "step e ?x = s\<lparr>clock := clock (step e ?x), currentDateTime := currentDateTime (step e ?x),
                       isAlarmRinging := isAlarmRinging (step e ?x)\<rparr>"
    by (subst a(1), subst ih(1)) simp
  with a(2) ih(2) show ?case by (simp add: steps_snoc)
qed

section \<open>The visual schedule of the SOS pattern\<close>

text \<open>
  Claim C1. The 18 steps of the built-in SOS pattern last 7600 ms in total. One pass of
  the visual \<open>schedulePattern\<close> registers, after clearing the timeouts of the pass before,
  exactly 18 light transitions, the k-th at the sum of the durations of the steps before
  it (0, 200, 400, ... 5600 ms from now), each setting \<open>isSosLightVisible\<close> to the \<open>on\<close> of
  its step, and then the loop restart at 7600 ms.
\<close>

theorem sos_visual_schedule:
  "sum_list (map duration sosPattern) = 7600 \<and> length sosPattern = 18 \<and>
   timers (schedulePatternVisual s) =
     timers (clearVisualSosTimeouts s)
       @ map (\<lambda>k. \<lparr>tid = lastTimerId s + 1 + k,
                     due = clock s + sum_list (map duration (take k sosPattern)),
                     run = SetLight (on (sosPattern ! k))\<rparr>) [0..<18]
       @ [\<lparr>tid = lastTimerId s + 19, due = clock s + 7600, run = VisualLoop\<rparr>] \<and>
   map (\<lambda>k. sum_list (map duration (take k sosPattern))) [0..<18] =
     [0, 200, 400, 600, 800, 1000, 1700, 2300, 2500, 3100, 3300, 3900, 4600, 4800, 5000,
      5200, 5400, 5600] \<and>
   isSosLightVisible (runCallback (SetLight b) s') = b \<and>
   runCallback VisualLoop s' = schedulePatternVisual s'"
  by (simp add: sosPattern_length sosPattern_total sosPattern_offsets schedulePatternVisual_eq
      clearVisualSosTimeouts_eq runCallback_def)


section \<open>Leaving the sensor feature while the check is running\<close>

text \<open>
  Claim C2 asks that leaving the spirit level or the compass removes every
  \<open>deviceorientation\<close> listener the feature registered and clears the detection timeout, in
  the checking state too. The cleanup of the sensor effect removes \<open>handleOrientation\<close> and
  clears the timeout, but not the detection listener: on a run that enters the spirit
  level and leaves it before an event or the timeout, the timeout is cleared, the listener
  stays registered, and the next event runs it and sets \<open>sensorSupportState\<close> although no
  feature is shown.
\<close>

theorem sensor_exit_leaves_detection_listener:
  "activeHologram (steps [StartClick, HologramSelect SpiritLevel, BackClick] (init False False midnight)) = HNone \<and>
   timers (steps [StartClick, HologramSelect SpiritLevel, BackClick] (init False False midnight)) = [] \<and>
   listeners (steps [StartClick, HologramSelect SpiritLevel, BackClick] (init False False midnight))
     = [(2, Detect)] \<and>
   sensorSupportState (steps [StartClick, HologramSelect SpiritLevel, BackClick] (init False False midnight))
     = Checking \<and>
   activeHologram (steps [StartClick, HologramSelect SpiritLevel, BackClick, OrientationEvent tilted]
     (init False False midnight)) = HNone \<and>
   sensorSupportState (steps [StartClick, HologramSelect SpiritLevel, BackClick, OrientationEvent tilted]
     (init False False midnight)) = Supported"
  by code_simp


section \<open>The ringing flag of the alarm\<close>

text \<open>
  Claim C3, as the code has it. \<open>isAlarmRinging\<close> goes from false to true only on a tick of
  the clock whose hours and minutes are those of the alarm time and whose seconds are 0
  (the tick tests the flag first, so only when it is not ringing). It goes from true to
  false only by \<open>handleStopRinging\<close>, \<open>handleClearAlarm\<close>, \<open>handleSetAlarm\<close> with a time
  entered, or \<open>handleBackClick\<close> while the alarm feature is shown. No other event changes
  it. For an alarm time \<open>HH:MM\<close> the tick matches exactly at \<open>HH:MM:00\<close>.
\<close>

theorem alarm_ringing_transitions:
  "(\<not> isAlarmRinging s \<and> isAlarmRinging (step e s) \<longrightarrow>
      (\<exists>now. e = ClockTick now \<and> alarmMatches now (alarmTime s))) \<and>
   (isAlarmRinging s \<and> \<not> isAlarmRinging (step e s) \<longrightarrow>
      e = StopRinging \<or> e = ClearAlarm \<or> (\<exists>v. e = SetAlarm v \<and> v \<noteq> [])
      \<or> (e = BackClick \<and> appState s = Hologram \<and> activeHologram s = Alarm)) \<and>
   isAlarmRinging (step (ClockTick now) s) = (isAlarmRinging s \<or> alarmMatches now (alarmTime s)) \<and>
   (h < 24 \<and> m < 60 \<longrightarrow>
      alarmMatches now (Some (timeValue h m)) =
        (getHours now = h \<and> getMinutes now = m \<and> getSeconds now = 0))"
proof -
  have "h < 24 \<and> m < 60 \<longrightarrow>
      alarmMatches now (Some (timeValue h m)) =
        (getHours now = h \<and> getMinutes now = m \<and> getSeconds now = 0)"
    by (simp add: alarmMatches_timeValue)
  moreover have "isAlarmRinging (step (ClockTick now) s) = (isAlarmRinging s \<or> alarmMatches now (alarmTime s))"
    by (simp add: step_frame handle_isAlarmRinging)
  moreover have "\<not> isAlarmRinging s \<and> isAlarmRinging (step e s) \<longrightarrow>
      (\<exists>now. e = ClockTick now \<and> alarmMatches now (alarmTime s))"
    by (cases e) (auto simp add: step_frame handle_isAlarmRinging)
  moreover have "isAlarmRinging s \<and> \<not> isAlarmRinging (step e s) \<longrightarrow>
      e = StopRinging \<or> e = ClearAlarm \<or> (\<exists>v. e = SetAlarm v \<and> v \<noteq> [])
      \<or> (e = BackClick \<and> appState s = Hologram \<and> activeHologram s = Alarm)"
    by (cases e) (auto simp add: step_frame handle_isAlarmRinging)
  ultimately show ?thesis by blast
qed

theorem alarm_ringing_transitions_witness:
  "(\<not> isAlarmRinging (steps [SetAlarm ''07:30''] (init False False midnight)) \<and>
    isAlarmRinging (step (ClockTick halfPastSeven) (steps [SetAlarm ''07:30''] (init False False midnight)))) \<and>
   alarmMatches halfPastSeven (alarmTime (steps [SetAlarm ''07:30''] (init False False midnight))) \<and>
   (isAlarmRinging (steps [SetAlarm ''07:30'', ClockTick halfPastSeven] (init False False midnight)) \<and>
    \<not> isAlarmRinging (step StopRinging (steps [SetAlarm ''07:30'', ClockTick halfPastSeven] (init False False midnight)))) \<and>
   ((7::nat) < 24 \<and> (30::nat) < 60) \<and> timeValue 7 30 = ''07:30'' \<and>
   alarmMatches halfPastSeven (Some (timeValue 7 30))"
proof -
  let ?s = "steps [SetAlarm ''07:30''] (init False False midnight)"
  let ?r = "steps [SetAlarm ''07:30'', ClockTick halfPastSeven] (init False False midnight)"
  have a: "\<not> isAlarmRinging ?s \<and> isAlarmRinging (step (ClockTick halfPastSeven) ?s)" by code_simp
  have b: "isAlarmRinging ?r \<and> \<not> isAlarmRinging (step StopRinging ?r)" by code_simp
  have c: "(7::nat) < 24 \<and> (30::nat) < 60" by simp
  have d: "timeValue 7 30 = ''07:30''" by code_simp
  have e: "getHours halfPastSeven = 7 \<and> getMinutes halfPastSeven = 30 \<and> getSeconds halfPastSeven = 0"
    by (simp add: halfPastSeven_def)
  from alarm_ringing_transitions[of ?s "ClockTick halfPastSeven" halfPastSeven 7 30] a c e
  have "alarmMatches halfPastSeven (alarmTime ?s) \<and> alarmMatches halfPastSeven (Some (timeValue 7 30))"
    by blast
  with a b c d show ?thesis by blast
qed

text \<open>
  The claim as stated names stop and clear only. A ringing alarm is also stopped by the
  back button of the alarm feature.
\<close>

theorem alarm_back_stops_ringing:
  "isAlarmRinging (steps [StartClick, HologramSelect Alarm, SetAlarm ''07:30'', ClockTick halfPastSeven]
      (init False False midnight)) \<and>
   \<not> isAlarmRinging (step BackClick
      (steps [StartClick, HologramSelect Alarm, SetAlarm ''07:30'', ClockTick halfPastSeven]
        (init False False midnight))) \<and>
   BackClick \<noteq> StopRinging \<and> BackClick \<noteq> ClearAlarm"
  by code_simp


section \<open>Cancelling the SOS pattern\<close>

text \<open>
  Claim C4. Let \<open>s\<close> be the state after any sequence of events, so at any time of a run of
  the pattern, with the flashlight feature shown. The back click, which is how the
  pattern is switched off, leaves no callback of the visual or of the audio channel
  pending, sets both patterns off and leaves the light visible; under every later sequence
  of events that does not start a pattern again, no such callback is pending, the light
  stays visible and no further tone starts. On the level of the functions:
  \<open>clearVisualSosTimeouts\<close> and \<open>clearAudioSosTimeouts\<close> leave no callback of their channel
  pending, and the visual effect run with \<open>isSosActive\<close> false also sets the light visible.
\<close>

theorem cancel_stops_callbacks:
  assumes "s = steps es (init rp ac now)"
    and "appState s = Hologram" and "activeHologram s = Flashlight"
  shows "visualPending (step BackClick s) = [] \<and> audioPending (step BackClick s) = [] \<and>
         isSosLightVisible (step BackClick s) \<and>
         \<not> isSosActive (step BackClick s) \<and> \<not> isAudioSosActive (step BackClick s) \<and>
         tones (step BackClick s) = tones s \<and>
         (SosVisual \<notin> set es' \<and> SosAudio \<notin> set es' \<longrightarrow>
            visualPending (steps es' (step BackClick s)) = [] \<and>
            audioPending (steps es' (step BackClick s)) = [] \<and>
            isSosLightVisible (steps es' (step BackClick s)) \<and>
            tones (steps es' (step BackClick s)) = tones s) \<and>
         visualPending (clearVisualSosTimeouts s) = [] \<and>
         audioPending (clearAudioSosTimeouts s) = [] \<and>
         visualPending (visualSosEffect (s\<lparr>isSosActive := False\<rparr>)) = [] \<and>
         isSosLightVisible (visualSosEffect (s\<lparr>isSosActive := False\<rparr>))"
proof -
  have c: "sosConsistent s"
    unfolding assms(1) by (rule sosConsistent_steps[OF sosConsistent_init])
  then have ro: "runsOwned s" by (simp add: sosConsistent_iff)
  let ?f = "s\<lparr>isFlashlightOn := False, isSosActive := False, isAudioSosActive := False\<rparr>"
  let ?k = "clearAudioSosTimeouts (clearVisualSosTimeouts ?f)"
  have h: "handle BackClick s = ?k\<lparr>activeHologram := HNone, appState := Menu\<rparr>"
    using assms(2,3) by (simp add: handle_def handleBackClick_def Let_def)
  have f: "runsOwned ?f" using ro by (simp add: runsOwned_def visualPending_def audioPending_def)
  note v = clearVisual_pending[OF f]
  note a = clearAudio_pending[OF v(3)]
  have "set (visualPending ?k) \<subseteq> {}" using a(2) by (simp only: v(1) list.set)
  then have vk: "visualPending ?k = []" by simp
  have q: "sosQuiet (handle BackClick s)"
    using vk a(1) by (simp add: h sosQuiet_def visualPending_def audioPending_def)
  have qs: "sosQuiet (step BackClick s)"
    using quiet_commit[OF q, of s] by (simp add: step_def)
  have "lightRule (step BackClick s)"
    using sosConsistent_step[OF c, of BackClick] by (simp add: sosConsistent_iff)
  with qs have l: "isSosLightVisible (step BackClick s)"
    by (simp add: lightRule_def sosQuiet_def)
  have t: "tones (step BackClick s) = tones s"
    by (simp add: step_frame h)
  have later: "SosVisual \<notin> set es' \<and> SosAudio \<notin> set es' \<longrightarrow>
            visualPending (steps es' (step BackClick s)) = [] \<and>
            audioPending (steps es' (step BackClick s)) = [] \<and>
            isSosLightVisible (steps es' (step BackClick s)) \<and>
            tones (steps es' (step BackClick s)) = tones s"
  proof
    assume "SosVisual \<notin> set es' \<and> SosAudio \<notin> set es'"
    then have "SosVisual \<notin> set es'" "SosAudio \<notin> set es'" by simp_all
    from quiet_steps[OF qs l this] t show "visualPending (steps es' (step BackClick s)) = [] \<and>
            audioPending (steps es' (step BackClick s)) = [] \<and>
            isSosLightVisible (steps es' (step BackClick s)) \<and>
            tones (steps es' (step BackClick s)) = tones s"
      by (simp add: sosQuiet_def)
  qed
  have ro': "runsOwned (s\<lparr>isSosActive := False\<rparr>)"
    using ro by (simp add: runsOwned_def visualPending_def audioPending_def)
  have e: "visualPending (visualSosEffect (s\<lparr>isSosActive := False\<rparr>)) = []"
    "isSosLightVisible (visualSosEffect (s\<lparr>isSosActive := False\<rparr>))"
    using clearVisual_pending(1)[OF ro'] by (simp_all add: visualSosEffect_def)
  from qs l t later clearVisual_pending(1)[OF ro] clearAudio_pending(1)[OF ro] e
  show ?thesis by (simp add: sosQuiet_def)
qed

theorem cancel_stops_callbacks_witness:
  "appState (step SosVisual flashlightOff) = Hologram \<and>
   activeHologram (step SosVisual flashlightOff) = Flashlight \<and>
   length (visualPending (step SosVisual flashlightOff)) = 19 \<and>
   SosVisual \<notin> set [Elapse 10000, TimeoutFire 19, ClockTick midnight] \<and>
   SosAudio \<notin> set [Elapse 10000, TimeoutFire 19, ClockTick midnight] \<and>
   visualPending (step BackClick (step SosVisual flashlightOff)) = [] \<and>
   isSosLightVisible (step BackClick (step SosVisual flashlightOff)) \<and>
   visualPending (steps [Elapse 10000, TimeoutFire 19, ClockTick midnight]
     (step BackClick (step SosVisual flashlightOff))) = [] \<and>
   isSosLightVisible (steps [Elapse 10000, TimeoutFire 19, ClockTick midnight]
     (step BackClick (step SosVisual flashlightOff)))"
proof -
  let ?s = "step SosVisual flashlightOff"
  have r: "?s = steps [StartClick, HologramSelect Flashlight, SosVisual] (init False True midnight)"
    by (simp add: flashlightOff_def steps_def)
  have a: "appState ?s = Hologram" "activeHologram ?s = Flashlight"
    by (simp_all add: step_frame handle_def handleSosVisual_def flashlightOff_fields)
  have "sosConsistent flashlightOff"
    unfolding flashlightOff_def by (rule sosConsistent_steps[OF sosConsistent_init])
  from sos_start_pending[OF this flashlightOff_fields(3)]
  have p: "length (visualPending ?s) = 19" by (simp add: visualRun_def)
  have g: "SosVisual \<notin> set [Elapse 10000, TimeoutFire 19, ClockTick midnight]"
    "SosAudio \<notin> set [Elapse 10000, TimeoutFire 19, ClockTick midnight]"
    by simp_all
  from cancel_stops_callbacks[OF r a, of "[Elapse 10000, TimeoutFire 19, ClockTick midnight]"]
    a p g
  show ?thesis by simp
qed

section \<open>One run per channel\<close>

text \<open>
  Claim C5. After any sequence of events, the pending callbacks of the visual channel are
  among the timeouts of one scheduling pass, the one whose ids \<open>sosTimeoutRef\<close> holds, and
  likewise for the audio channel and \<open>sosAudioTimeoutRef\<close>. Every scheduling pass, whether
  called on such a state, by switching the pattern on, or by the loop restart firing,
  leaves exactly its own timeouts pending on its channel: those of the pass before are
  cleared first. The ids of a pass are the 19 (visual) or 10 (audio) next ones.
\<close>

theorem one_run_per_channel:
  assumes "s = steps es (init rp ac now)"
  shows "(visualPending s = []
          \<or> (\<exists>b c. sosTimeoutRef s = map tid (visualRun b c)
                    \<and> set (visualPending s) \<subseteq> set (visualRun b c))) \<and>
         (audioPending s = []
          \<or> (\<exists>b c. sosAudioTimeoutRef s = map tid (audioRun b c)
                    \<and> set (audioPending s) \<subseteq> set (audioRun b c))) \<and>
         visualPending (schedulePatternVisual s) = visualRun (lastTimerId s) (clock s) \<and>
         audioPending (schedulePatternAudio s) = audioRun (lastTimerId s) (clock s) \<and>
         (\<not> isSosActive s \<longrightarrow>
            visualPending (step SosVisual s) = visualRun (lastTimerId s) (clock s)) \<and>
         (find (\<lambda>x. tid x = i) (timers s) = Some t \<and> due t \<le> clock s \<and> run t = VisualLoop \<longrightarrow>
            visualPending (step (TimeoutFire i) s) = visualRun (lastTimerId s) (clock s)) \<and>
         (find (\<lambda>x. tid x = i) (timers s) = Some t \<and> due t \<le> clock s \<and> run t = AudioLoop \<longrightarrow>
            audioPending (step (TimeoutFire i) s) = audioRun (lastTimerId s) (clock s)) \<and>
         map tid (visualRun b c) = map (\<lambda>k. b + 1 + k) [0..<19] \<and>
         map tid (audioRun b c) = map (\<lambda>k. b + 1 + k) [0..<10]"
proof -
  have c: "sosConsistent s"
    unfolding assms(1) by (rule sosConsistent_steps[OF sosConsistent_init])
  then have ro: "runsOwned s" by (simp add: sosConsistent_iff)
  have i: "map tid (visualRun b c) = map (\<lambda>k. b + 1 + k) [0..<19]"
    "map tid (audioRun b c) = map (\<lambda>k. b + 1 + k) [0..<10]"
    by (simp_all add: visualRun_def audioRun_explicit upt_rec[of _ "numeral _"])
  have st: "\<not> isSosActive s \<longrightarrow>
            visualPending (step SosVisual s) = visualRun (lastTimerId s) (clock s)"
    using sos_start_pending[OF c] by simp
  have lp: "find (\<lambda>x. tid x = i) (timers s) = Some t \<and> due t \<le> clock s \<and> run t = VisualLoop \<longrightarrow>
            visualPending (step (TimeoutFire i) s) = visualRun (lastTimerId s) (clock s)"
    "find (\<lambda>x. tid x = i) (timers s) = Some t \<and> due t \<le> clock s \<and> run t = AudioLoop \<longrightarrow>
            audioPending (step (TimeoutFire i) s) = audioRun (lastTimerId s) (clock s)"
    using sos_loop_pending[OF c, of i t] by blast+
  from ro schedulePatternVisual_pending(1)[OF ro] schedulePatternAudio_pending(1)[OF ro] i st lp
  show ?thesis by (simp add: runsOwned_def)
qed

theorem one_run_per_channel_witness:
  "\<not> isSosActive flashlightOff \<and>
   visualPending (step SosVisual flashlightOff)
     = visualRun (lastTimerId flashlightOff) (clock flashlightOff) \<and>
   length (visualRun (lastTimerId flashlightOff) (clock flashlightOff)) = 19"
proof -
  have "length (visualRun (lastTimerId flashlightOff) (clock flashlightOff)) = 19"
    by (simp add: visualRun_def)
  with one_run_per_channel[OF flashlightOff_def, of 0 "\<lparr>tid = 0, due = 0, run = VisualLoop\<rparr>" 0 0] flashlightOff_fields(3)
  show ?thesis by simp
qed

section \<open>The audio schedule of the SOS pattern\<close>

text \<open>
  Claim C6. One pass of the audio \<open>schedulePattern\<close> registers, after clearing the timeouts
  of the pass before, a tone start for the steps that are on and for no other: 9 of the 18,
  at the sum of the durations of the steps before (0, 400, 800, 1700, 2500, 3300, 4600,
  5000, 5400 ms), each with the duration of its step, and then the loop restart at 7600
  ms. A tone start plays 660 Hz for that duration. No event removes a started tone:
  clearing the audio timeouts, also right after a tone start, and the back click leave the
  tones as they are, and after any event the tones started before are still there.
\<close>

theorem sos_audio_schedule:
  "timers (schedulePatternAudio s) =
     timers (clearAudioSosTimeouts s) @ audioRun (lastTimerId s) (clock s) \<and>
   audioRun b c =
     [\<lparr>tid = b + 1, due = c, run = PlayTone 200\<rparr>,
      \<lparr>tid = b + 2, due = c + 400, run = PlayTone 200\<rparr>,
      \<lparr>tid = b + 3, due = c + 800, run = PlayTone 200\<rparr>,
      \<lparr>tid = b + 4, due = c + 1700, run = PlayTone 600\<rparr>,
      \<lparr>tid = b + 5, due = c + 2500, run = PlayTone 600\<rparr>,
      \<lparr>tid = b + 6, due = c + 3300, run = PlayTone 600\<rparr>,
      \<lparr>tid = b + 7, due = c + 4600, run = PlayTone 200\<rparr>,
      \<lparr>tid = b + 8, due = c + 5000, run = PlayTone 200\<rparr>,
      \<lparr>tid = b + 9, due = c + 5400, run = PlayTone 200\<rparr>,
      \<lparr>tid = b + 10, due = c + 7600, run = AudioLoop\<rparr>] \<and>
   filter (\<lambda>k. on (sosPattern ! k)) [0..<18] = [0, 2, 4, 6, 8, 10, 12, 14, 16] \<and>
   length (filter on sosPattern) = 9 \<and>
   runCallback (PlayTone d) s' =
     s'\<lparr>tones := tones s' @ [\<lparr>frequency = 660, startedAt = clock s', lengthMs = d\<rparr>]\<rparr> \<and>
   runCallback AudioLoop s' = schedulePatternAudio s' \<and>
   tones (clearAudioSosTimeouts s') = tones s' \<and>
   tones (clearAudioSosTimeouts (runCallback (PlayTone d) s')) =
     tones s' @ [\<lparr>frequency = 660, startedAt = clock s', lengthMs = d\<rparr>] \<and>
   tones (step BackClick s') = tones s' \<and>
   take (length (tones s')) (tones (step e s')) = tones s'"
proof -
  have 1: "timers (schedulePatternAudio s) =
     timers (clearAudioSosTimeouts s) @ audioRun (lastTimerId s) (clock s)"
    by (simp add: schedulePatternAudio_run clearAudioSosTimeouts_eq)
  have 2: "filter (\<lambda>k. on (sosPattern ! k)) [0..<18] = [0, 2, 4, 6, 8, 10, 12, 14, 16]"
    "length (filter on sosPattern) = 9"
    by (simp_all add: sosPattern_def upt_rec[of _ "numeral _"])
  have 3: "runCallback (PlayTone d) s' =
     s'\<lparr>tones := tones s' @ [\<lparr>frequency = 660, startedAt = clock s', lengthMs = d\<rparr>]\<rparr>"
    "runCallback AudioLoop s' = schedulePatternAudio s'"
    by (simp_all add: runCallback_def playTone_def)
  have 4: "tones (step BackClick s') = tones s'"
    by (simp add: step_frame handle_def handleBackClick_def Let_def)
  have 5: "take (length (tones s')) (tones (step e s')) = tones s'"
    by (simp add: step_frame tones_handle)
  from 1 2 3 4 5 show ?thesis
    by (simp add: audioRun_explicit)
qed

theorem sos_audio_schedule_witness:
  "timers (schedulePatternAudio flashlightOff) =
     timers (clearAudioSosTimeouts flashlightOff)
       @ audioRun (lastTimerId flashlightOff) (clock flashlightOff) \<and>
   tones (runCallback (PlayTone 200) flashlightOff)
     = [\<lparr>frequency = 660, startedAt = 0, lengthMs = 200\<rparr>] \<and>
   tones (step BackClick (runCallback (PlayTone 200) flashlightOff))
     = [\<lparr>frequency = 660, startedAt = 0, lengthMs = 200\<rparr>]"
  using sos_audio_schedule[of flashlightOff 0 0 200 flashlightOff BackClick]
    sos_audio_schedule[of flashlightOff 0 0 200 "runCallback (PlayTone 200) flashlightOff" BackClick]
    flashlightOff_fields(4,5)
  by simp

section \<open>The countdown preset\<close>

text \<open>
  Claim C7. After any run of the application, \<open>handleSetPreset(1)\<close> gives countdown mode,
  60 seconds, active and not finished. Of the ticks of the timer interval that follow, the
  k-th leaves \<open>60 - k\<close> seconds, active and not finished, for \<open>k < 60\<close>; the 60th leaves
  0 seconds, inactive and finished, and every later tick changes none of the three: the
  counter does not go below 0, and \<open>timerFinished\<close> was false before the 60th tick and is
  true from it on.
\<close>

theorem countdown_preset:
  "timerMode (step (SetPreset 1) (steps es (init rp ac now))) = Countdown \<and>
   timerSeconds (step (SetPreset 1) (steps es (init rp ac now))) = 60 \<and>
   isTimerActive (step (SetPreset 1) (steps es (init rp ac now))) \<and>
   \<not> timerFinished (step (SetPreset 1) (steps es (init rp ac now))) \<and>
   (\<forall>k. timerSeconds (steps (replicate k TimerTick) (step (SetPreset 1) (steps es (init rp ac now))))
          = (if k < 60 then 60 - int k else 0) \<and>
        isTimerActive (steps (replicate k TimerTick) (step (SetPreset 1) (steps es (init rp ac now))))
          = (k < 60) \<and>
        timerFinished (steps (replicate k TimerTick) (step (SetPreset 1) (steps es (init rp ac now))))
          = (60 \<le> k))"
proof -
  let ?s0 = "steps es (init rp ac now)"
  let ?s1 = "step (SetPreset 1) ?s0"
  have c0: "timerConsistent ?s0" by (rule timerConsistent_steps[OF timerConsistent_init])
  have c1: "timerConsistent ?s1" by (rule timerConsistent_step[OF c0])
  note p = preset_state[OF c0]
  have "timerSeconds ?s1 = int 60" using p by simp
  from countdown_run[OF c1 _ _ _ this] p show ?thesis by simp
qed

theorem countdown_preset_witness:
  "timerSeconds (steps (replicate 60 TimerTick) (step (SetPreset 1) (steps [StartClick, HologramSelect Timer] (init False False midnight)))) = 0 \<and>
   timerFinished (steps (replicate 60 TimerTick) (step (SetPreset 1) (steps [StartClick, HologramSelect Timer] (init False False midnight)))) \<and>
   timerSeconds (steps (replicate 59 TimerTick) (step (SetPreset 1) (steps [StartClick, HologramSelect Timer] (init False False midnight)))) = 1"
  using countdown_preset[of "[StartClick, HologramSelect Timer]" False False midnight]
  by simp



section \<open>Detecting the sensor\<close>

text \<open>
  An activation that starts with no \<open>deviceorientation\<close> listener registered. After any
  sequence of events the application shows the menu, in the checking state and with no
  listener registered, and a sensor feature is entered; then time passes and the clock of
  the page ticks, in any order (the events \<open>es1\<close>). Entering registers the detection
  listener and the timeout at 1000 ms, and they stay registered while time passes. If an
  event arrives before the timeout has fired, \<open>sensorSupportState\<close> becomes supported if
  one of \<open>alpha\<close>, \<open>beta\<close>, \<open>gamma\<close> of the event is not null and unsupported otherwise,
  the timeout is no longer pending and no detection listener is registered. The timeout
  does not fire before 1000 ms have passed. If it fires, \<open>sensorSupportState\<close> becomes
  unsupported and no detection listener is registered, and it stays unsupported under
  every sequence of events without a back click.
\<close>

lemma capability_detection_clean:
  assumes "s0 = steps es0 (init rp ac now)"
    and "activeHologram s0 = HNone" and "sensorSupportState s0 = Checking"
    and "listeners s0 = []" and "h = SpiritLevel \<or> h = Compass"
    and "list_all passing es1"
  shows "sensorSupportState (steps es1 (step (HologramSelect h) s0)) = Checking \<and>
         listeners (steps es1 (step (HologramSelect h) s0)) = [(Suc (nextFn s0), Detect)] \<and>
         \<lparr>tid = Suc (lastTimerId s0), due = clock s0 + 1000, run = SensorTimeout (Suc (nextFn s0))\<rparr>
           \<in> set (timers (steps es1 (step (HologramSelect h) s0))) \<and>
         sensorSupportState (step (OrientationEvent ev) (steps es1 (step (HologramSelect h) s0)))
           = (if hasData ev then Supported else Unsupported) \<and>
         Suc (lastTimerId s0)
           \<notin> tid ` set (timers (step (OrientationEvent ev) (steps es1 (step (HologramSelect h) s0)))) \<and>
         detectListeners (step (OrientationEvent ev) (steps es1 (step (HologramSelect h) s0))) = [] \<and>
         (clock (steps es1 (step (HologramSelect h) s0)) < clock s0 + 1000 \<longrightarrow>
            step (TimeoutFire (Suc (lastTimerId s0))) (steps es1 (step (HologramSelect h) s0))
              = steps es1 (step (HologramSelect h) s0)) \<and>
         (clock s0 + 1000 \<le> clock (steps es1 (step (HologramSelect h) s0)) \<longrightarrow>
            sensorSupportState
              (step (TimeoutFire (Suc (lastTimerId s0))) (steps es1 (step (HologramSelect h) s0)))
              = Unsupported \<and>
            detectListeners
              (step (TimeoutFire (Suc (lastTimerId s0))) (steps es1 (step (HologramSelect h) s0)))
              = [] \<and>
            (BackClick \<notin> set es \<longrightarrow>
               sensorSupportState
                 (steps es (step (TimeoutFire (Suc (lastTimerId s0)))
                    (steps es1 (step (HologramSelect h) s0))))
                 = Unsupported))"
proof -
  let ?s1 = "step (HologramSelect h) s0"
  let ?t = "Suc (lastTimerId s0)"
  let ?l = "Suc (nextFn s0)"
  let ?T = "\<lparr>tid = ?t, due = clock s0 + 1000, run = SensorTimeout ?l\<rparr>"
  let ?y = "steps es1 ?s1"
  have ids: "\<forall>t\<in>set (timers s0). tid t \<le> lastTimerId s0"
    unfolding assms(1) using ids_steps[of es0 rp ac now] by (simp add: idsIssued_iff)
  note en = enter_sensor[OF assms(2,3,4,5)]
  from en(4) obtain old where old: "set old \<subseteq> set (timers s0)" "timers ?s1 = old @ [?T]"
    by blast
  have oldid: "\<forall>x\<in>set old. tid x \<noteq> ?t"
    using old(1) ids by fastforce
  note sp = steps_passing[OF assms(6), of ?s1]
  have y: "?y = ?s1\<lparr>clock := clock ?y, currentDateTime := currentDateTime ?y,
                     isAlarmRinging := isAlarmRinging ?y\<rparr>"
    using sp by simp
  have yf: "listeners ?y = [(?l, Detect)]" "sensorCheckTimeoutRef ?y = Some ?t"
    "timers ?y = old @ [?T]" "sensorSupportState ?y = Checking"
    by (subst y, simp add: en old(2))+
  \<comment> \<open>the event arrives first\<close>
  let ?h2 = "handle (OrientationEvent ev) ?y"
  have h2: "?h2 = detectListener ?l ev ?y"
    by (simp add: handle_def dispatchOrientation_def yf(1))
  have h2s: "sensorSupportState ?h2 = (if hasData ev then Supported else Unsupported)"
    by (simp add: h2 detectListener_def Let_def yf(2) hasData_def removeEventListener_def)
  have h2l: "listeners ?h2 = []"
    by (simp add: h2 detectListener_def Let_def yf(1,2) removeEventListener_def)
  have h2t: "timers ?h2 = old"
    using oldid by (simp add: h2 detectListener_def Let_def yf(2,3) removeEventListener_def
        clearTimeout_def)
  have nc: "sensorSupportState ?h2 \<noteq> Checking" by (simp add: h2s)
  have ev1: "sensorSupportState (step (OrientationEvent ev) ?y)
               = (if hasData ev then Supported else Unsupported)"
    by (simp add: step_frame h2s)
  have ev3: "detectListeners (step (OrientationEvent ev) ?y) = []"
    using detectListeners_commit[OF nc, of ?y] h2l
    by (simp add: step_def[of "OrientationEvent ev" ?y] detectListeners_def)
  have "set (timers (commit ?y ?h2)) \<subseteq> set (timers ?h2)"
    by (rule timers_commit_sensor_only) (simp_all add: h2 nc[unfolded h2])
  then have "set (timers (step (OrientationEvent ev) ?y)) \<subseteq> set old"
    by (simp only: step_def[of "OrientationEvent ev" ?y] h2t)
  then have ev2: "?t \<notin> tid ` set (timers (step (OrientationEvent ev) ?y))"
    using oldid by auto
  \<comment> \<open>the timeout is not due yet\<close>
  have fnd: "find (\<lambda>x. tid x = ?t) (timers ?y) = Some ?T"
    by (simp add: yf(3) find_append_last[OF oldid])
  have early: "clock ?y < clock s0 + 1000 \<longrightarrow> step (TimeoutFire ?t) ?y = ?y"
  proof
    assume "clock ?y < clock s0 + 1000"
    then have "handle (TimeoutFire ?t) ?y = ?y"
      by (simp add: handle_def fireTimeout_def fnd)
    then show "step (TimeoutFire ?t) ?y = ?y"
      by (simp only: step_def[of "TimeoutFire ?t" ?y] commit_def effectsPass_same)
  qed
  \<comment> \<open>the timeout fires first\<close>
  have late: "sensorSupportState (step (TimeoutFire ?t) ?y) = Unsupported \<and>
              detectListeners (step (TimeoutFire ?t) ?y) = [] \<and>
              (BackClick \<notin> set es \<longrightarrow>
                 sensorSupportState (steps es (step (TimeoutFire ?t) ?y)) = Unsupported)"
    if d: "clock s0 + 1000 \<le> clock ?y"
  proof -
    let ?h3 = "handle (TimeoutFire ?t) ?y"
    have h3: "?h3 = sensorTimeout ?l (clearTimeout ?t ?y)"
      using d by (simp add: handle_def fireTimeout_def fnd runCallback_def)
    have h3s: "sensorSupportState ?h3 = Unsupported"
      by (simp add: h3 sensorTimeout_def removeEventListener_def)
    have h3l: "listeners ?h3 = []"
      by (simp add: h3 sensorTimeout_def removeEventListener_def yf(1))
    have nc3: "sensorSupportState ?h3 \<noteq> Checking" by (simp add: h3s)
    have a: "sensorSupportState (step (TimeoutFire ?t) ?y) = Unsupported"
      by (simp add: step_frame h3s)
    have b: "detectListeners (step (TimeoutFire ?t) ?y) = []"
      using detectListeners_commit[OF nc3, of ?y] h3l
      by (simp add: step_def[of "TimeoutFire ?t" ?y] detectListeners_def)
    from unsupported_steps[OF a b] a b show ?thesis by blast
  qed
  have "\<lparr>tid = ?t, due = clock s0 + 1000, run = SensorTimeout ?l\<rparr> \<in> set (timers ?y)"
    by (simp add: yf(3))
  with yf(1,4) ev1 ev2 ev3 early late show ?thesis by blast
qed

lemma capability_detection_clean_example:
  "menu0 = steps [StartClick] (init True False midnight) \<and>
   activeHologram menu0 = HNone \<and> sensorSupportState menu0 = Checking \<and> listeners menu0 = [] \<and>
   list_all passing [ClockTick midnight, Elapse 10] \<and>
   sensorSupportState (step (OrientationEvent tilted)
     (steps [ClockTick midnight, Elapse 10] (step (HologramSelect SpiritLevel) menu0))) = Supported \<and>
   clock (steps [ClockTick midnight, Elapse 10] (step (HologramSelect SpiritLevel) menu0))
     < clock menu0 + 1000 \<and>
   step (TimeoutFire (Suc (lastTimerId menu0)))
     (steps [ClockTick midnight, Elapse 10] (step (HologramSelect SpiritLevel) menu0))
     = steps [ClockTick midnight, Elapse 10] (step (HologramSelect SpiritLevel) menu0) \<and>
   list_all passing [Elapse 1000, ClockTick midnight] \<and>
   clock menu0 + 1000
     \<le> clock (steps [Elapse 1000, ClockTick midnight] (step (HologramSelect SpiritLevel) menu0)) \<and>
   BackClick \<notin> set [ClockTick midnight, OrientationEvent tilted] \<and>
   sensorSupportState (steps [ClockTick midnight, OrientationEvent tilted]
     (step (TimeoutFire (Suc (lastTimerId menu0)))
        (steps [Elapse 1000, ClockTick midnight] (step (HologramSelect SpiritLevel) menu0))))
     = Unsupported"
proof -
  have a: "activeHologram menu0 = HNone" by code_simp
  have b: "sensorSupportState menu0 = Checking" by code_simp
  have c: "listeners menu0 = []" by code_simp
  have r: "menu0 = steps [StartClick] (init True False midnight)"
    by (simp add: menu0_def steps_def)
  have e: "SpiritLevel = SpiritLevel \<or> SpiritLevel = Compass" by simp
  have f: "hasData tilted" by (simp add: hasData_def tilted_def)
  have g: "BackClick \<notin> set [ClockTick midnight, OrientationEvent tilted]" by simp
  have p1: "list_all passing [ClockTick midnight, Elapse 10]" by (simp add: passing_def)
  have p2: "list_all passing [Elapse 1000, ClockTick midnight]" by (simp add: passing_def)
  have k1: "clock (steps [ClockTick midnight, Elapse 10] (step (HologramSelect SpiritLevel) menu0))
              < clock menu0 + 1000"
    by code_simp
  have k2: "clock menu0 + 1000
     \<le> clock (steps [Elapse 1000, ClockTick midnight] (step (HologramSelect SpiritLevel) menu0))"
    by code_simp
  from capability_detection_clean[OF r a b c e p1, of tilted]
       capability_detection_clean[OF r a b c e p2, of tilted "[ClockTick midnight, OrientationEvent tilted]"]
       r a b c f g p1 p2 k1 k2
  show ?thesis by simp
qed

text \<open>
  Claim C8 asks that, when no event arrives within 1000 ms of entering the checking state,
  the capability becomes unsupported and stays unsupported for the rest of the activation.
  The code does not keep it when an earlier activation was left during its check, since
  the detection listener of that activation is still registered. On the run below the
  spirit level is entered and left at once, and entered again; 1000 ms pass without an
  event and the timeout of the second activation fires, so the capability is unsupported;
  then an event with data arrives, the listener of the first activation runs, and the
  capability is supported, in the same activation and with no back click in between.
\<close>

theorem stale_listener_overrides_unsupported:
  "sensorSupportState (steps 
     [StartClick, HologramSelect SpiritLevel, BackClick, HologramSelect SpiritLevel, Elapse 1000] (init False False midnight)) = Checking \<and>
   listeners (steps 
     [StartClick, HologramSelect SpiritLevel, BackClick, HologramSelect SpiritLevel, Elapse 1000] (init False False midnight)) = [(2, Detect), (5, Detect)] \<and>
   activeHologram (steps 
     [StartClick, HologramSelect SpiritLevel, BackClick, HologramSelect SpiritLevel, Elapse 1000, TimeoutFire 2] (init False False midnight)) = SpiritLevel \<and>
   sensorSupportState (steps 
     [StartClick, HologramSelect SpiritLevel, BackClick, HologramSelect SpiritLevel, Elapse 1000, TimeoutFire 2] (init False False midnight)) = Unsupported \<and>
   listeners (steps 
     [StartClick, HologramSelect SpiritLevel, BackClick, HologramSelect SpiritLevel, Elapse 1000, TimeoutFire 2] (init False False midnight)) = [(2, Detect)] \<and>
   activeHologram (steps 
     [StartClick, HologramSelect SpiritLevel, BackClick, HologramSelect SpiritLevel, Elapse 1000, TimeoutFire 2, OrientationEvent tilted] (init False False midnight))
     = SpiritLevel \<and>
   sensorSupportState (steps 
     [StartClick, HologramSelect SpiritLevel, BackClick, HologramSelect SpiritLevel, Elapse 1000, TimeoutFire 2, OrientationEvent tilted] (init False False midnight))
     = Supported"
proof -
  have a: "sensorSupportState (steps 
     [StartClick, HologramSelect SpiritLevel, BackClick, HologramSelect SpiritLevel, Elapse 1000] (init False False midnight)) = Checking"
    by code_simp
  have b: "listeners (steps 
     [StartClick, HologramSelect SpiritLevel, BackClick, HologramSelect SpiritLevel, Elapse 1000] (init False False midnight)) = [(2, Detect), (5, Detect)]"
    by code_simp
  have c: "activeHologram (steps 
     [StartClick, HologramSelect SpiritLevel, BackClick, HologramSelect SpiritLevel, Elapse 1000, TimeoutFire 2] (init False False midnight)) = SpiritLevel"
    by code_simp
  have d: "sensorSupportState (steps 
     [StartClick, HologramSelect SpiritLevel, BackClick, HologramSelect SpiritLevel, Elapse 1000, TimeoutFire 2] (init False False midnight)) = Unsupported"
    by code_simp
  have e: "listeners (steps 
     [StartClick, HologramSelect SpiritLevel, BackClick, HologramSelect SpiritLevel, Elapse 1000, TimeoutFire 2] (init False False midnight)) = [(2, Detect)]"
    by code_simp
  have f: "activeHologram (steps 
     [StartClick, HologramSelect SpiritLevel, BackClick, HologramSelect SpiritLevel, Elapse 1000, TimeoutFire 2, OrientationEvent tilted] (init False False midnight))
     = SpiritLevel"
    by code_simp
  have g: "sensorSupportState (steps 
     [StartClick, HologramSelect SpiritLevel, BackClick, HologramSelect SpiritLevel, Elapse 1000, TimeoutFire 2, OrientationEvent tilted] (init False False midnight))
     = Supported"
    by code_simp
  from a b c d e f g show ?thesis by blast
qed


section \<open>Leaving and entering the sensor feature again\<close>

text \<open>
  The back click and the next selection. From any state of the spirit level or the
  compass, whatever \<open>sensorSupportState\<close> and \<open>permissionState\<close> are, the back click gives
  the menu with checking and unknown, and selecting a sensor feature afterwards, once any
  time has passed and the clock of the page has ticked any number of times (the events
  \<open>es\<close>) and nothing else has happened, starts from checking and unknown, with the
  detection listener and the timeout at 1000 ms registered anew.
\<close>

lemma sensor_reentry_direct:
  assumes "appState s = Hologram"
    and "activeHologram s = SpiritLevel \<or> activeHologram s = Compass"
    and "h = SpiritLevel \<or> h = Compass"
    and "list_all passing es"
  shows "activeHologram (step BackClick s) = HNone \<and>
         sensorSupportState (step BackClick s) = Checking \<and>
         permissionState (step BackClick s) = Unknown \<and>
         activeHologram (step (HologramSelect h) (steps es (step BackClick s))) = h \<and>
         sensorSupportState (step (HologramSelect h) (steps es (step BackClick s))) = Checking \<and>
         permissionState (step (HologramSelect h) (steps es (step BackClick s))) = Unknown \<and>
         sensorCheckTimeoutRef (step (HologramSelect h) (steps es (step BackClick s)))
           = Some (Suc (lastTimerId s)) \<and>
         \<lparr>tid = Suc (lastTimerId s), due = clock (steps es (step BackClick s)) + 1000,
           run = SensorTimeout (nextFn s + 2)\<rparr>
           \<in> set (timers (step (HologramSelect h) (steps es (step BackClick s)))) \<and>
         (nextFn s + 2, Detect)
           \<in> set (listeners (step (HologramSelect h) (steps es (step BackClick s))))"
proof -
  let ?c = "step BackClick s"
  let ?b = "steps es ?c"
  let ?hb = "s\<lparr>permissionState := Unknown, sensorSupportState := Checking,
                activeHologram := HNone, appState := Menu\<rparr>"
  have b0: "?c = (sensorCleanup ?hb)\<lparr>handleOrientationFn := nextFn s, nextFn := Suc (nextFn s)\<rparr>"
    by (simp add: step_back_sensor[OF assms(1,2)] sensorEffect_idle)
  have b01: "activeHologram ?c = HNone" "sensorSupportState ?c = Checking"
    "permissionState ?c = Unknown" "nextFn ?c = Suc (nextFn s)" "lastTimerId ?c = lastTimerId s"
    by (simp_all add: b0)
  note sp = steps_passing[OF assms(4), of ?c]
  have y: "?b = ?c\<lparr>clock := clock ?b, currentDateTime := currentDateTime ?b,
                     isAlarmRinging := isAlarmRinging ?b\<rparr>"
    by (rule conjunct1[OF sp])
  have b1: "activeHologram ?b = HNone" "sensorSupportState ?b = Checking"
    "permissionState ?b = Unknown" "nextFn ?b = Suc (nextFn s)" "lastTimerId ?b = lastTimerId s"
    by (subst y, simp add: b01)+
  let ?x = "sensorCleanup (?b\<lparr>activeHologram := h, appState := Hologram\<rparr>)"
  have x: "activeHologram ?x = SpiritLevel \<or> activeHologram ?x = Compass"
    "sensorSupportState ?x = Checking"
    using assms(3) by (simp_all add: b1)
  have e: "step (HologramSelect h) ?b = sensorEffect ?x"
    by (rule step_select_sensor[OF b1(1,2) assms(3)])
  have f: "activeHologram (sensorEffect ?x) = h" "sensorSupportState (sensorEffect ?x) = Checking"
    by (simp_all add: b1)
  have g: "permissionState (sensorEffect ?x) = Unknown"
    by (simp add: permissionState_sensorEffect_idle(2) b1)
  have k: "sensorCheckTimeoutRef (sensorEffect ?x) = Some (Suc (lastTimerId s))"
    "\<lparr>tid = Suc (lastTimerId s), due = clock ?b + 1000, run = SensorTimeout (nextFn s + 2)\<rparr>
           \<in> set (timers (sensorEffect ?x))"
    "(nextFn s + 2, Detect) \<in> set (listeners (sensorEffect ?x))"
    by (simp_all add: sensorEffect_checking[OF x] b1)
  show ?thesis
    by (simp only: e b01 f g k simp_thms)
qed

lemma sensor_reentry_direct_example:
  "appState (steps [StartClick, HologramSelect SpiritLevel, OrientationEvent tilted] (init False False midnight)) = Hologram \<and>
   activeHologram (steps [StartClick, HologramSelect SpiritLevel, OrientationEvent tilted] (init False False midnight)) = SpiritLevel \<and>
   sensorSupportState (steps [StartClick, HologramSelect SpiritLevel, OrientationEvent tilted] (init False False midnight)) = Supported \<and>
   permissionState (steps [StartClick, HologramSelect SpiritLevel, OrientationEvent tilted] (init False False midnight)) = Granted \<and>
   list_all passing [Elapse 2500, ClockTick midnight] \<and>
   sensorSupportState (step (HologramSelect Compass) (steps [Elapse 2500, ClockTick midnight] (step BackClick
     (steps [StartClick, HologramSelect SpiritLevel, OrientationEvent tilted] (init False False midnight))))) = Checking \<and>
   permissionState (step (HologramSelect Compass) (steps [Elapse 2500, ClockTick midnight] (step BackClick
     (steps [StartClick, HologramSelect SpiritLevel, OrientationEvent tilted] (init False False midnight))))) = Unknown"
proof -
  let ?s = "steps [StartClick, HologramSelect SpiritLevel, OrientationEvent tilted] (init False False midnight)"
  have a: "appState ?s = Hologram" by code_simp
  have b: "activeHologram ?s = SpiritLevel" by code_simp
  have c: "sensorSupportState ?s = Supported" by code_simp
  have d: "permissionState ?s = Granted" by code_simp
  have b': "activeHologram ?s = SpiritLevel \<or> activeHologram ?s = Compass" using b by simp
  have e: "Compass = SpiritLevel \<or> Compass = Compass" by simp
  have p: "list_all passing [Elapse 2500, ClockTick midnight]" by (simp add: passing_def)
  from sensor_reentry_direct[OF a b' e p] a b c d p show ?thesis by blast
qed

text \<open>
  Claim C9 asks that leaving a sensor feature and entering it again always starts from
  checking and unknown, whatever the outcome of the activation before. The code does not
  when a callback of an earlier activation runs between the exit and the entry. On the
  first run below an activation was left during its check, the next one ended unsupported
  by its timeout and is left; in the menu an event with data arrives, the detection
  listener of the first activation runs, and the spirit level entered next starts from
  supported and granted, without a check. On the second run, on a platform with
  \<open>DeviceMotionEvent.requestPermission\<close>, the activation ended supported with the
  permission prompt and a request pending; the request is answered after the exit, and the
  spirit level entered next starts from checking and granted.
\<close>

theorem reentry_after_stale_callback:
  "activeHologram (steps 
     [StartClick, HologramSelect SpiritLevel, BackClick, HologramSelect SpiritLevel, Elapse 1000,
      TimeoutFire 2, BackClick] (init False False midnight)) = HNone \<and>
   sensorSupportState (steps 
     [StartClick, HologramSelect SpiritLevel, BackClick, HologramSelect SpiritLevel, Elapse 1000,
      TimeoutFire 2, BackClick] (init False False midnight)) = Checking \<and>
   permissionState (steps 
     [StartClick, HologramSelect SpiritLevel, BackClick, HologramSelect SpiritLevel, Elapse 1000,
      TimeoutFire 2, BackClick] (init False False midnight)) = Unknown \<and>
   sensorSupportState (steps 
     [StartClick, HologramSelect SpiritLevel, BackClick, HologramSelect SpiritLevel, Elapse 1000,
      TimeoutFire 2, BackClick, OrientationEvent tilted] (init False False midnight))
     = Supported \<and>
   activeHologram (steps 
     [StartClick, HologramSelect SpiritLevel, BackClick, HologramSelect SpiritLevel, Elapse 1000,
      TimeoutFire 2, BackClick, OrientationEvent tilted, HologramSelect SpiritLevel]
     (init False False midnight)) = SpiritLevel \<and>
   sensorSupportState (steps 
     [StartClick, HologramSelect SpiritLevel, BackClick, HologramSelect SpiritLevel, Elapse 1000,
      TimeoutFire 2, BackClick, OrientationEvent tilted, HologramSelect SpiritLevel]
     (init False False midnight)) = Supported \<and>
   permissionState (steps 
     [StartClick, HologramSelect SpiritLevel, BackClick, HologramSelect SpiritLevel, Elapse 1000,
      TimeoutFire 2, BackClick, OrientationEvent tilted, HologramSelect SpiritLevel]
     (init False False midnight)) = Granted \<and>
   sensorSupportState (steps 
     [StartClick, HologramSelect SpiritLevel, OrientationEvent tilted, PermissionRequest] (init True False midnight)) = Supported \<and>
   permissionState (steps 
     [StartClick, HologramSelect SpiritLevel, OrientationEvent tilted, PermissionRequest] (init True False midnight)) = Prompt \<and>
   permissionState (steps 
     [StartClick, HologramSelect SpiritLevel, OrientationEvent tilted, PermissionRequest, BackClick] (init True False midnight)) = Unknown \<and>
   sensorSupportState (steps 
     [StartClick, HologramSelect SpiritLevel, OrientationEvent tilted, PermissionRequest, BackClick, PermissionResolved True, HologramSelect SpiritLevel]
     (init True False midnight)) = Checking \<and>
   permissionState (steps 
     [StartClick, HologramSelect SpiritLevel, OrientationEvent tilted, PermissionRequest, BackClick, PermissionResolved True, HologramSelect SpiritLevel]
     (init True False midnight)) = Granted"
proof -
  have a: "activeHologram (steps 
     [StartClick, HologramSelect SpiritLevel, BackClick, HologramSelect SpiritLevel, Elapse 1000,
      TimeoutFire 2, BackClick] (init False False midnight)) = HNone"
    by code_simp
  have b: "sensorSupportState (steps 
     [StartClick, HologramSelect SpiritLevel, BackClick, HologramSelect SpiritLevel, Elapse 1000,
      TimeoutFire 2, BackClick] (init False False midnight)) = Checking"
    by code_simp
  have c: "permissionState (steps 
     [StartClick, HologramSelect SpiritLevel, BackClick, HologramSelect SpiritLevel, Elapse 1000,
      TimeoutFire 2, BackClick] (init False False midnight)) = Unknown"
    by code_simp
  have d: "sensorSupportState (steps 
     [StartClick, HologramSelect SpiritLevel, BackClick, HologramSelect SpiritLevel, Elapse 1000,
      TimeoutFire 2, BackClick, OrientationEvent tilted] (init False False midnight))
     = Supported"
    by code_simp
  have e: "activeHologram (steps 
     [StartClick, HologramSelect SpiritLevel, BackClick, HologramSelect SpiritLevel, Elapse 1000,
      TimeoutFire 2, BackClick, OrientationEvent tilted, HologramSelect SpiritLevel]
     (init False False midnight)) = SpiritLevel"
    by code_simp
  have f: "sensorSupportState (steps 
     [StartClick, HologramSelect SpiritLevel, BackClick, HologramSelect SpiritLevel, Elapse 1000,
      TimeoutFire 2, BackClick, OrientationEvent tilted, HologramSelect SpiritLevel]
     (init False False midnight)) = Supported"
    by code_simp
  have g: "permissionState (steps 
     [StartClick, HologramSelect SpiritLevel, BackClick, HologramSelect SpiritLevel, Elapse 1000,
      TimeoutFire 2, BackClick, OrientationEvent tilted, HologramSelect SpiritLevel]
     (init False False midnight)) = Granted"
    by code_simp
  have h: "sensorSupportState (steps 
     [StartClick, HologramSelect SpiritLevel, OrientationEvent tilted, PermissionRequest] (init True False midnight)) = Supported"
    by code_simp
  have i: "permissionState (steps 
     [StartClick, HologramSelect SpiritLevel, OrientationEvent tilted, PermissionRequest] (init True False midnight)) = Prompt"
    by code_simp
  have j: "permissionState (steps 
     [StartClick, HologramSelect SpiritLevel, OrientationEvent tilted, PermissionRequest, BackClick] (init True False midnight)) = Unknown"
    by code_simp
  have k: "sensorSupportState (steps 
     [StartClick, HologramSelect SpiritLevel, OrientationEvent tilted, PermissionRequest, BackClick, PermissionResolved True, HologramSelect SpiritLevel]
     (init True False midnight)) = Checking"
    by code_simp
  have l: "permissionState (steps 
     [StartClick, HologramSelect SpiritLevel, OrientationEvent tilted, PermissionRequest, BackClick, PermissionResolved True, HologramSelect SpiritLevel]
     (init True False midnight)) = Granted"
    by code_simp
  from a b c d e f g h i j k l show ?thesis by blast
qed

section \<open>Leaving the timer feature\<close>




end
